theory Spec2Isabelle
  imports Main "HOL-Library.Word"
begin

section \<open>Experiment.h: enumerations and sizes\<close>

type_synonym u8 = "8 word"
type_synonym u32 = "32 word"

datatype operating_mode =
    ST_WAIT_BUTTON_DEP
  | ST_WAIT_BUTTON_REL
  | ST_SET_PATTERN
  | ST_SET_START_ADDR
  | ST_SET_START_WAIT
  | ST_CMD_ERASE_START
  | ST_CMD_ERASE_DONE
  | ST_CMD_PAGE_START
  | ST_CMD_PAGE_DONE
  | ST_CMD_READ_START
  | ST_CMD_READ_DONE
  | ST_DISPLAY_FINAL
  | OPERATING_MODE_NONE

datatype test_pattern =
    TEST_PATTERN_A
  | TEST_PATTERN_B
  | TEST_PATTERN_C
  | TEST_PATTERN_D
  | TEST_PATTERN_NONE

record cls_lines =
  line1 :: string
  line2 :: string

definition PRINTF_BUF_SZ :: nat where
  "PRINTF_BUF_SZ = 34"

section \<open>Experiment.c: constants\<close>

definition SWTCH0_MASK :: u32 where "SWTCH0_MASK = 0x01"
definition SWTCH1_MASK :: u32 where "SWTCH1_MASK = 0x02"
definition SWTCH2_MASK :: u32 where "SWTCH2_MASK = 0x04"
definition SWTCH3_MASK :: u32 where "SWTCH3_MASK = 0x08"
definition BTN0_MASK :: u32 where "BTN0_MASK = 0x01"
definition BTN1_MASK :: u32 where "BTN1_MASK = 0x02"
definition BTN2_MASK :: u32 where "BTN2_MASK = 0x04"
definition BTN3_MASK :: u32 where "BTN3_MASK = 0x08"

definition sf3_test_pattern_startval_a :: u8 where "sf3_test_pattern_startval_a = 0x00"
definition sf3_test_pattern_incrval_a :: u8 where "sf3_test_pattern_incrval_a = 0x01"
definition sf3_test_pattern_startval_b :: u8 where "sf3_test_pattern_startval_b = 0x08"
definition sf3_test_pattern_incrval_b :: u8 where "sf3_test_pattern_incrval_b = 0x07"
definition sf3_test_pattern_startval_c :: u8 where "sf3_test_pattern_startval_c = 0x10"
definition sf3_test_pattern_incrval_c :: u8 where "sf3_test_pattern_incrval_c = 0x0F"
definition sf3_test_pattern_startval_d :: u8 where "sf3_test_pattern_startval_d = 0x18"
definition sf3_test_pattern_incrval_d :: u8 where "sf3_test_pattern_incrval_d = 0x17"

definition max_possible_byte_count :: u32 where
  "max_possible_byte_count = 33554432"

definition total_iteration_count :: u32 where
  "total_iteration_count = 32"

definition per_iteration_byte_count :: u32 where
  "per_iteration_byte_count = max_possible_byte_count div total_iteration_count"

definition last_starting_byte_addr :: u32 where
  "last_starting_byte_addr = per_iteration_byte_count * (total_iteration_count - 1)"

definition sf3_subsector_addr_incr :: u32 where
  "sf3_subsector_addr_incr = 4096"

definition sf3_page_addr_incr :: u32 where
  "sf3_page_addr_incr = 256"

definition experi_subsector_cnt_per_iter :: u32 where
  "experi_subsector_cnt_per_iter = 8192 div total_iteration_count"

definition experi_page_cnt_per_iter :: u32 where
  "experi_page_cnt_per_iter = 131072 div total_iteration_count"

definition cnt_t_max :: u32 where
  "cnt_t_max = 100 * 3"

section \<open>What Experiment.c takes from PmodSF3.h and xstatus.h\<close>

text \<open>
  The flash driver is a library outside the sources at hand. Experiment.c only compares
  the status a driver call returns with \<open>XST_SUCCESS\<close>, so a status is one of two values.
\<close>

datatype xstatus = XST_SUCCESS | XST_FAILURE

text \<open>
  The three array-size macros and the four driver functions the state machine calls are
  parameters of the model, gathered in one record. The device handle \<open>sf3Device\<close> is a
  value of the type \<open>'d\<close>, which every driver call takes and returns.
  \<^item> \<open>SF3_FlashWrite\<close> receives the address, the byte count and the contents of the write
    buffer (header bytes first). What the driver puts in the header bytes of that buffer
    is never read by Experiment.c and is not modelled.
  \<^item> \<open>SF3_FlashRead\<close> receives the address, the byte count and the contents of the read
    buffer, and returns the bytes it has stored into that buffer, from index 0 on.
\<close>

record 'd pmod_sf3 =
  SF3_PAGE_SIZE :: nat
  SF3_WRITE_EXTRA_BYTES :: nat
  SF3_READ_MIN_EXTRA_BYTES :: nat
  SF3_FlashWriteEnable :: "'d \<Rightarrow> xstatus \<times> 'd"
  SF3_SectorErase :: "'d \<Rightarrow> u32 \<Rightarrow> xstatus \<times> 'd"
  SF3_FlashWrite :: "'d \<Rightarrow> u32 \<Rightarrow> nat \<Rightarrow> u8 list \<Rightarrow> xstatus \<times> 'd"
  SF3_FlashRead :: "'d \<Rightarrow> u32 \<Rightarrow> nat \<Rightarrow> u8 list \<Rightarrow> xstatus \<times> u8 list \<times> 'd"

section \<open>Experiment.c: the experiment data\<close>

text \<open>
  The fields of \<open>t_experiment_data\<close> that the state machine, the timer and the display
  update read or write. The GPIO driver object and the LED palettes are left out.
\<close>

record experiment_data =
  comString :: string
  operatingMode :: operating_mode
  operatingModePrev :: operating_mode
  sf3_start_at_zero :: bool
  sf3_addr_start_val :: u32
  sf3_test_pattern_selected :: test_pattern
  sf3_pattern_start_val :: u8
  sf3_pattern_incr_val :: u8
  sf3_pattern_track_val :: u8
  sf3_test_pass :: bool
  sf3_test_done :: bool
  sf3_err_count_val :: u32
  switchesRead :: u32
  buttonsRead :: u32
  cnt_t :: u32
  cnt_t_freerun :: u32
  sf3_i_val :: u32
  sf3_address_of_cmd :: u32
  WriteBuffer :: "u8 list"
  ReadBuffer :: "u8 list"

text \<open>
  \<open>experiData\<close> is a global object, so C clears it before \<open>main\<close> runs: every field that
  \<open>Experiment_InitData\<close> does not assign starts as zero. The enumeration value zero is
  \<open>ST_WAIT_BUTTON_DEP\<close> for a mode and \<open>TEST_PATTERN_A\<close> for a pattern.
\<close>

definition experiData :: "'d pmod_sf3 \<Rightarrow> experiment_data" where
  "experiData drv =
     \<lparr> comString = [],
       operatingMode = ST_WAIT_BUTTON_DEP,
       operatingModePrev = ST_WAIT_BUTTON_DEP,
       sf3_start_at_zero = False,
       sf3_addr_start_val = 0,
       sf3_test_pattern_selected = TEST_PATTERN_A,
       sf3_pattern_start_val = 0,
       sf3_pattern_incr_val = 0,
       sf3_pattern_track_val = 0,
       sf3_test_pass = False,
       sf3_test_done = False,
       sf3_err_count_val = 0,
       switchesRead = 0,
       buttonsRead = 0,
       cnt_t = 0,
       cnt_t_freerun = 0,
       sf3_i_val = 0,
       sf3_address_of_cmd = 0,
       WriteBuffer = replicate (SF3_PAGE_SIZE drv + SF3_WRITE_EXTRA_BYTES drv) 0,
       ReadBuffer = replicate (SF3_PAGE_SIZE drv + SF3_READ_MIN_EXTRA_BYTES drv) 0 \<rparr>"

definition Experiment_InitData :: "experiment_data \<Rightarrow> experiment_data" where
  "Experiment_InitData expData =
     expData
       \<lparr> comString := [],
         operatingMode := ST_WAIT_BUTTON_DEP,
         operatingModePrev := ST_WAIT_BUTTON_DEP,
         sf3_start_at_zero := True,
         sf3_addr_start_val := 0x00000000,
         sf3_test_pattern_selected := TEST_PATTERN_NONE,
         sf3_pattern_start_val := sf3_test_pattern_startval_a,
         sf3_pattern_incr_val := sf3_test_pattern_incrval_a,
         sf3_test_pass := False,
         sf3_test_done := False,
         sf3_err_count_val := 0,
         switchesRead := 0x00000000,
         buttonsRead := 0x00000000,
         cnt_t := 0,
         cnt_t_freerun := 0 \<rparr>"

section \<open>Text formatting\<close>

text \<open>\<open>snprintf\<close> into a buffer of \<open>n\<close> bytes keeps at most \<open>n - 1\<close> characters.\<close>

definition snprintf :: "nat \<Rightarrow> string \<Rightarrow> string" where
  "snprintf n s = take (n - 1) s"

definition hex_digit :: "nat \<Rightarrow> char" where
  "hex_digit n = ''0123456789abcdef'' ! (n mod 16)"

text \<open>The conversion \<open>%08lx\<close> of a 32-bit value: eight lower-case hexadecimal digits.\<close>

definition fmt_08lx :: "u32 \<Rightarrow> string" where
  "fmt_08lx w = map (\<lambda>k. hex_digit (unat (drop_bit (4 * k) w) mod 16)) [7, 6, 5, 4, 3, 2, 1, 0]"

fun dec_digits :: "nat \<Rightarrow> string" where
  "dec_digits n = (if n < 10 then [hex_digit n] else dec_digits (n div 10) @ [hex_digit (n mod 10)])"

declare dec_digits.simps [simp del]

definition zero_pad :: "nat \<Rightarrow> string \<Rightarrow> string" where
  "zero_pad width s = replicate (width - length s) (CHR ''0'') @ s"

text \<open>
  The conversion \<open>%08ld\<close>: the argument is read as a signed 32-bit \<open>long\<close>; the field is
  at least eight characters wide, the sign counted, and zeros fill it.
\<close>

definition fmt_08ld :: "u32 \<Rightarrow> string" where
  "fmt_08ld w =
     (if sint w < 0 then CHR ''-'' # zero_pad 7 (dec_digits (nat (- sint w)))
      else zero_pad 8 (dec_digits (nat (sint w))))"

section \<open>Messages to the queues\<close>

text \<open>
  Every \<open>xQueueSend\<close> of Experiment.c has a block time of zero. The model records the
  sends in the order the code performs them; what the receiving tasks do with a message,
  and whether the queue had room for it, is outside this model.
\<close>

datatype queue_send =
    xQueuePrint string
  | xQueueClsDispl cls_lines

definition Experiment_generateTextLine1 :: "experiment_data \<Rightarrow> string" where
  "Experiment_generateTextLine1 expData =
     (let cls_txt_ascii_pattern_1char =
            (case sf3_test_pattern_selected expData of
               TEST_PATTERN_A \<Rightarrow> CHR ''A''
             | TEST_PATTERN_B \<Rightarrow> CHR ''B''
             | TEST_PATTERN_C \<Rightarrow> CHR ''C''
             | TEST_PATTERN_D \<Rightarrow> CHR ''D''
             | TEST_PATTERN_NONE \<Rightarrow> CHR ''*'')
      in snprintf 17 (''SF3 P'' @ [cls_txt_ascii_pattern_1char] @ '' h''
                       @ fmt_08lx (sf3_addr_start_val expData)))"

definition Experiment_generateTextLine2 :: "experiment_data \<Rightarrow> string" where
  "Experiment_generateTextLine2 expData =
     (let cls_txt_ascii_sf3mode_3char =
            (case operatingMode expData of
               ST_WAIT_BUTTON_REL \<Rightarrow> ''GO ''
             | ST_SET_PATTERN \<Rightarrow> ''GO ''
             | ST_SET_START_ADDR \<Rightarrow> ''GO ''
             | ST_SET_START_WAIT \<Rightarrow> ''GO ''
             | ST_CMD_ERASE_START \<Rightarrow> ''ERS''
             | ST_CMD_ERASE_DONE \<Rightarrow> ''ERS''
             | ST_CMD_PAGE_START \<Rightarrow> ''PRO''
             | ST_CMD_PAGE_DONE \<Rightarrow> ''PRO''
             | ST_CMD_READ_START \<Rightarrow> ''TST''
             | ST_CMD_READ_DONE \<Rightarrow> ''TST''
             | ST_DISPLAY_FINAL \<Rightarrow> ''END''
             | ST_WAIT_BUTTON_DEP \<Rightarrow> ''GO ''
             | OPERATING_MODE_NONE \<Rightarrow> ''GO '')
      in snprintf 17 (cls_txt_ascii_sf3mode_3char @ '' ERR ''
                       @ fmt_08ld (sf3_err_count_val expData)))"

text \<open>
  The display update returns the sends it performs: none when the free-running counter
  is not a multiple of \<open>cnt_t_max / 15\<close>, otherwise one to the display queue and then one
  to the print queue. It does not change the experiment data.
\<close>

definition Experiment_updateClsDisplayAndTerminal :: "experiment_data \<Rightarrow> queue_send list" where
  "Experiment_updateClsDisplayAndTerminal expData =
     (if cnt_t_freerun expData mod (cnt_t_max div 15) \<noteq> 0 then []
      else
        (let clsUpdate = \<lparr> line1 = Experiment_generateTextLine1 expData,
                           line2 = Experiment_generateTextLine2 expData \<rparr>;
             comString = snprintf PRINTF_BUF_SZ (line1 clsUpdate @ '' '' @ line2 clsUpdate)
         in [xQueueClsDispl clsUpdate, xQueuePrint comString]))"

definition Experiment_readUserInputs :: "u32 \<Rightarrow> u32 \<Rightarrow> experiment_data \<Rightarrow> experiment_data" where
  "Experiment_readUserInputs switches buttons expData =
     expData \<lparr> switchesRead := switches, buttonsRead := buttons \<rparr>"

definition Experiment_iterationTimer :: "experiment_data \<Rightarrow> experiment_data" where
  "Experiment_iterationTimer expData =
     (let expData1 =
            (if operatingMode expData \<noteq> operatingModePrev expData
             then expData \<lparr> cnt_t := 0 \<rparr>
             else expData \<lparr> cnt_t := (cnt_t expData + 1) mod cnt_t_max \<rparr>);
          expData2 = expData1 \<lparr> cnt_t_freerun := (cnt_t_freerun expData1 + 1) mod cnt_t_max \<rparr>
      in expData2 \<lparr> operatingModePrev := operatingMode expData2 \<rparr>)"

section \<open>Experiment.c: the loops over the transmission buffers\<close>

text \<open>
  A store into a C array of fixed length. With a checked index, a store past the end of
  the array is an error.
\<close>

datatype array_error = OutOfBounds nat nat

definition array_store_checked :: "u8 list \<Rightarrow> nat \<Rightarrow> u8 \<Rightarrow> array_error + u8 list" where
  "array_store_checked buf idx v =
     (if idx < length buf then Inr (buf[idx := v]) else Inl (OutOfBounds idx (length buf)))"

text \<open>
  The state machine itself runs without checks. A store past the end of a buffer lands
  in memory that follows the array; the model keeps no account of that memory, so such
  a store leaves the array as it is.
\<close>

definition array_store :: "u8 list \<Rightarrow> nat \<Rightarrow> u8 \<Rightarrow> u8 list" where
  "array_store buf idx v =
     (case array_store_checked buf idx v of Inr buf' \<Rightarrow> buf' | Inl _ \<Rightarrow> buf)"

text \<open>
  The loop of \<open>ST_CMD_PAGE_START\<close> that fills the write buffer: one step for the loop
  index \<open>iByte\<close>, and the loop over \<open>0 \<le> iByte < SF3_PAGE_SIZE\<close>.
\<close>

definition fill_WriteBuffer_step :: "nat \<Rightarrow> nat \<Rightarrow> experiment_data \<Rightarrow> experiment_data" where
  "fill_WriteBuffer_step extra iByte expData =
     expData
       \<lparr> WriteBuffer := array_store (WriteBuffer expData) (iByte + extra)
                           (sf3_pattern_track_val expData),
         sf3_pattern_track_val := sf3_pattern_track_val expData + sf3_pattern_incr_val expData \<rparr>"

definition fill_WriteBuffer :: "'d pmod_sf3 \<Rightarrow> experiment_data \<Rightarrow> experiment_data" where
  "fill_WriteBuffer drv expData =
     fold (fill_WriteBuffer_step (SF3_WRITE_EXTRA_BYTES drv)) [0 ..< SF3_PAGE_SIZE drv] expData"

text \<open>
  The loop of \<open>ST_CMD_READ_START\<close> that clears the read buffer, over
  \<open>0 \<le> iByte < SF3_PAGE_SIZE + SF3_READ_MIN_EXTRA_BYTES\<close>, storing at
  \<open>iByte + SF3_READ_MIN_EXTRA_BYTES\<close>: once with checked stores, stopping at the first
  store that is out of bounds, and once as the state machine runs it.
\<close>

fun clear_ReadBuffer_checked :: "nat \<Rightarrow> nat list \<Rightarrow> u8 list \<Rightarrow> array_error + u8 list" where
  "clear_ReadBuffer_checked extra [] buf = Inr buf"
| "clear_ReadBuffer_checked extra (iByte # rest) buf =
     (case array_store_checked buf (iByte + extra) 0x00 of
        Inl err \<Rightarrow> Inl err
      | Inr buf' \<Rightarrow> clear_ReadBuffer_checked extra rest buf')"

definition clear_ReadBuffer :: "'d pmod_sf3 \<Rightarrow> experiment_data \<Rightarrow> experiment_data" where
  "clear_ReadBuffer drv expData =
     fold (\<lambda>iByte e. e \<lparr> ReadBuffer :=
                           array_store (ReadBuffer e) (iByte + SF3_READ_MIN_EXTRA_BYTES drv) 0x00 \<rparr>)
          [0 ..< SF3_PAGE_SIZE drv + SF3_READ_MIN_EXTRA_BYTES drv] expData"

text \<open>
  The loop of \<open>ST_CMD_READ_START\<close> that compares the read buffer with the pattern, over
  \<open>0 \<le> iByte < SF3_PAGE_SIZE\<close>. The indices it reads are below the length of the array.
\<close>

definition compare_ReadBuffer_step :: "nat \<Rightarrow> nat \<Rightarrow> experiment_data \<Rightarrow> experiment_data" where
  "compare_ReadBuffer_step extra iByte expData =
     expData
       \<lparr> sf3_err_count_val := sf3_err_count_val expData
            + (if ReadBuffer expData ! (iByte + extra) = sf3_pattern_track_val expData
               then 0 else 1),
         sf3_pattern_track_val := sf3_pattern_track_val expData + sf3_pattern_incr_val expData \<rparr>"

definition compare_ReadBuffer :: "'d pmod_sf3 \<Rightarrow> experiment_data \<Rightarrow> experiment_data" where
  "compare_ReadBuffer drv expData =
     fold (compare_ReadBuffer_step (SF3_READ_MIN_EXTRA_BYTES drv)) [0 ..< SF3_PAGE_SIZE drv] expData"

text \<open>The bytes a driver has received overwrite the buffer from index 0, within its length.\<close>

definition received_into :: "u8 list \<Rightarrow> u8 list \<Rightarrow> u8 list" where
  "received_into rx buf = take (length buf) rx @ drop (length rx) buf"

section \<open>Experiment.c: the state machine\<close>

text \<open>
  The pattern that follows each driver call: when the status is not \<open>XST_SUCCESS\<close>, the
  message is printed into \<open>comString\<close> and sent to the print queue.
\<close>

definition report_failure ::
  "xstatus \<Rightarrow> string \<Rightarrow> experiment_data \<Rightarrow> experiment_data \<times> queue_send list" where
  "report_failure Status msg expData =
     (if Status \<noteq> XST_SUCCESS
      then (expData \<lparr> comString := snprintf PRINTF_BUF_SZ msg \<rparr>,
            [xQueuePrint (snprintf PRINTF_BUF_SZ msg)])
      else (expData, []))"

text \<open>The case \<open>ST_CMD_ERASE_START\<close>: one subsector erase.\<close>

definition cmd_erase_start ::
  "'d pmod_sf3 \<Rightarrow> experiment_data \<times> 'd \<times> queue_send list
     \<Rightarrow> experiment_data \<times> 'd \<times> queue_send list" where
  "cmd_erase_start drv = (\<lambda>(expData, dev, sent).
     (let e1 = expData \<lparr> sf3_address_of_cmd :=
                  sf3_addr_start_val expData + sf3_i_val expData * sf3_subsector_addr_incr \<rparr>;
          (Status1, dev1) = SF3_FlashWriteEnable drv dev;
          (e2, sent1) = report_failure Status1 ''WEN Fail'' e1;
          (Status2, dev2) = SF3_SectorErase drv dev1 (sf3_address_of_cmd e2);
          (e3, sent2) = report_failure Status2
                          (''Ers Fail '' @ fmt_08lx (sf3_address_of_cmd e2)) e2;
          e4 = e3 \<lparr> sf3_i_val := sf3_i_val e3 + 1 \<rparr>;
          e5 = (if sf3_i_val e4 < experi_subsector_cnt_per_iter
                then e4 \<lparr> operatingMode := ST_CMD_ERASE_START \<rparr>
                else e4 \<lparr> operatingMode := ST_CMD_ERASE_DONE \<rparr>)
      in (e5, dev2, sent @ sent1 @ sent2)))"

text \<open>The body of the loop over \<open>j\<close> in the case \<open>ST_CMD_PAGE_START\<close>: one page program.\<close>

definition cmd_page_start_body ::
  "'d pmod_sf3 \<Rightarrow> experiment_data \<times> 'd \<times> queue_send list
     \<Rightarrow> experiment_data \<times> 'd \<times> queue_send list" where
  "cmd_page_start_body drv = (\<lambda>(expData, dev, sent).
     (let e1 = expData \<lparr> sf3_address_of_cmd :=
                  sf3_addr_start_val expData + sf3_i_val expData * sf3_page_addr_incr \<rparr>;
          (Status1, dev1) = SF3_FlashWriteEnable drv dev;
          (e2, sent1) = report_failure Status1 ''WEN Fail'' e1;
          e3 = fill_WriteBuffer drv e2;
          (Status2, dev2) = SF3_FlashWrite drv dev1 (sf3_address_of_cmd e3)
                              (SF3_PAGE_SIZE drv) (WriteBuffer e3);
          (e4, sent2) = report_failure Status2
                          (''PRO Fail '' @ fmt_08lx (sf3_address_of_cmd e3)) e3;
          e5 = e4 \<lparr> sf3_pattern_track_val := sf3_pattern_start_val e4 \<rparr>;
          e6 = e5 \<lparr> sf3_i_val := sf3_i_val e5 + 1 \<rparr>;
          e7 = (if sf3_i_val e6 < experi_page_cnt_per_iter
                then e6 \<lparr> operatingMode := ST_CMD_PAGE_START \<rparr>
                else e6 \<lparr> operatingMode := ST_CMD_PAGE_DONE \<rparr>)
      in (e7, dev2, sent @ sent1 @ sent2)))"

text \<open>The body of the loop over \<open>j\<close> in the case \<open>ST_CMD_READ_START\<close>: one page read.\<close>

definition cmd_read_start_body ::
  "'d pmod_sf3 \<Rightarrow> experiment_data \<times> 'd \<times> queue_send list
     \<Rightarrow> experiment_data \<times> 'd \<times> queue_send list" where
  "cmd_read_start_body drv = (\<lambda>(expData, dev, sent).
     (let e1 = expData \<lparr> sf3_address_of_cmd :=
                  sf3_addr_start_val expData + sf3_i_val expData * sf3_page_addr_incr \<rparr>;
          e2 = clear_ReadBuffer drv e1;
          (Status, rx, dev1) = SF3_FlashRead drv dev (sf3_address_of_cmd e2)
                                 (SF3_PAGE_SIZE drv) (ReadBuffer e2);
          e3 = e2 \<lparr> ReadBuffer := received_into rx (ReadBuffer e2) \<rparr>;
          (e4, sent1) = report_failure Status
                          (''RD  Fail '' @ fmt_08lx (sf3_address_of_cmd e3)) e3;
          e5 = e4 \<lparr> sf3_pattern_track_val := sf3_pattern_start_val e4 \<rparr>;
          e6 = compare_ReadBuffer drv e5;
          e7 = e6 \<lparr> sf3_pattern_track_val := sf3_pattern_start_val e6 \<rparr>;
          e8 = e7 \<lparr> sf3_i_val := sf3_i_val e7 + 1 \<rparr>;
          e9 = (if sf3_i_val e8 < experi_page_cnt_per_iter
                then e8 \<lparr> operatingMode := ST_CMD_READ_START \<rparr>
                else e8 \<lparr> operatingMode := ST_CMD_READ_DONE \<rparr>)
      in (e9, dev1, sent @ sent1)))"

text \<open>The cases of the outer \<open>switch\<close> that touch the experiment data only.\<close>

definition wait_button_dep :: "experiment_data \<Rightarrow> experiment_data" where
  "wait_button_dep expData =
     (if sf3_addr_start_val expData < last_starting_byte_addr then
        (let e1 = expData \<lparr> sf3_test_done := False \<rparr> in
         if buttonsRead e1 = BTN0_MASK \<or> switchesRead e1 = SWTCH0_MASK then
           e1 \<lparr> operatingMode := ST_WAIT_BUTTON_REL, sf3_test_pattern_selected := TEST_PATTERN_A \<rparr>
         else if buttonsRead e1 = BTN1_MASK \<or> switchesRead e1 = SWTCH1_MASK then
           e1 \<lparr> operatingMode := ST_WAIT_BUTTON_REL, sf3_test_pattern_selected := TEST_PATTERN_B \<rparr>
         else if buttonsRead e1 = BTN2_MASK \<or> switchesRead e1 = SWTCH2_MASK then
           e1 \<lparr> operatingMode := ST_WAIT_BUTTON_REL, sf3_test_pattern_selected := TEST_PATTERN_C \<rparr>
         else if buttonsRead e1 = BTN3_MASK \<or> switchesRead e1 = SWTCH3_MASK then
           e1 \<lparr> operatingMode := ST_WAIT_BUTTON_REL, sf3_test_pattern_selected := TEST_PATTERN_D \<rparr>
         else e1)
      else expData \<lparr> sf3_test_done := True \<rparr>)"

definition set_pattern :: "experiment_data \<Rightarrow> experiment_data" where
  "set_pattern expData =
     (let e1 =
        (case sf3_test_pattern_selected expData of
           TEST_PATTERN_A \<Rightarrow>
             expData \<lparr> sf3_pattern_start_val := sf3_test_pattern_startval_a,
                       sf3_pattern_incr_val := sf3_test_pattern_incrval_a \<rparr>
         | TEST_PATTERN_B \<Rightarrow>
             expData \<lparr> sf3_pattern_start_val := sf3_test_pattern_startval_b,
                       sf3_pattern_incr_val := sf3_test_pattern_incrval_b \<rparr>
         | TEST_PATTERN_C \<Rightarrow>
             expData \<lparr> sf3_pattern_start_val := sf3_test_pattern_startval_c,
                       sf3_pattern_incr_val := sf3_test_pattern_incrval_c \<rparr>
         | TEST_PATTERN_D \<Rightarrow>
             expData \<lparr> sf3_pattern_start_val := sf3_test_pattern_startval_d,
                       sf3_pattern_incr_val := sf3_test_pattern_incrval_d \<rparr>
         | TEST_PATTERN_NONE \<Rightarrow> expData)
      in e1 \<lparr> operatingMode := ST_SET_START_ADDR \<rparr>)"

definition set_start_addr :: "experiment_data \<Rightarrow> experiment_data" where
  "set_start_addr expData =
     (let e1 =
        (if sf3_start_at_zero expData then
           expData \<lparr> sf3_addr_start_val := 0x00000000,
                     sf3_test_done := False,
                     operatingMode := ST_SET_START_WAIT \<rparr>
         else if sf3_addr_start_val expData < last_starting_byte_addr then
           expData \<lparr> sf3_addr_start_val := sf3_addr_start_val expData + per_iteration_byte_count,
                     sf3_test_done := False,
                     operatingMode := ST_SET_START_WAIT \<rparr>
         else
           expData \<lparr> sf3_test_done := True,
                     operatingMode := ST_WAIT_BUTTON_DEP \<rparr>)
      in e1 \<lparr> sf3_start_at_zero := False, sf3_i_val := 0 \<rparr>)"

definition cmd_done :: "operating_mode \<Rightarrow> operating_mode \<Rightarrow> experiment_data \<Rightarrow> experiment_data" where
  "cmd_done stay next expData =
     (let e1 = expData \<lparr> sf3_pattern_track_val := sf3_pattern_start_val expData \<rparr>;
          e2 = e1 \<lparr> sf3_i_val := 0 \<rparr>
      in if cnt_t e2 \<ge> cnt_t_max - 1
         then e2 \<lparr> operatingMode := next \<rparr>
         else e2 \<lparr> operatingMode := stay \<rparr>)"

definition display_final :: "experiment_data \<Rightarrow> experiment_data" where
  "display_final expData =
     (let e1 = expData \<lparr> sf3_test_pass := (if sf3_err_count_val expData \<noteq> 0 then False else True) \<rparr>
      in if cnt_t e1 = cnt_t_max - 1
         then e1 \<lparr> operatingMode := ST_WAIT_BUTTON_DEP \<rparr>
         else e1)"

text \<open>
  One step of the state machine. It takes the experiment data, the device and the
  sends performed so far, and returns them updated.
\<close>

definition Experiment_operateFSM ::
  "'d pmod_sf3 \<Rightarrow> experiment_data \<times> 'd \<times> queue_send list
     \<Rightarrow> experiment_data \<times> 'd \<times> queue_send list" where
  "Experiment_operateFSM drv = (\<lambda>(expData, dev, sent).
     (case operatingMode expData of
        ST_WAIT_BUTTON_DEP \<Rightarrow> (wait_button_dep expData, dev, sent)
      | ST_WAIT_BUTTON_REL \<Rightarrow>
          (if buttonsRead expData = 0x00000000
           then expData \<lparr> operatingMode := ST_SET_PATTERN \<rparr>
           else expData, dev, sent)
      | ST_SET_PATTERN \<Rightarrow> (set_pattern expData, dev, sent)
      | ST_SET_START_ADDR \<Rightarrow> (set_start_addr expData, dev, sent)
      | ST_SET_START_WAIT \<Rightarrow>
          (if cnt_t expData = cnt_t_max div 2
           then expData \<lparr> operatingMode := ST_CMD_ERASE_START \<rparr>
           else expData, dev, sent)
      | ST_CMD_ERASE_START \<Rightarrow> cmd_erase_start drv (expData, dev, sent)
      | ST_CMD_ERASE_DONE \<Rightarrow>
          (cmd_done ST_CMD_ERASE_DONE ST_CMD_PAGE_START expData, dev, sent)
      | ST_CMD_PAGE_START \<Rightarrow> (cmd_page_start_body drv ^^ 32) (expData, dev, sent)
      | ST_CMD_PAGE_DONE \<Rightarrow>
          (cmd_done ST_CMD_PAGE_DONE ST_CMD_READ_START expData, dev, sent)
      | ST_CMD_READ_START \<Rightarrow> (cmd_read_start_body drv ^^ 32) (expData, dev, sent)
      | ST_CMD_READ_DONE \<Rightarrow>
          (cmd_done ST_CMD_READ_DONE ST_DISPLAY_FINAL expData, dev, sent)
      | ST_DISPLAY_FINAL \<Rightarrow> (display_final expData, dev, sent)
      | OPERATING_MODE_NONE \<Rightarrow> (expData \<lparr> operatingMode := ST_WAIT_BUTTON_DEP \<rparr>, dev, sent)))"

section \<open>Experiment.c: the task loop\<close>

text \<open>
  One pass through the body of the endless loop of \<open>Experiment_prvSf3Task\<close>, the LED
  updates left out: display update, delay, reading of the switches and buttons (the
  pair \<open>inp\<close>, switches first), one step of the state machine, the timer.
\<close>

definition Experiment_prvSf3Task_cycle ::
  "'d pmod_sf3 \<Rightarrow> u32 \<times> u32 \<Rightarrow> experiment_data \<times> 'd \<times> queue_send list
     \<Rightarrow> experiment_data \<times> 'd \<times> queue_send list" where
  "Experiment_prvSf3Task_cycle drv inp = (\<lambda>(expData, dev, sent).
     (let sent1 = sent @ Experiment_updateClsDisplayAndTerminal expData;
          e1 = Experiment_readUserInputs (fst inp) (snd inp) expData;
          (e2, dev2, sent2) = Experiment_operateFSM drv (e1, dev, sent1)
      in (Experiment_iterationTimer e2, dev2, sent2)))"

text \<open>The loop run over a list of inputs, one pair for each pass.\<close>

fun run :: "'d pmod_sf3 \<Rightarrow> (u32 \<times> u32) list \<Rightarrow> experiment_data \<times> 'd \<times> queue_send list
     \<Rightarrow> experiment_data \<times> 'd \<times> queue_send list" where
  "run drv [] w = w"
| "run drv (inp # inps) w = run drv inps (Experiment_prvSf3Task_cycle drv inp w)"

text \<open>
  The states the task can be in at the top of its loop: the state after
  \<open>Experiment_InitData\<close>, with any device state, and every state one pass later.
\<close>

inductive reachable :: "'d pmod_sf3 \<Rightarrow> experiment_data \<times> 'd \<times> queue_send list \<Rightarrow> bool"
  for drv :: "'d pmod_sf3" where
  reachable_init: "reachable drv (Experiment_InitData (experiData drv), dev, [])"
| reachable_cycle: "reachable drv w \<Longrightarrow> reachable drv (Experiment_prvSf3Task_cycle drv inp w)"

section \<open>Two models of the flash device\<close>

text \<open>
  A fault-free flash memory: the device state is the content of the memory, one byte
  for each address. Every call succeeds. An erase sets the 4096 bytes from the address
  on to \<open>0xFF\<close>; a write stores the payload of the buffer (the bytes after the header)
  at the address; a read returns the header bytes of the buffer unchanged, followed by
  the bytes stored at the address.
\<close>

definition ideal_sf3 :: "nat \<Rightarrow> nat \<Rightarrow> nat \<Rightarrow> (u32 \<Rightarrow> u8) pmod_sf3" where
  "ideal_sf3 page wextra rextra =
     \<lparr> SF3_PAGE_SIZE = page,
       SF3_WRITE_EXTRA_BYTES = wextra,
       SF3_READ_MIN_EXTRA_BYTES = rextra,
       SF3_FlashWriteEnable = (\<lambda>mem. (XST_SUCCESS, mem)),
       SF3_SectorErase = (\<lambda>mem a.
          (XST_SUCCESS, (\<lambda>x. if unat (x - a) < 4096 then 0xFF else mem x))),
       SF3_FlashWrite = (\<lambda>mem a n buf.
          (XST_SUCCESS, (\<lambda>x. if unat (x - a) < n then buf ! (unat (x - a) + wextra) else mem x))),
       SF3_FlashRead = (\<lambda>mem a n buf.
          (XST_SUCCESS, take rextra buf @ map (\<lambda>i. mem (a + of_nat i)) [0 ..< n], mem)) \<rparr>"

text \<open>
  A device that does not answer: every call fails and a read stores nothing in the
  buffer. The page has 256 bytes; a write and a read have four header bytes each.
\<close>

definition failing_sf3 :: "unit pmod_sf3" where
  "failing_sf3 =
     \<lparr> SF3_PAGE_SIZE = 256,
       SF3_WRITE_EXTRA_BYTES = 4,
       SF3_READ_MIN_EXTRA_BYTES = 4,
       SF3_FlashWriteEnable = (\<lambda>dev. (XST_FAILURE, dev)),
       SF3_SectorErase = (\<lambda>dev a. (XST_FAILURE, dev)),
       SF3_FlashWrite = (\<lambda>dev a n buf. (XST_FAILURE, dev)),
       SF3_FlashRead = (\<lambda>dev a n buf. (XST_FAILURE, [], dev)) \<rparr>"

section \<open>An operator\<close>

text \<open>
  The inputs of one whole pass of 1867 cycles: button 0 alone is read as pressed in the
  first cycle, and after that no button and no switch is read as set. The inputs of
  \<open>k\<close> such passes follow one another in \<open>button0_passes k\<close>.
\<close>

definition button0_pass :: "(u32 \<times> u32) list" where
  "button0_pass = (0, 1) # replicate 1866 (0, 0)"

definition button0_passes :: "nat \<Rightarrow> (u32 \<times> u32) list" where
  "button0_passes k = concat (replicate k button0_pass)"

text \<open>
  A start of the first pass on the fault-free flash, with pages of 256 bytes and four
  header bytes: button 3 alone is pressed for one cycle, which selects pattern D, and
  154 idle cycles later the task has just entered \<open>ST_CMD_ERASE_START\<close>. The memory
  holds zeros before.
\<close>

definition pattern_D_erase_entry :: "experiment_data \<times> (u32 \<Rightarrow> u8) \<times> queue_send list" where
  "pattern_D_erase_entry =
     run (ideal_sf3 256 4 4) ((0, 8) # replicate 154 (0, 0))
       (Experiment_InitData (experiData (ideal_sf3 256 4 4)), (\<lambda>x. 0), [])"

text \<open>
  Two states of the first pass on the device that does not answer, button 0 pressed in
  the first cycle: after 155 cycles the task has just entered \<open>ST_CMD_ERASE_START\<close>, and
  after 712 cycles it has run the first batch of \<open>ST_CMD_PAGE_START\<close>.
\<close>

definition failing_erase_entry :: "experiment_data \<times> unit \<times> queue_send list" where
  "failing_erase_entry =
     run failing_sf3 ((0, 1) # replicate 154 (0, 0))
       (Experiment_InitData (experiData failing_sf3), (), [])"

definition failing_page_batch_done :: "experiment_data \<times> unit \<times> queue_send list" where
  "failing_page_batch_done =
     run failing_sf3 (replicate 256 (0, 0) @ replicate 300 (0, 0) @ [(0, 0)]) failing_erase_entry"

text \<open>
  The same pass 984 cycles after the entry to \<open>ST_CMD_ERASE_START\<close>: the erase and the
  program phase are over and the task has just entered \<open>ST_CMD_READ_START\<close>.
\<close>

definition failing_read_entry :: "experiment_data \<times> unit \<times> queue_send list" where
  "failing_read_entry =
     run failing_sf3
       (replicate 256 (0, 0) @ replicate 300 (0, 0) @ replicate 128 (0, 0) @ replicate 300 (0, 0))
       failing_erase_entry"

text \<open>
  The button word that selects a pattern, and the inputs that bring the task to the
  start of the erase phase of region \<open>k\<close> with pattern \<open>p\<close>: \<open>k\<close> whole passes started with
  button 0, then the button of \<open>p\<close> for one cycle and 154 cycles with no input.
\<close>

definition pattern_button :: "test_pattern \<Rightarrow> u32" where
  "pattern_button p =
     (case p of
        TEST_PATTERN_A \<Rightarrow> BTN0_MASK
      | TEST_PATTERN_B \<Rightarrow> BTN1_MASK
      | TEST_PATTERN_C \<Rightarrow> BTN2_MASK
      | TEST_PATTERN_D \<Rightarrow> BTN3_MASK
      | TEST_PATTERN_NONE \<Rightarrow> 0)"

definition pass_start :: "nat \<Rightarrow> test_pattern \<Rightarrow> (u32 \<times> u32) list" where
  "pass_start k p = button0_passes k @ (0, pattern_button p) # replicate 154 (0, 0)"

section \<open>Notions used in the proofs\<close>

text \<open>
  The fields that no case from \<open>ST_SET_START_WAIT\<close> to \<open>ST_DISPLAY_FINAL\<close> assigns: the
  start address of the region, the selected pattern and its two constants, the flags
  \<open>sf3_start_at_zero\<close> and \<open>sf3_test_done\<close>, and the lengths of the two buffers.
\<close>

definition pass_cfg ::
  "experiment_data \<Rightarrow> u32 \<times> test_pattern \<times> u8 \<times> u8 \<times> bool \<times> bool \<times> nat \<times> nat" where
  "pass_cfg e = (sf3_addr_start_val e, sf3_test_pattern_selected e, sf3_pattern_start_val e,
     sf3_pattern_incr_val e, sf3_start_at_zero e, sf3_test_done e,
     length (WriteBuffer e), length (ReadBuffer e))"

text \<open>
  The first \<open>n\<close> pages of the region that starts at \<open>a\<close> hold the pattern with start
  value \<open>s\<close> and increment \<open>t\<close> in the memory of the fault-free flash.
\<close>

definition programmed :: "nat \<Rightarrow> u32 \<Rightarrow> u8 \<Rightarrow> u8 \<Rightarrow> (u32 \<Rightarrow> u8) \<Rightarrow> nat \<Rightarrow> bool" where
  "programmed page a s t mem n \<longleftrightarrow>
     (\<forall>k<n. \<forall>j<page. mem (a + of_nat k * 256 + of_nat j) = s + of_nat j * t)"

text \<open>
  The bound on the sub-operation index that each mode keeps, with the two facts that
  make it hold step after step: in the two batch modes the index is a multiple of 32,
  and in \<open>ST_CMD_PAGE_START\<close> the pattern cursor stands at the start value.
\<close>

definition sub_op_bounded :: "experiment_data \<Rightarrow> bool" where
  "sub_op_bounded e =
     (case operatingMode e of
        ST_CMD_ERASE_START \<Rightarrow> unat (sf3_i_val e) < 256
      | ST_CMD_ERASE_DONE \<Rightarrow> unat (sf3_i_val e) \<le> 256
      | ST_CMD_PAGE_START \<Rightarrow>
          unat (sf3_i_val e) < 4096 \<and> 32 dvd unat (sf3_i_val e)
          \<and> sf3_pattern_track_val e = sf3_pattern_start_val e
      | ST_CMD_PAGE_DONE \<Rightarrow> unat (sf3_i_val e) \<le> 4096
      | ST_CMD_READ_START \<Rightarrow> unat (sf3_i_val e) < 4096 \<and> 32 dvd unat (sf3_i_val e)
      | ST_CMD_READ_DONE \<Rightarrow> unat (sf3_i_val e) \<le> 4096
      | _ \<Rightarrow> sf3_i_val e = 0)"

text \<open>
  Once a pattern has been chosen it is one of the four, and from \<open>ST_SET_START_ADDR\<close> on
  the two pattern constants are the ones that \<open>ST_SET_PATTERN\<close> stores for it.
\<close>

definition pattern_latched :: "experiment_data \<Rightarrow> bool" where
  "pattern_latched e =
     (case operatingMode e of
        ST_WAIT_BUTTON_DEP \<Rightarrow> True
      | OPERATING_MODE_NONE \<Rightarrow> True
      | ST_WAIT_BUTTON_REL \<Rightarrow> sf3_test_pattern_selected e \<noteq> TEST_PATTERN_NONE
      | ST_SET_PATTERN \<Rightarrow> sf3_test_pattern_selected e \<noteq> TEST_PATTERN_NONE
      | _ \<Rightarrow> sf3_test_pattern_selected e \<noteq> TEST_PATTERN_NONE
             \<and> sf3_pattern_start_val e = sf3_pattern_start_val (set_pattern e)
             \<and> sf3_pattern_incr_val e = sf3_pattern_incr_val (set_pattern e))"


text \<open>
  What a run on the fault-free flash keeps: no error has been counted, and the pages
  that the program phase has written hold the pattern, from the first page command until
  the last page has been read.
\<close>

definition fault_free_inv :: "nat \<Rightarrow> experiment_data \<times> (u32 \<Rightarrow> u8) \<times> queue_send list \<Rightarrow> bool" where
  "fault_free_inv page w =
     (sf3_err_count_val (fst w) = 0
      \<and> (case operatingMode (fst w) of
            ST_CMD_PAGE_START \<Rightarrow>
              programmed page (sf3_addr_start_val (fst w)) (sf3_pattern_start_val (fst w))
                (sf3_pattern_incr_val (fst w)) (fst (snd w)) (unat (sf3_i_val (fst w)))
          | ST_CMD_PAGE_DONE \<Rightarrow>
              programmed page (sf3_addr_start_val (fst w)) (sf3_pattern_start_val (fst w))
                (sf3_pattern_incr_val (fst w)) (fst (snd w)) 4096
          | ST_CMD_READ_START \<Rightarrow>
              programmed page (sf3_addr_start_val (fst w)) (sf3_pattern_start_val (fst w))
                (sf3_pattern_incr_val (fst w)) (fst (snd w)) 4096
          | _ \<Rightarrow> True))"

text \<open>
  The number of pages that the read phases have compared so far, as far as the state
  shows it: none before the first pass has set its start address, then 4096 for each
  region before the current one, the pages read so far while the read phase of the current
  region runs, and 4096 for the current region once its read phase is over.  The error
  count is at most the page size times this number.
\<close>

definition pages_compared :: "experiment_data \<Rightarrow> nat" where
  "pages_compared e =
     (if sf3_start_at_zero e then 0
      else (case operatingMode e of
              ST_SET_START_WAIT \<Rightarrow> 4096 * (unat (sf3_addr_start_val e) div 1048576)
            | ST_CMD_ERASE_START \<Rightarrow> 4096 * (unat (sf3_addr_start_val e) div 1048576)
            | ST_CMD_ERASE_DONE \<Rightarrow> 4096 * (unat (sf3_addr_start_val e) div 1048576)
            | ST_CMD_PAGE_START \<Rightarrow> 4096 * (unat (sf3_addr_start_val e) div 1048576)
            | ST_CMD_PAGE_DONE \<Rightarrow> 4096 * (unat (sf3_addr_start_val e) div 1048576)
            | ST_CMD_READ_START \<Rightarrow>
                4096 * (unat (sf3_addr_start_val e) div 1048576) + unat (sf3_i_val e)
            | _ \<Rightarrow> 4096 * (unat (sf3_addr_start_val e) div 1048576 + 1)))"

definition count_bounded :: "nat \<Rightarrow> experiment_data \<Rightarrow> bool" where
  "count_bounded page e \<longleftrightarrow>
     unat (sf3_err_count_val e) \<le> page * pages_compared e
     \<and> (sf3_start_at_zero e \<longrightarrow>
          operatingMode e = ST_WAIT_BUTTON_DEP \<or> operatingMode e = ST_WAIT_BUTTON_REL
          \<or> operatingMode e = ST_SET_PATTERN \<or> operatingMode e = ST_SET_START_ADDR
          \<or> operatingMode e = OPERATING_MODE_NONE)"
section \<open>Values of the constants\<close>

lemma consts_num:
  "per_iteration_byte_count = 1048576"
  "last_starting_byte_addr = 32505856"
  "experi_subsector_cnt_per_iter = 256"
  "experi_page_cnt_per_iter = 4096"
  "cnt_t_max = 300"
  "cnt_t_max div 15 = 20"
  "cnt_t_max div 2 = 150"
  "cnt_t_max - 1 = 299"
  by (simp_all add: per_iteration_byte_count_def last_starting_byte_addr_def
      experi_subsector_cnt_per_iter_def experi_page_cnt_per_iter_def cnt_t_max_def
      max_possible_byte_count_def total_iteration_count_def)

lemmas mask_defs =
  BTN0_MASK_def BTN1_MASK_def BTN2_MASK_def BTN3_MASK_def
  SWTCH0_MASK_def SWTCH1_MASK_def SWTCH2_MASK_def SWTCH3_MASK_def

section \<open>Fields that the loops and the cases leave alone\<close>

lemma report_failure_fields [simp]:
  "operatingMode (fst (report_failure st msg e)) = operatingMode e"
  "operatingModePrev (fst (report_failure st msg e)) = operatingModePrev e"
  "sf3_start_at_zero (fst (report_failure st msg e)) = sf3_start_at_zero e"
  "sf3_addr_start_val (fst (report_failure st msg e)) = sf3_addr_start_val e"
  "sf3_test_pattern_selected (fst (report_failure st msg e)) = sf3_test_pattern_selected e"
  "sf3_pattern_start_val (fst (report_failure st msg e)) = sf3_pattern_start_val e"
  "sf3_pattern_incr_val (fst (report_failure st msg e)) = sf3_pattern_incr_val e"
  "sf3_pattern_track_val (fst (report_failure st msg e)) = sf3_pattern_track_val e"
  "sf3_test_pass (fst (report_failure st msg e)) = sf3_test_pass e"
  "sf3_test_done (fst (report_failure st msg e)) = sf3_test_done e"
  "sf3_err_count_val (fst (report_failure st msg e)) = sf3_err_count_val e"
  "switchesRead (fst (report_failure st msg e)) = switchesRead e"
  "buttonsRead (fst (report_failure st msg e)) = buttonsRead e"
  "cnt_t (fst (report_failure st msg e)) = cnt_t e"
  "cnt_t_freerun (fst (report_failure st msg e)) = cnt_t_freerun e"
  "sf3_i_val (fst (report_failure st msg e)) = sf3_i_val e"
  "sf3_address_of_cmd (fst (report_failure st msg e)) = sf3_address_of_cmd e"
  "WriteBuffer (fst (report_failure st msg e)) = WriteBuffer e"
  "ReadBuffer (fst (report_failure st msg e)) = ReadBuffer e"
  by (simp_all add: report_failure_def)

lemma report_failure_sends:
  "snd (report_failure st msg e) = (if st \<noteq> XST_SUCCESS then [xQueuePrint (snprintf PRINTF_BUF_SZ msg)] else [])"
  by (simp add: report_failure_def)

lemma length_array_store [simp]: "length (array_store buf idx v) = length buf"
  by (simp add: array_store_def array_store_checked_def)

lemma nth_array_store:
  "array_store buf idx v ! j = (if j = idx \<and> idx < length buf then v else buf ! j)"
  by (simp add: array_store_def array_store_checked_def)

lemma fold_fill_fields:
  "comString (fold (fill_WriteBuffer_step x) xs e) = comString e"
  "operatingMode (fold (fill_WriteBuffer_step x) xs e) = operatingMode e"
  "operatingModePrev (fold (fill_WriteBuffer_step x) xs e) = operatingModePrev e"
  "sf3_start_at_zero (fold (fill_WriteBuffer_step x) xs e) = sf3_start_at_zero e"
  "sf3_addr_start_val (fold (fill_WriteBuffer_step x) xs e) = sf3_addr_start_val e"
  "sf3_test_pattern_selected (fold (fill_WriteBuffer_step x) xs e) = sf3_test_pattern_selected e"
  "sf3_pattern_start_val (fold (fill_WriteBuffer_step x) xs e) = sf3_pattern_start_val e"
  "sf3_pattern_incr_val (fold (fill_WriteBuffer_step x) xs e) = sf3_pattern_incr_val e"
  "sf3_test_pass (fold (fill_WriteBuffer_step x) xs e) = sf3_test_pass e"
  "sf3_test_done (fold (fill_WriteBuffer_step x) xs e) = sf3_test_done e"
  "sf3_err_count_val (fold (fill_WriteBuffer_step x) xs e) = sf3_err_count_val e"
  "switchesRead (fold (fill_WriteBuffer_step x) xs e) = switchesRead e"
  "buttonsRead (fold (fill_WriteBuffer_step x) xs e) = buttonsRead e"
  "cnt_t (fold (fill_WriteBuffer_step x) xs e) = cnt_t e"
  "cnt_t_freerun (fold (fill_WriteBuffer_step x) xs e) = cnt_t_freerun e"
  "sf3_i_val (fold (fill_WriteBuffer_step x) xs e) = sf3_i_val e"
  "sf3_address_of_cmd (fold (fill_WriteBuffer_step x) xs e) = sf3_address_of_cmd e"
  "ReadBuffer (fold (fill_WriteBuffer_step x) xs e) = ReadBuffer e"
  "length (WriteBuffer (fold (fill_WriteBuffer_step x) xs e)) = length (WriteBuffer e)"
  "sf3_pattern_track_val (fold (fill_WriteBuffer_step x) xs e)
     = sf3_pattern_track_val e + of_nat (length xs) * sf3_pattern_incr_val e"
  by (induction xs arbitrary: e; simp add: fill_WriteBuffer_step_def algebra_simps)+

lemma fill_WriteBuffer_fields [simp]:
  "comString (fill_WriteBuffer drv e) = comString e"
  "operatingMode (fill_WriteBuffer drv e) = operatingMode e"
  "operatingModePrev (fill_WriteBuffer drv e) = operatingModePrev e"
  "sf3_start_at_zero (fill_WriteBuffer drv e) = sf3_start_at_zero e"
  "sf3_addr_start_val (fill_WriteBuffer drv e) = sf3_addr_start_val e"
  "sf3_test_pattern_selected (fill_WriteBuffer drv e) = sf3_test_pattern_selected e"
  "sf3_pattern_start_val (fill_WriteBuffer drv e) = sf3_pattern_start_val e"
  "sf3_pattern_incr_val (fill_WriteBuffer drv e) = sf3_pattern_incr_val e"
  "sf3_test_pass (fill_WriteBuffer drv e) = sf3_test_pass e"
  "sf3_test_done (fill_WriteBuffer drv e) = sf3_test_done e"
  "sf3_err_count_val (fill_WriteBuffer drv e) = sf3_err_count_val e"
  "switchesRead (fill_WriteBuffer drv e) = switchesRead e"
  "buttonsRead (fill_WriteBuffer drv e) = buttonsRead e"
  "cnt_t (fill_WriteBuffer drv e) = cnt_t e"
  "cnt_t_freerun (fill_WriteBuffer drv e) = cnt_t_freerun e"
  "sf3_i_val (fill_WriteBuffer drv e) = sf3_i_val e"
  "sf3_address_of_cmd (fill_WriteBuffer drv e) = sf3_address_of_cmd e"
  "ReadBuffer (fill_WriteBuffer drv e) = ReadBuffer e"
  "length (WriteBuffer (fill_WriteBuffer drv e)) = length (WriteBuffer e)"
  "sf3_pattern_track_val (fill_WriteBuffer drv e)
     = sf3_pattern_track_val e + of_nat (SF3_PAGE_SIZE drv) * sf3_pattern_incr_val e"
  by (simp_all add: fill_WriteBuffer_def fold_fill_fields)

lemma fold_clear_fields:
  "comString (fold (\<lambda>iByte e. e \<lparr> ReadBuffer := array_store (ReadBuffer e) (iByte + x) 0x00 \<rparr>) xs e) = comString e"
  "operatingMode (fold (\<lambda>iByte e. e \<lparr> ReadBuffer := array_store (ReadBuffer e) (iByte + x) 0x00 \<rparr>) xs e) = operatingMode e"
  "operatingModePrev (fold (\<lambda>iByte e. e \<lparr> ReadBuffer := array_store (ReadBuffer e) (iByte + x) 0x00 \<rparr>) xs e) = operatingModePrev e"
  "sf3_start_at_zero (fold (\<lambda>iByte e. e \<lparr> ReadBuffer := array_store (ReadBuffer e) (iByte + x) 0x00 \<rparr>) xs e) = sf3_start_at_zero e"
  "sf3_addr_start_val (fold (\<lambda>iByte e. e \<lparr> ReadBuffer := array_store (ReadBuffer e) (iByte + x) 0x00 \<rparr>) xs e) = sf3_addr_start_val e"
  "sf3_test_pattern_selected (fold (\<lambda>iByte e. e \<lparr> ReadBuffer := array_store (ReadBuffer e) (iByte + x) 0x00 \<rparr>) xs e) = sf3_test_pattern_selected e"
  "sf3_pattern_start_val (fold (\<lambda>iByte e. e \<lparr> ReadBuffer := array_store (ReadBuffer e) (iByte + x) 0x00 \<rparr>) xs e) = sf3_pattern_start_val e"
  "sf3_pattern_incr_val (fold (\<lambda>iByte e. e \<lparr> ReadBuffer := array_store (ReadBuffer e) (iByte + x) 0x00 \<rparr>) xs e) = sf3_pattern_incr_val e"
  "sf3_pattern_track_val (fold (\<lambda>iByte e. e \<lparr> ReadBuffer := array_store (ReadBuffer e) (iByte + x) 0x00 \<rparr>) xs e) = sf3_pattern_track_val e"
  "sf3_test_pass (fold (\<lambda>iByte e. e \<lparr> ReadBuffer := array_store (ReadBuffer e) (iByte + x) 0x00 \<rparr>) xs e) = sf3_test_pass e"
  "sf3_test_done (fold (\<lambda>iByte e. e \<lparr> ReadBuffer := array_store (ReadBuffer e) (iByte + x) 0x00 \<rparr>) xs e) = sf3_test_done e"
  "sf3_err_count_val (fold (\<lambda>iByte e. e \<lparr> ReadBuffer := array_store (ReadBuffer e) (iByte + x) 0x00 \<rparr>) xs e) = sf3_err_count_val e"
  "switchesRead (fold (\<lambda>iByte e. e \<lparr> ReadBuffer := array_store (ReadBuffer e) (iByte + x) 0x00 \<rparr>) xs e) = switchesRead e"
  "buttonsRead (fold (\<lambda>iByte e. e \<lparr> ReadBuffer := array_store (ReadBuffer e) (iByte + x) 0x00 \<rparr>) xs e) = buttonsRead e"
  "cnt_t (fold (\<lambda>iByte e. e \<lparr> ReadBuffer := array_store (ReadBuffer e) (iByte + x) 0x00 \<rparr>) xs e) = cnt_t e"
  "cnt_t_freerun (fold (\<lambda>iByte e. e \<lparr> ReadBuffer := array_store (ReadBuffer e) (iByte + x) 0x00 \<rparr>) xs e) = cnt_t_freerun e"
  "sf3_i_val (fold (\<lambda>iByte e. e \<lparr> ReadBuffer := array_store (ReadBuffer e) (iByte + x) 0x00 \<rparr>) xs e) = sf3_i_val e"
  "sf3_address_of_cmd (fold (\<lambda>iByte e. e \<lparr> ReadBuffer := array_store (ReadBuffer e) (iByte + x) 0x00 \<rparr>) xs e) = sf3_address_of_cmd e"
  "WriteBuffer (fold (\<lambda>iByte e. e \<lparr> ReadBuffer := array_store (ReadBuffer e) (iByte + x) 0x00 \<rparr>) xs e) = WriteBuffer e"
  "length (ReadBuffer (fold (\<lambda>iByte e. e \<lparr> ReadBuffer := array_store (ReadBuffer e) (iByte + x) 0x00 \<rparr>) xs e))
     = length (ReadBuffer e)"
  by (induction xs arbitrary: e; simp)+

lemma clear_ReadBuffer_fields [simp]:
  "comString (clear_ReadBuffer drv e) = comString e"
  "operatingMode (clear_ReadBuffer drv e) = operatingMode e"
  "operatingModePrev (clear_ReadBuffer drv e) = operatingModePrev e"
  "sf3_start_at_zero (clear_ReadBuffer drv e) = sf3_start_at_zero e"
  "sf3_addr_start_val (clear_ReadBuffer drv e) = sf3_addr_start_val e"
  "sf3_test_pattern_selected (clear_ReadBuffer drv e) = sf3_test_pattern_selected e"
  "sf3_pattern_start_val (clear_ReadBuffer drv e) = sf3_pattern_start_val e"
  "sf3_pattern_incr_val (clear_ReadBuffer drv e) = sf3_pattern_incr_val e"
  "sf3_pattern_track_val (clear_ReadBuffer drv e) = sf3_pattern_track_val e"
  "sf3_test_pass (clear_ReadBuffer drv e) = sf3_test_pass e"
  "sf3_test_done (clear_ReadBuffer drv e) = sf3_test_done e"
  "sf3_err_count_val (clear_ReadBuffer drv e) = sf3_err_count_val e"
  "switchesRead (clear_ReadBuffer drv e) = switchesRead e"
  "buttonsRead (clear_ReadBuffer drv e) = buttonsRead e"
  "cnt_t (clear_ReadBuffer drv e) = cnt_t e"
  "cnt_t_freerun (clear_ReadBuffer drv e) = cnt_t_freerun e"
  "sf3_i_val (clear_ReadBuffer drv e) = sf3_i_val e"
  "sf3_address_of_cmd (clear_ReadBuffer drv e) = sf3_address_of_cmd e"
  "WriteBuffer (clear_ReadBuffer drv e) = WriteBuffer e"
  "length (ReadBuffer (clear_ReadBuffer drv e)) = length (ReadBuffer e)"
  by (simp_all add: clear_ReadBuffer_def fold_clear_fields)

lemma fold_compare_fields:
  "comString (fold (compare_ReadBuffer_step x) xs e) = comString e"
  "operatingMode (fold (compare_ReadBuffer_step x) xs e) = operatingMode e"
  "operatingModePrev (fold (compare_ReadBuffer_step x) xs e) = operatingModePrev e"
  "sf3_start_at_zero (fold (compare_ReadBuffer_step x) xs e) = sf3_start_at_zero e"
  "sf3_addr_start_val (fold (compare_ReadBuffer_step x) xs e) = sf3_addr_start_val e"
  "sf3_test_pattern_selected (fold (compare_ReadBuffer_step x) xs e) = sf3_test_pattern_selected e"
  "sf3_pattern_start_val (fold (compare_ReadBuffer_step x) xs e) = sf3_pattern_start_val e"
  "sf3_pattern_incr_val (fold (compare_ReadBuffer_step x) xs e) = sf3_pattern_incr_val e"
  "sf3_test_pass (fold (compare_ReadBuffer_step x) xs e) = sf3_test_pass e"
  "sf3_test_done (fold (compare_ReadBuffer_step x) xs e) = sf3_test_done e"
  "switchesRead (fold (compare_ReadBuffer_step x) xs e) = switchesRead e"
  "buttonsRead (fold (compare_ReadBuffer_step x) xs e) = buttonsRead e"
  "cnt_t (fold (compare_ReadBuffer_step x) xs e) = cnt_t e"
  "cnt_t_freerun (fold (compare_ReadBuffer_step x) xs e) = cnt_t_freerun e"
  "sf3_i_val (fold (compare_ReadBuffer_step x) xs e) = sf3_i_val e"
  "sf3_address_of_cmd (fold (compare_ReadBuffer_step x) xs e) = sf3_address_of_cmd e"
  "WriteBuffer (fold (compare_ReadBuffer_step x) xs e) = WriteBuffer e"
  "ReadBuffer (fold (compare_ReadBuffer_step x) xs e) = ReadBuffer e"
  "sf3_pattern_track_val (fold (compare_ReadBuffer_step x) xs e)
     = sf3_pattern_track_val e + of_nat (length xs) * sf3_pattern_incr_val e"
  by (induction xs arbitrary: e; simp add: compare_ReadBuffer_step_def algebra_simps)+

lemma compare_ReadBuffer_fields [simp]:
  "comString (compare_ReadBuffer drv e) = comString e"
  "operatingMode (compare_ReadBuffer drv e) = operatingMode e"
  "operatingModePrev (compare_ReadBuffer drv e) = operatingModePrev e"
  "sf3_start_at_zero (compare_ReadBuffer drv e) = sf3_start_at_zero e"
  "sf3_addr_start_val (compare_ReadBuffer drv e) = sf3_addr_start_val e"
  "sf3_test_pattern_selected (compare_ReadBuffer drv e) = sf3_test_pattern_selected e"
  "sf3_pattern_start_val (compare_ReadBuffer drv e) = sf3_pattern_start_val e"
  "sf3_pattern_incr_val (compare_ReadBuffer drv e) = sf3_pattern_incr_val e"
  "sf3_test_pass (compare_ReadBuffer drv e) = sf3_test_pass e"
  "sf3_test_done (compare_ReadBuffer drv e) = sf3_test_done e"
  "switchesRead (compare_ReadBuffer drv e) = switchesRead e"
  "buttonsRead (compare_ReadBuffer drv e) = buttonsRead e"
  "cnt_t (compare_ReadBuffer drv e) = cnt_t e"
  "cnt_t_freerun (compare_ReadBuffer drv e) = cnt_t_freerun e"
  "sf3_i_val (compare_ReadBuffer drv e) = sf3_i_val e"
  "sf3_address_of_cmd (compare_ReadBuffer drv e) = sf3_address_of_cmd e"
  "WriteBuffer (compare_ReadBuffer drv e) = WriteBuffer e"
  "ReadBuffer (compare_ReadBuffer drv e) = ReadBuffer e"
  by (simp_all add: compare_ReadBuffer_def fold_compare_fields)

lemma length_received_into [simp]: "length (received_into rx buf) = length buf"
  by (simp add: received_into_def)

lemma iterationTimer_fields [simp]:
  "comString (Experiment_iterationTimer e) = comString e"
  "operatingMode (Experiment_iterationTimer e) = operatingMode e"
  "sf3_start_at_zero (Experiment_iterationTimer e) = sf3_start_at_zero e"
  "sf3_addr_start_val (Experiment_iterationTimer e) = sf3_addr_start_val e"
  "sf3_test_pattern_selected (Experiment_iterationTimer e) = sf3_test_pattern_selected e"
  "sf3_pattern_start_val (Experiment_iterationTimer e) = sf3_pattern_start_val e"
  "sf3_pattern_incr_val (Experiment_iterationTimer e) = sf3_pattern_incr_val e"
  "sf3_pattern_track_val (Experiment_iterationTimer e) = sf3_pattern_track_val e"
  "sf3_test_pass (Experiment_iterationTimer e) = sf3_test_pass e"
  "sf3_test_done (Experiment_iterationTimer e) = sf3_test_done e"
  "sf3_err_count_val (Experiment_iterationTimer e) = sf3_err_count_val e"
  "switchesRead (Experiment_iterationTimer e) = switchesRead e"
  "buttonsRead (Experiment_iterationTimer e) = buttonsRead e"
  "sf3_i_val (Experiment_iterationTimer e) = sf3_i_val e"
  "sf3_address_of_cmd (Experiment_iterationTimer e) = sf3_address_of_cmd e"
  "WriteBuffer (Experiment_iterationTimer e) = WriteBuffer e"
  "ReadBuffer (Experiment_iterationTimer e) = ReadBuffer e"
  "operatingModePrev (Experiment_iterationTimer e) = operatingMode e"
  "cnt_t (Experiment_iterationTimer e)
     = (if operatingMode e \<noteq> operatingModePrev e then 0 else (cnt_t e + 1) mod cnt_t_max)"
  "cnt_t_freerun (Experiment_iterationTimer e) = (cnt_t_freerun e + 1) mod cnt_t_max"
  by (simp_all add: Experiment_iterationTimer_def Let_def)

lemma cmd_erase_start_fields [simp]:
  "operatingModePrev (fst (cmd_erase_start drv w)) = operatingModePrev (fst w)"
  "sf3_start_at_zero (fst (cmd_erase_start drv w)) = sf3_start_at_zero (fst w)"
  "sf3_addr_start_val (fst (cmd_erase_start drv w)) = sf3_addr_start_val (fst w)"
  "sf3_test_pattern_selected (fst (cmd_erase_start drv w)) = sf3_test_pattern_selected (fst w)"
  "sf3_pattern_start_val (fst (cmd_erase_start drv w)) = sf3_pattern_start_val (fst w)"
  "sf3_pattern_incr_val (fst (cmd_erase_start drv w)) = sf3_pattern_incr_val (fst w)"
  "sf3_pattern_track_val (fst (cmd_erase_start drv w)) = sf3_pattern_track_val (fst w)"
  "sf3_test_pass (fst (cmd_erase_start drv w)) = sf3_test_pass (fst w)"
  "sf3_test_done (fst (cmd_erase_start drv w)) = sf3_test_done (fst w)"
  "sf3_err_count_val (fst (cmd_erase_start drv w)) = sf3_err_count_val (fst w)"
  "switchesRead (fst (cmd_erase_start drv w)) = switchesRead (fst w)"
  "buttonsRead (fst (cmd_erase_start drv w)) = buttonsRead (fst w)"
  "cnt_t (fst (cmd_erase_start drv w)) = cnt_t (fst w)"
  "cnt_t_freerun (fst (cmd_erase_start drv w)) = cnt_t_freerun (fst w)"
  "WriteBuffer (fst (cmd_erase_start drv w)) = WriteBuffer (fst w)"
  "ReadBuffer (fst (cmd_erase_start drv w)) = ReadBuffer (fst w)"
  "sf3_i_val (fst (cmd_erase_start drv w)) = sf3_i_val (fst w) + 1"
  "operatingMode (fst (cmd_erase_start drv w))
     = (if sf3_i_val (fst w) + 1 < experi_subsector_cnt_per_iter then ST_CMD_ERASE_START else ST_CMD_ERASE_DONE)"
  "sf3_address_of_cmd (fst (cmd_erase_start drv w))
     = sf3_addr_start_val (fst w) + sf3_i_val (fst w) * sf3_subsector_addr_incr"
  by (simp_all add: cmd_erase_start_def split_beta Let_def )

lemma cmd_page_start_body_fields [simp]:
  "operatingModePrev (fst (cmd_page_start_body drv w)) = operatingModePrev (fst w)"
  "sf3_start_at_zero (fst (cmd_page_start_body drv w)) = sf3_start_at_zero (fst w)"
  "sf3_addr_start_val (fst (cmd_page_start_body drv w)) = sf3_addr_start_val (fst w)"
  "sf3_test_pattern_selected (fst (cmd_page_start_body drv w)) = sf3_test_pattern_selected (fst w)"
  "sf3_pattern_start_val (fst (cmd_page_start_body drv w)) = sf3_pattern_start_val (fst w)"
  "sf3_pattern_incr_val (fst (cmd_page_start_body drv w)) = sf3_pattern_incr_val (fst w)"
  "sf3_test_pass (fst (cmd_page_start_body drv w)) = sf3_test_pass (fst w)"
  "sf3_test_done (fst (cmd_page_start_body drv w)) = sf3_test_done (fst w)"
  "sf3_err_count_val (fst (cmd_page_start_body drv w)) = sf3_err_count_val (fst w)"
  "switchesRead (fst (cmd_page_start_body drv w)) = switchesRead (fst w)"
  "buttonsRead (fst (cmd_page_start_body drv w)) = buttonsRead (fst w)"
  "cnt_t (fst (cmd_page_start_body drv w)) = cnt_t (fst w)"
  "cnt_t_freerun (fst (cmd_page_start_body drv w)) = cnt_t_freerun (fst w)"
  "ReadBuffer (fst (cmd_page_start_body drv w)) = ReadBuffer (fst w)"
  "sf3_i_val (fst (cmd_page_start_body drv w)) = sf3_i_val (fst w) + 1"
  "operatingMode (fst (cmd_page_start_body drv w))
     = (if sf3_i_val (fst w) + 1 < experi_page_cnt_per_iter then ST_CMD_PAGE_START else ST_CMD_PAGE_DONE)"
  "sf3_address_of_cmd (fst (cmd_page_start_body drv w))
     = sf3_addr_start_val (fst w) + sf3_i_val (fst w) * sf3_page_addr_incr"
  "sf3_pattern_track_val (fst (cmd_page_start_body drv w)) = sf3_pattern_start_val (fst w)"
  "length (WriteBuffer (fst (cmd_page_start_body drv w))) = length (WriteBuffer (fst w))"
  by (simp_all add: cmd_page_start_body_def split_beta Let_def )

lemma cmd_read_start_body_fields [simp]:
  "operatingModePrev (fst (cmd_read_start_body drv w)) = operatingModePrev (fst w)"
  "sf3_start_at_zero (fst (cmd_read_start_body drv w)) = sf3_start_at_zero (fst w)"
  "sf3_addr_start_val (fst (cmd_read_start_body drv w)) = sf3_addr_start_val (fst w)"
  "sf3_test_pattern_selected (fst (cmd_read_start_body drv w)) = sf3_test_pattern_selected (fst w)"
  "sf3_pattern_start_val (fst (cmd_read_start_body drv w)) = sf3_pattern_start_val (fst w)"
  "sf3_pattern_incr_val (fst (cmd_read_start_body drv w)) = sf3_pattern_incr_val (fst w)"
  "sf3_test_pass (fst (cmd_read_start_body drv w)) = sf3_test_pass (fst w)"
  "sf3_test_done (fst (cmd_read_start_body drv w)) = sf3_test_done (fst w)"
  "switchesRead (fst (cmd_read_start_body drv w)) = switchesRead (fst w)"
  "buttonsRead (fst (cmd_read_start_body drv w)) = buttonsRead (fst w)"
  "cnt_t (fst (cmd_read_start_body drv w)) = cnt_t (fst w)"
  "cnt_t_freerun (fst (cmd_read_start_body drv w)) = cnt_t_freerun (fst w)"
  "WriteBuffer (fst (cmd_read_start_body drv w)) = WriteBuffer (fst w)"
  "sf3_i_val (fst (cmd_read_start_body drv w)) = sf3_i_val (fst w) + 1"
  "operatingMode (fst (cmd_read_start_body drv w))
     = (if sf3_i_val (fst w) + 1 < experi_page_cnt_per_iter then ST_CMD_READ_START else ST_CMD_READ_DONE)"
  "sf3_address_of_cmd (fst (cmd_read_start_body drv w))
     = sf3_addr_start_val (fst w) + sf3_i_val (fst w) * sf3_page_addr_incr"
  "sf3_pattern_track_val (fst (cmd_read_start_body drv w)) = sf3_pattern_start_val (fst w)"
  "length (ReadBuffer (fst (cmd_read_start_body drv w))) = length (ReadBuffer (fst w))"
  by (simp_all add: cmd_read_start_body_def split_beta Let_def )

section \<open>The batches of 32 commands\<close>

lemma page_batch_fields [simp]:
  "operatingModePrev (fst ((cmd_page_start_body drv ^^ n) w)) = operatingModePrev (fst w)"
  "sf3_start_at_zero (fst ((cmd_page_start_body drv ^^ n) w)) = sf3_start_at_zero (fst w)"
  "sf3_addr_start_val (fst ((cmd_page_start_body drv ^^ n) w)) = sf3_addr_start_val (fst w)"
  "sf3_test_pattern_selected (fst ((cmd_page_start_body drv ^^ n) w)) = sf3_test_pattern_selected (fst w)"
  "sf3_pattern_start_val (fst ((cmd_page_start_body drv ^^ n) w)) = sf3_pattern_start_val (fst w)"
  "sf3_pattern_incr_val (fst ((cmd_page_start_body drv ^^ n) w)) = sf3_pattern_incr_val (fst w)"
  "sf3_test_pass (fst ((cmd_page_start_body drv ^^ n) w)) = sf3_test_pass (fst w)"
  "sf3_test_done (fst ((cmd_page_start_body drv ^^ n) w)) = sf3_test_done (fst w)"
  "sf3_err_count_val (fst ((cmd_page_start_body drv ^^ n) w)) = sf3_err_count_val (fst w)"
  "switchesRead (fst ((cmd_page_start_body drv ^^ n) w)) = switchesRead (fst w)"
  "buttonsRead (fst ((cmd_page_start_body drv ^^ n) w)) = buttonsRead (fst w)"
  "cnt_t (fst ((cmd_page_start_body drv ^^ n) w)) = cnt_t (fst w)"
  "cnt_t_freerun (fst ((cmd_page_start_body drv ^^ n) w)) = cnt_t_freerun (fst w)"
  "ReadBuffer (fst ((cmd_page_start_body drv ^^ n) w)) = ReadBuffer (fst w)"
  "sf3_i_val (fst ((cmd_page_start_body drv ^^ n) w)) = sf3_i_val (fst w) + of_nat n"
  "length (WriteBuffer (fst ((cmd_page_start_body drv ^^ n) w))) = length (WriteBuffer (fst w))"
  by (induction n; simp add: algebra_simps)+

lemma page_batch_mode:
  "0 < n \<Longrightarrow> operatingMode (fst ((cmd_page_start_body drv ^^ n) w))
     = (if sf3_i_val (fst w) + of_nat n < experi_page_cnt_per_iter
        then ST_CMD_PAGE_START else ST_CMD_PAGE_DONE)"
  by (cases n) (simp_all add: algebra_simps)

lemma page_batch_track:
  "0 < n \<Longrightarrow> sf3_pattern_track_val (fst ((cmd_page_start_body drv ^^ n) w))
     = sf3_pattern_start_val (fst w)"
  by (cases n) simp_all

lemma read_batch_fields [simp]:
  "operatingModePrev (fst ((cmd_read_start_body drv ^^ n) w)) = operatingModePrev (fst w)"
  "sf3_start_at_zero (fst ((cmd_read_start_body drv ^^ n) w)) = sf3_start_at_zero (fst w)"
  "sf3_addr_start_val (fst ((cmd_read_start_body drv ^^ n) w)) = sf3_addr_start_val (fst w)"
  "sf3_test_pattern_selected (fst ((cmd_read_start_body drv ^^ n) w)) = sf3_test_pattern_selected (fst w)"
  "sf3_pattern_start_val (fst ((cmd_read_start_body drv ^^ n) w)) = sf3_pattern_start_val (fst w)"
  "sf3_pattern_incr_val (fst ((cmd_read_start_body drv ^^ n) w)) = sf3_pattern_incr_val (fst w)"
  "sf3_test_pass (fst ((cmd_read_start_body drv ^^ n) w)) = sf3_test_pass (fst w)"
  "sf3_test_done (fst ((cmd_read_start_body drv ^^ n) w)) = sf3_test_done (fst w)"
  "switchesRead (fst ((cmd_read_start_body drv ^^ n) w)) = switchesRead (fst w)"
  "buttonsRead (fst ((cmd_read_start_body drv ^^ n) w)) = buttonsRead (fst w)"
  "cnt_t (fst ((cmd_read_start_body drv ^^ n) w)) = cnt_t (fst w)"
  "cnt_t_freerun (fst ((cmd_read_start_body drv ^^ n) w)) = cnt_t_freerun (fst w)"
  "WriteBuffer (fst ((cmd_read_start_body drv ^^ n) w)) = WriteBuffer (fst w)"
  "sf3_i_val (fst ((cmd_read_start_body drv ^^ n) w)) = sf3_i_val (fst w) + of_nat n"
  "length (ReadBuffer (fst ((cmd_read_start_body drv ^^ n) w))) = length (ReadBuffer (fst w))"
  by (induction n; simp add: algebra_simps)+

lemma read_batch_mode:
  "0 < n \<Longrightarrow> operatingMode (fst ((cmd_read_start_body drv ^^ n) w))
     = (if sf3_i_val (fst w) + of_nat n < experi_page_cnt_per_iter
        then ST_CMD_READ_START else ST_CMD_READ_DONE)"
  by (cases n) (simp_all add: algebra_simps)

lemma read_batch_track:
  "0 < n \<Longrightarrow> sf3_pattern_track_val (fst ((cmd_read_start_body drv ^^ n) w))
     = sf3_pattern_start_val (fst w)"
  by (cases n) simp_all

section \<open>One step of the state machine, case by case\<close>

lemma FSM_cases:
  "operatingMode (fst w) = ST_WAIT_BUTTON_DEP \<Longrightarrow>
     Experiment_operateFSM drv w = (wait_button_dep (fst w), snd w)"
  "operatingMode (fst w) = ST_WAIT_BUTTON_REL \<Longrightarrow>
     Experiment_operateFSM drv w =
       (if buttonsRead (fst w) = 0 then (fst w) \<lparr> operatingMode := ST_SET_PATTERN \<rparr> else fst w, snd w)"
  "operatingMode (fst w) = ST_SET_PATTERN \<Longrightarrow>
     Experiment_operateFSM drv w = (set_pattern (fst w), snd w)"
  "operatingMode (fst w) = ST_SET_START_ADDR \<Longrightarrow>
     Experiment_operateFSM drv w = (set_start_addr (fst w), snd w)"
  "operatingMode (fst w) = ST_SET_START_WAIT \<Longrightarrow>
     Experiment_operateFSM drv w =
       (if cnt_t (fst w) = cnt_t_max div 2
        then (fst w) \<lparr> operatingMode := ST_CMD_ERASE_START \<rparr> else fst w, snd w)"
  "operatingMode (fst w) = ST_CMD_ERASE_START \<Longrightarrow>
     Experiment_operateFSM drv w = cmd_erase_start drv w"
  "operatingMode (fst w) = ST_CMD_ERASE_DONE \<Longrightarrow>
     Experiment_operateFSM drv w = (cmd_done ST_CMD_ERASE_DONE ST_CMD_PAGE_START (fst w), snd w)"
  "operatingMode (fst w) = ST_CMD_PAGE_START \<Longrightarrow>
     Experiment_operateFSM drv w = (cmd_page_start_body drv ^^ 32) w"
  "operatingMode (fst w) = ST_CMD_PAGE_DONE \<Longrightarrow>
     Experiment_operateFSM drv w = (cmd_done ST_CMD_PAGE_DONE ST_CMD_READ_START (fst w), snd w)"
  "operatingMode (fst w) = ST_CMD_READ_START \<Longrightarrow>
     Experiment_operateFSM drv w = (cmd_read_start_body drv ^^ 32) w"
  "operatingMode (fst w) = ST_CMD_READ_DONE \<Longrightarrow>
     Experiment_operateFSM drv w = (cmd_done ST_CMD_READ_DONE ST_DISPLAY_FINAL (fst w), snd w)"
  "operatingMode (fst w) = ST_DISPLAY_FINAL \<Longrightarrow>
     Experiment_operateFSM drv w = (display_final (fst w), snd w)"
  "operatingMode (fst w) = OPERATING_MODE_NONE \<Longrightarrow>
     Experiment_operateFSM drv w = ((fst w) \<lparr> operatingMode := ST_WAIT_BUTTON_DEP \<rparr>, snd w)"
  by (simp_all add: Experiment_operateFSM_def split_beta)

lemmas case_defs =
  wait_button_dep_def set_pattern_def set_start_addr_def cmd_done_def display_final_def

lemma FSM_fields [simp]:
  "operatingModePrev (fst (Experiment_operateFSM drv w)) = operatingModePrev (fst w)"
  "switchesRead (fst (Experiment_operateFSM drv w)) = switchesRead (fst w)"
  "buttonsRead (fst (Experiment_operateFSM drv w)) = buttonsRead (fst w)"
  "cnt_t (fst (Experiment_operateFSM drv w)) = cnt_t (fst w)"
  "cnt_t_freerun (fst (Experiment_operateFSM drv w)) = cnt_t_freerun (fst w)"
  "length (WriteBuffer (fst (Experiment_operateFSM drv w))) = length (WriteBuffer (fst w))"
  "length (ReadBuffer (fst (Experiment_operateFSM drv w))) = length (ReadBuffer (fst w))"
  by (cases "operatingMode (fst w)";
      simp add: FSM_cases case_defs Let_def split: test_pattern.split)+

lemma cycle_unfold:
  "Experiment_prvSf3Task_cycle drv inp w =
     (Experiment_iterationTimer
        (fst (Experiment_operateFSM drv
           (Experiment_readUserInputs (fst inp) (snd inp) (fst w), fst (snd w),
            snd (snd w) @ Experiment_updateClsDisplayAndTerminal (fst w)))),
      snd (Experiment_operateFSM drv
           (Experiment_readUserInputs (fst inp) (snd inp) (fst w), fst (snd w),
            snd (snd w) @ Experiment_updateClsDisplayAndTerminal (fst w))))"
  by (simp add: Experiment_prvSf3Task_cycle_def split_beta Let_def)

lemma readUserInputs_fields [simp]:
  "comString (Experiment_readUserInputs sw btn e) = comString e"
  "operatingMode (Experiment_readUserInputs sw btn e) = operatingMode e"
  "operatingModePrev (Experiment_readUserInputs sw btn e) = operatingModePrev e"
  "sf3_start_at_zero (Experiment_readUserInputs sw btn e) = sf3_start_at_zero e"
  "sf3_addr_start_val (Experiment_readUserInputs sw btn e) = sf3_addr_start_val e"
  "sf3_test_pattern_selected (Experiment_readUserInputs sw btn e) = sf3_test_pattern_selected e"
  "sf3_pattern_start_val (Experiment_readUserInputs sw btn e) = sf3_pattern_start_val e"
  "sf3_pattern_incr_val (Experiment_readUserInputs sw btn e) = sf3_pattern_incr_val e"
  "sf3_pattern_track_val (Experiment_readUserInputs sw btn e) = sf3_pattern_track_val e"
  "sf3_test_pass (Experiment_readUserInputs sw btn e) = sf3_test_pass e"
  "sf3_test_done (Experiment_readUserInputs sw btn e) = sf3_test_done e"
  "sf3_err_count_val (Experiment_readUserInputs sw btn e) = sf3_err_count_val e"
  "cnt_t (Experiment_readUserInputs sw btn e) = cnt_t e"
  "cnt_t_freerun (Experiment_readUserInputs sw btn e) = cnt_t_freerun e"
  "sf3_i_val (Experiment_readUserInputs sw btn e) = sf3_i_val e"
  "sf3_address_of_cmd (Experiment_readUserInputs sw btn e) = sf3_address_of_cmd e"
  "WriteBuffer (Experiment_readUserInputs sw btn e) = WriteBuffer e"
  "ReadBuffer (Experiment_readUserInputs sw btn e) = ReadBuffer e"
  "switchesRead (Experiment_readUserInputs sw btn e) = sw"
  "buttonsRead (Experiment_readUserInputs sw btn e) = btn"
  by (simp_all add: Experiment_readUserInputs_def)

lemma cycle_fields [simp]:
  "operatingModePrev (fst (Experiment_prvSf3Task_cycle drv inp w))
     = operatingMode (fst (Experiment_prvSf3Task_cycle drv inp w))"
  "cnt_t_freerun (fst (Experiment_prvSf3Task_cycle drv inp w))
     = (cnt_t_freerun (fst w) + 1) mod cnt_t_max"
  "length (WriteBuffer (fst (Experiment_prvSf3Task_cycle drv inp w))) = length (WriteBuffer (fst w))"
  "length (ReadBuffer (fst (Experiment_prvSf3Task_cycle drv inp w))) = length (ReadBuffer (fst w))"
  by (simp_all add: cycle_unfold)

lemma run_append: "run drv (xs @ ys) w = run drv ys (run drv xs w)"
  by (induction xs arbitrary: w) simp_all

lemma run_snoc: "run drv (xs @ [inp]) w = Experiment_prvSf3Task_cycle drv inp (run drv xs w)"
  by (simp add: run_append)

lemma reachable_run: "reachable drv w \<Longrightarrow> reachable drv (run drv inps w)"
  by (induction inps arbitrary: w) (simp_all add: reachable_cycle)

section \<open>Arithmetic on the 32-bit counters\<close>

lemma unat_plus_of_nat:
  assumes "unat (x::u32) + n < 2 ^ 32"
  shows "unat (x + of_nat n) = unat x + n"
proof -
  have "unat (of_nat n :: u32) = n" using assms by (simp add: unat_of_nat)
  then show ?thesis using assms by (simp add: unat_add_lem [THEN iffD1])
qed

lemma u32_succ_less_256: "unat (x::u32) < 256 \<Longrightarrow> (x + 1 < 256) \<longleftrightarrow> unat x + 1 < 256"
  by (simp add: word_less_nat_alt unat_add_lem [THEN iffD1])

lemma u32_add_less_4096:
  "unat (x::u32) + n \<le> 4096 \<Longrightarrow> (x + of_nat n < 4096) \<longleftrightarrow> unat x + n < 4096"
  by (simp add: word_less_nat_alt unat_plus_of_nat)

lemma u32_succ_mod: "unat (c::u32) < 300 \<Longrightarrow> unat ((c + 1) mod 300) = (unat c + 1) mod 300"
  by (simp add: unat_mod_distrib unat_add_lem [THEN iffD1])

lemma u32_ge_299: "(299 \<le> (c::u32)) \<longleftrightarrow> 299 \<le> unat c"
  by (simp add: word_le_nat_alt)

lemma u32_eq_num:
  "((c::u32) = 150) \<longleftrightarrow> unat c = 150"
  "((c::u32) = 299) \<longleftrightarrow> unat c = 299"
  "((c::u32) = 0) \<longleftrightarrow> unat c = 0"
  by (simp_all add: word_unat_eq_iff)

lemma of_nat_u32_inj:
  assumes "m < 2 ^ 32" "m' < 2 ^ 32" "(of_nat m :: u32) = of_nat m'"
  shows "m = m'"
proof -
  have "unat (of_nat m :: u32) = m"
    by (rule of_nat_inverse [OF refl]) (use assms(1) in simp)
  moreover have "unat (of_nat m' :: u32) = m'"
    by (rule of_nat_inverse [OF refl]) (use assms(2) in simp)
  ultimately show ?thesis using assms(3) by metis
qed

section \<open>The device outside the three command modes\<close>

lemma cycle_device_idle:
  "operatingMode (fst w) \<notin> {ST_CMD_ERASE_START, ST_CMD_PAGE_START, ST_CMD_READ_START} \<Longrightarrow>
   fst (snd (Experiment_prvSf3Task_cycle drv inp w)) = fst (snd w)"
  by (cases "operatingMode (fst w)") (simp_all add: cycle_unfold FSM_cases)

section \<open>Runs that stay in one mode until it is left\<close>

lemma erase_run:
  assumes "operatingMode (fst w) = ST_CMD_ERASE_START"
      and "operatingModePrev (fst w) = ST_CMD_ERASE_START"
      and "unat (sf3_i_val (fst w)) + length inps \<le> 256"
      and "unat (sf3_i_val (fst w)) < 256"
  shows "sf3_i_val (fst (run drv inps w)) = sf3_i_val (fst w) + of_nat (length inps)
       \<and> operatingMode (fst (run drv inps w))
           = (if unat (sf3_i_val (fst w)) + length inps < 256
              then ST_CMD_ERASE_START else ST_CMD_ERASE_DONE)
       \<and> operatingModePrev (fst (run drv inps w)) = operatingMode (fst (run drv inps w))
       \<and> (unat (sf3_i_val (fst w)) + length inps = 256 \<longrightarrow> cnt_t (fst (run drv inps w)) = 0)
       \<and> pass_cfg (fst (run drv inps w)) = pass_cfg (fst w)
       \<and> sf3_test_pass (fst (run drv inps w)) = sf3_test_pass (fst w)
       \<and> sf3_err_count_val (fst (run drv inps w)) = sf3_err_count_val (fst w)"
  using assms
proof (induction inps rule: rev_induct)
  case Nil
  then show ?case by simp
next
  case (snoc x xs)
  let ?v = "run drv xs w"
  from snoc have IH:
    "sf3_i_val (fst ?v) = sf3_i_val (fst w) + of_nat (length xs)"
    "operatingMode (fst ?v) = ST_CMD_ERASE_START"
    "operatingModePrev (fst ?v) = ST_CMD_ERASE_START"
    "pass_cfg (fst ?v) = pass_cfg (fst w)"
    "sf3_test_pass (fst ?v) = sf3_test_pass (fst w)"
    "sf3_err_count_val (fst ?v) = sf3_err_count_val (fst w)"
    by simp_all
  have u: "unat (sf3_i_val (fst ?v)) = unat (sf3_i_val (fst w)) + length xs"
    using snoc.prems(3) by (simp add: IH(1) unat_plus_of_nat)
  have lt: "unat (sf3_i_val (fst ?v)) < 256" using snoc.prems(3) u by simp
  show ?case
    using IH lt u
    by (simp add: run_snoc cycle_unfold FSM_cases consts_num u32_succ_less_256 pass_cfg_def)
qed

lemma done_cycle:
  assumes fsm: "\<And>v. operatingMode (fst v) = stay \<Longrightarrow>
                  Experiment_operateFSM drv v = (cmd_done stay nxt (fst v), snd v)"
      and ne: "stay \<noteq> nxt"
      and m: "operatingMode (fst w) = stay" "operatingModePrev (fst w) = stay"
      and c: "unat (cnt_t (fst w)) < 300"
  shows "operatingMode (fst (Experiment_prvSf3Task_cycle drv inp w))
           = (if unat (cnt_t (fst w)) < 299 then stay else nxt)"
    and "unat (cnt_t (fst (Experiment_prvSf3Task_cycle drv inp w)))
           = (if unat (cnt_t (fst w)) < 299 then unat (cnt_t (fst w)) + 1 else 0)"
    and "sf3_i_val (fst (Experiment_prvSf3Task_cycle drv inp w)) = 0"
    and "sf3_pattern_track_val (fst (Experiment_prvSf3Task_cycle drv inp w))
           = sf3_pattern_start_val (fst w)"
    and "pass_cfg (fst (Experiment_prvSf3Task_cycle drv inp w)) = pass_cfg (fst w)"
    and "sf3_test_pass (fst (Experiment_prvSf3Task_cycle drv inp w)) = sf3_test_pass (fst w)"
    and "sf3_err_count_val (fst (Experiment_prvSf3Task_cycle drv inp w))
           = sf3_err_count_val (fst w)"
    and "fst (snd (Experiment_prvSf3Task_cycle drv inp w)) = fst (snd w)"
  using ne m c
  by (simp_all add: cycle_unfold fsm cmd_done_def consts_num pass_cfg_def
        u32_succ_mod u32_ge_299 Let_def)

lemma done_run:
  assumes fsm: "\<And>v. operatingMode (fst v) = stay \<Longrightarrow>
                  Experiment_operateFSM drv v = (cmd_done stay nxt (fst v), snd v)"
      and ne: "stay \<noteq> nxt"
      and "operatingMode (fst w) = stay"
      and "operatingModePrev (fst w) = stay"
      and "unat (cnt_t (fst w)) + length inps \<le> 300"
      and "unat (cnt_t (fst w)) < 300"
  shows "operatingMode (fst (run drv inps w))
           = (if unat (cnt_t (fst w)) + length inps < 300 then stay else nxt)
       \<and> operatingModePrev (fst (run drv inps w)) = operatingMode (fst (run drv inps w))
       \<and> unat (cnt_t (fst (run drv inps w)))
           = (if unat (cnt_t (fst w)) + length inps < 300
              then unat (cnt_t (fst w)) + length inps else 0)
       \<and> (inps \<noteq> [] \<longrightarrow> sf3_i_val (fst (run drv inps w)) = 0
             \<and> sf3_pattern_track_val (fst (run drv inps w)) = sf3_pattern_start_val (fst w))
       \<and> pass_cfg (fst (run drv inps w)) = pass_cfg (fst w)
       \<and> sf3_test_pass (fst (run drv inps w)) = sf3_test_pass (fst w)
       \<and> sf3_err_count_val (fst (run drv inps w)) = sf3_err_count_val (fst w)
       \<and> fst (snd (run drv inps w)) = fst (snd w)"
  using assms(3-)
proof (induction inps rule: rev_induct)
  case Nil
  then show ?case by simp
next
  case (snoc x xs)
  let ?v = "run drv xs w"
  from snoc have IH:
    "operatingMode (fst ?v) = stay"
    "operatingModePrev (fst ?v) = stay"
    "unat (cnt_t (fst ?v)) = unat (cnt_t (fst w)) + length xs"
    "pass_cfg (fst ?v) = pass_cfg (fst w)"
    "sf3_test_pass (fst ?v) = sf3_test_pass (fst w)"
    "sf3_err_count_val (fst ?v) = sf3_err_count_val (fst w)"
    "fst (snd ?v) = fst (snd w)"
    by simp_all
  have lt: "unat (cnt_t (fst ?v)) < 300" using snoc.prems(3) IH(3) by simp
  have pc: "sf3_pattern_start_val (fst ?v) = sf3_pattern_start_val (fst w)"
    using IH(4) by (simp add: pass_cfg_def)
  note dc = done_cycle [OF fsm ne IH(1) IH(2) lt]
  show ?case
    unfolding run_snoc
    using IH lt pc by (simp add: dc)
qed

lemma wait_cycle:
  assumes m: "operatingMode (fst w) = ST_SET_START_WAIT"
             "operatingModePrev (fst w) = ST_SET_START_WAIT"
      and c: "unat (cnt_t (fst w)) \<le> 150"
  shows "operatingMode (fst (Experiment_prvSf3Task_cycle drv inp w))
           = (if unat (cnt_t (fst w)) < 150 then ST_SET_START_WAIT else ST_CMD_ERASE_START)"
    and "unat (cnt_t (fst (Experiment_prvSf3Task_cycle drv inp w)))
           = (if unat (cnt_t (fst w)) < 150 then unat (cnt_t (fst w)) + 1 else 0)"
    and "sf3_i_val (fst (Experiment_prvSf3Task_cycle drv inp w)) = sf3_i_val (fst w)"
    and "pass_cfg (fst (Experiment_prvSf3Task_cycle drv inp w)) = pass_cfg (fst w)"
    and "sf3_test_pass (fst (Experiment_prvSf3Task_cycle drv inp w)) = sf3_test_pass (fst w)"
    and "sf3_err_count_val (fst (Experiment_prvSf3Task_cycle drv inp w))
           = sf3_err_count_val (fst w)"
    and "fst (snd (Experiment_prvSf3Task_cycle drv inp w)) = fst (snd w)"
  using m c
  by (simp_all add: cycle_unfold FSM_cases consts_num pass_cfg_def u32_succ_mod u32_eq_num)

lemma wait_run:
  assumes "operatingMode (fst w) = ST_SET_START_WAIT"
      and "operatingModePrev (fst w) = ST_SET_START_WAIT"
      and "unat (cnt_t (fst w)) + length inps \<le> 151"
      and "unat (cnt_t (fst w)) \<le> 150"
  shows "operatingMode (fst (run drv inps w))
           = (if unat (cnt_t (fst w)) + length inps < 151
              then ST_SET_START_WAIT else ST_CMD_ERASE_START)
       \<and> operatingModePrev (fst (run drv inps w)) = operatingMode (fst (run drv inps w))
       \<and> unat (cnt_t (fst (run drv inps w)))
           = (if unat (cnt_t (fst w)) + length inps < 151
              then unat (cnt_t (fst w)) + length inps else 0)
       \<and> sf3_i_val (fst (run drv inps w)) = sf3_i_val (fst w)
       \<and> pass_cfg (fst (run drv inps w)) = pass_cfg (fst w)
       \<and> sf3_test_pass (fst (run drv inps w)) = sf3_test_pass (fst w)
       \<and> sf3_err_count_val (fst (run drv inps w)) = sf3_err_count_val (fst w)
       \<and> fst (snd (run drv inps w)) = fst (snd w)"
  using assms
proof (induction inps rule: rev_induct)
  case Nil
  then show ?case by simp
next
  case (snoc x xs)
  let ?v = "run drv xs w"
  from snoc have IH:
    "operatingMode (fst ?v) = ST_SET_START_WAIT"
    "operatingModePrev (fst ?v) = ST_SET_START_WAIT"
    "unat (cnt_t (fst ?v)) = unat (cnt_t (fst w)) + length xs"
    "sf3_i_val (fst ?v) = sf3_i_val (fst w)"
    "pass_cfg (fst ?v) = pass_cfg (fst w)"
    "sf3_test_pass (fst ?v) = sf3_test_pass (fst w)"
    "sf3_err_count_val (fst ?v) = sf3_err_count_val (fst w)"
    "fst (snd ?v) = fst (snd w)"
    by simp_all
  have lt: "unat (cnt_t (fst ?v)) \<le> 150" using snoc.prems(3) IH(3) by simp
  note dc = wait_cycle [OF IH(1) IH(2) lt]
  show ?case
    unfolding run_snoc
    using IH lt by (simp add: dc)
qed

lemma final_cycle:
  assumes m: "operatingMode (fst w) = ST_DISPLAY_FINAL"
             "operatingModePrev (fst w) = ST_DISPLAY_FINAL"
      and c: "unat (cnt_t (fst w)) < 300"
  shows "operatingMode (fst (Experiment_prvSf3Task_cycle drv inp w))
           = (if unat (cnt_t (fst w)) < 299 then ST_DISPLAY_FINAL else ST_WAIT_BUTTON_DEP)"
    and "unat (cnt_t (fst (Experiment_prvSf3Task_cycle drv inp w)))
           = (if unat (cnt_t (fst w)) < 299 then unat (cnt_t (fst w)) + 1 else 0)"
    and "sf3_i_val (fst (Experiment_prvSf3Task_cycle drv inp w)) = sf3_i_val (fst w)"
    and "pass_cfg (fst (Experiment_prvSf3Task_cycle drv inp w)) = pass_cfg (fst w)"
    and "sf3_test_pass (fst (Experiment_prvSf3Task_cycle drv inp w))
           = (sf3_err_count_val (fst w) = 0)"
    and "sf3_err_count_val (fst (Experiment_prvSf3Task_cycle drv inp w))
           = sf3_err_count_val (fst w)"
    and "fst (snd (Experiment_prvSf3Task_cycle drv inp w)) = fst (snd w)"
  using m c
  by (simp_all add: cycle_unfold FSM_cases display_final_def consts_num pass_cfg_def u32_succ_mod
      u32_eq_num Let_def)

lemma final_run:
  assumes "operatingMode (fst w) = ST_DISPLAY_FINAL"
      and "operatingModePrev (fst w) = ST_DISPLAY_FINAL"
      and "unat (cnt_t (fst w)) + length inps \<le> 300"
      and "unat (cnt_t (fst w)) < 300"
  shows "operatingMode (fst (run drv inps w))
           = (if unat (cnt_t (fst w)) + length inps < 300
              then ST_DISPLAY_FINAL else ST_WAIT_BUTTON_DEP)
       \<and> operatingModePrev (fst (run drv inps w)) = operatingMode (fst (run drv inps w))
       \<and> unat (cnt_t (fst (run drv inps w)))
           = (if unat (cnt_t (fst w)) + length inps < 300
              then unat (cnt_t (fst w)) + length inps else 0)
       \<and> sf3_i_val (fst (run drv inps w)) = sf3_i_val (fst w)
       \<and> pass_cfg (fst (run drv inps w)) = pass_cfg (fst w)
       \<and> (inps \<noteq> [] \<longrightarrow> sf3_test_pass (fst (run drv inps w)) = (sf3_err_count_val (fst w) = 0))
       \<and> sf3_err_count_val (fst (run drv inps w)) = sf3_err_count_val (fst w)
       \<and> fst (snd (run drv inps w)) = fst (snd w)"
  using assms
proof (induction inps rule: rev_induct)
  case Nil
  then show ?case by simp
next
  case (snoc x xs)
  let ?v = "run drv xs w"
  from snoc have IH:
    "operatingMode (fst ?v) = ST_DISPLAY_FINAL"
    "operatingModePrev (fst ?v) = ST_DISPLAY_FINAL"
    "unat (cnt_t (fst ?v)) = unat (cnt_t (fst w)) + length xs"
    "sf3_i_val (fst ?v) = sf3_i_val (fst w)"
    "pass_cfg (fst ?v) = pass_cfg (fst w)"
    "sf3_err_count_val (fst ?v) = sf3_err_count_val (fst w)"
    "fst (snd ?v) = fst (snd w)"
    by simp_all
  have lt: "unat (cnt_t (fst ?v)) < 300" using snoc.prems(3) IH(3) by simp
  note dc = final_cycle [OF IH(1) IH(2) lt]
  show ?case
    unfolding run_snoc
    using IH lt by (simp add: dc)
qed

lemma page_cycle:
  assumes m: "operatingMode (fst w) = ST_CMD_PAGE_START"
             "operatingModePrev (fst w) = ST_CMD_PAGE_START"
      and c: "unat (sf3_i_val (fst w)) + 32 \<le> 4096"
  shows "operatingMode (fst (Experiment_prvSf3Task_cycle drv inp w))
           = (if unat (sf3_i_val (fst w)) + 32 < 4096 then ST_CMD_PAGE_START else ST_CMD_PAGE_DONE)"
    and "unat (sf3_i_val (fst (Experiment_prvSf3Task_cycle drv inp w)))
           = unat (sf3_i_val (fst w)) + 32"
    and "unat (sf3_i_val (fst w)) + 32 = 4096 \<Longrightarrow>
           cnt_t (fst (Experiment_prvSf3Task_cycle drv inp w)) = 0"
    and "sf3_pattern_track_val (fst (Experiment_prvSf3Task_cycle drv inp w))
           = sf3_pattern_start_val (fst w)"
    and "pass_cfg (fst (Experiment_prvSf3Task_cycle drv inp w)) = pass_cfg (fst w)"
    and "sf3_test_pass (fst (Experiment_prvSf3Task_cycle drv inp w)) = sf3_test_pass (fst w)"
    and "sf3_err_count_val (fst (Experiment_prvSf3Task_cycle drv inp w))
           = sf3_err_count_val (fst w)"
  using m c u32_add_less_4096 [of "sf3_i_val (fst w)" 32] unat_plus_of_nat [of "sf3_i_val (fst w)" 32]
  by (simp_all add: cycle_unfold FSM_cases consts_num pass_cfg_def page_batch_mode page_batch_track)

lemma page_run:
  assumes "operatingMode (fst w) = ST_CMD_PAGE_START"
      and "operatingModePrev (fst w) = ST_CMD_PAGE_START"
      and "unat (sf3_i_val (fst w)) + 32 * length inps \<le> 4096"
      and "unat (sf3_i_val (fst w)) < 4096"
  shows "unat (sf3_i_val (fst (run drv inps w))) = unat (sf3_i_val (fst w)) + 32 * length inps
       \<and> operatingMode (fst (run drv inps w))
           = (if unat (sf3_i_val (fst w)) + 32 * length inps < 4096
              then ST_CMD_PAGE_START else ST_CMD_PAGE_DONE)
       \<and> operatingModePrev (fst (run drv inps w)) = operatingMode (fst (run drv inps w))
       \<and> (unat (sf3_i_val (fst w)) + 32 * length inps = 4096 \<longrightarrow> cnt_t (fst (run drv inps w)) = 0)
       \<and> (inps \<noteq> [] \<longrightarrow>
             sf3_pattern_track_val (fst (run drv inps w)) = sf3_pattern_start_val (fst w))
       \<and> pass_cfg (fst (run drv inps w)) = pass_cfg (fst w)
       \<and> sf3_test_pass (fst (run drv inps w)) = sf3_test_pass (fst w)
       \<and> sf3_err_count_val (fst (run drv inps w)) = sf3_err_count_val (fst w)"
  using assms
proof (induction inps rule: rev_induct)
  case Nil
  then show ?case by simp
next
  case (snoc x xs)
  let ?v = "run drv xs w"
  from snoc have IH:
    "unat (sf3_i_val (fst ?v)) = unat (sf3_i_val (fst w)) + 32 * length xs"
    "operatingMode (fst ?v) = ST_CMD_PAGE_START"
    "operatingModePrev (fst ?v) = ST_CMD_PAGE_START"
    "pass_cfg (fst ?v) = pass_cfg (fst w)"
    "sf3_test_pass (fst ?v) = sf3_test_pass (fst w)"
    "sf3_err_count_val (fst ?v) = sf3_err_count_val (fst w)"
    by simp_all
  have lt: "unat (sf3_i_val (fst ?v)) + 32 \<le> 4096" using snoc.prems(3) IH(1) by simp
  have pc: "sf3_pattern_start_val (fst ?v) = sf3_pattern_start_val (fst w)"
    using IH(4) by (simp add: pass_cfg_def)
  note dc = page_cycle [OF IH(2) IH(3) lt]
  show ?case
    unfolding run_snoc
    using IH lt pc by (simp add: dc)
qed

lemma read_cycle:
  assumes m: "operatingMode (fst w) = ST_CMD_READ_START"
             "operatingModePrev (fst w) = ST_CMD_READ_START"
      and c: "unat (sf3_i_val (fst w)) + 32 \<le> 4096"
  shows "operatingMode (fst (Experiment_prvSf3Task_cycle drv inp w))
           = (if unat (sf3_i_val (fst w)) + 32 < 4096 then ST_CMD_READ_START else ST_CMD_READ_DONE)"
    and "unat (sf3_i_val (fst (Experiment_prvSf3Task_cycle drv inp w)))
           = unat (sf3_i_val (fst w)) + 32"
    and "unat (sf3_i_val (fst w)) + 32 = 4096 \<Longrightarrow>
           cnt_t (fst (Experiment_prvSf3Task_cycle drv inp w)) = 0"
    and "pass_cfg (fst (Experiment_prvSf3Task_cycle drv inp w)) = pass_cfg (fst w)"
    and "sf3_test_pass (fst (Experiment_prvSf3Task_cycle drv inp w)) = sf3_test_pass (fst w)"
  using m c u32_add_less_4096 [of "sf3_i_val (fst w)" 32] unat_plus_of_nat [of "sf3_i_val (fst w)" 32]
  by (simp_all add: cycle_unfold FSM_cases consts_num pass_cfg_def read_batch_mode)

lemma read_run:
  assumes "operatingMode (fst w) = ST_CMD_READ_START"
      and "operatingModePrev (fst w) = ST_CMD_READ_START"
      and "unat (sf3_i_val (fst w)) + 32 * length inps \<le> 4096"
      and "unat (sf3_i_val (fst w)) < 4096"
  shows "unat (sf3_i_val (fst (run drv inps w))) = unat (sf3_i_val (fst w)) + 32 * length inps
       \<and> operatingMode (fst (run drv inps w))
           = (if unat (sf3_i_val (fst w)) + 32 * length inps < 4096
              then ST_CMD_READ_START else ST_CMD_READ_DONE)
       \<and> operatingModePrev (fst (run drv inps w)) = operatingMode (fst (run drv inps w))
       \<and> (unat (sf3_i_val (fst w)) + 32 * length inps = 4096 \<longrightarrow> cnt_t (fst (run drv inps w)) = 0)
       \<and> pass_cfg (fst (run drv inps w)) = pass_cfg (fst w)
       \<and> sf3_test_pass (fst (run drv inps w)) = sf3_test_pass (fst w)"
  using assms
proof (induction inps rule: rev_induct)
  case Nil
  then show ?case by simp
next
  case (snoc x xs)
  let ?v = "run drv xs w"
  from snoc have IH:
    "unat (sf3_i_val (fst ?v)) = unat (sf3_i_val (fst w)) + 32 * length xs"
    "operatingMode (fst ?v) = ST_CMD_READ_START"
    "operatingModePrev (fst ?v) = ST_CMD_READ_START"
    "pass_cfg (fst ?v) = pass_cfg (fst w)"
    "sf3_test_pass (fst ?v) = sf3_test_pass (fst w)"
    by simp_all
  have lt: "unat (sf3_i_val (fst ?v)) + 32 \<le> 4096" using snoc.prems(3) IH(1) by simp
  note dc = read_cycle [OF IH(2) IH(3) lt]
  show ?case
    unfolding run_snoc
    using IH lt by (simp add: dc)
qed

section \<open>One subsector erase\<close>

lemma length_fmt_08lx [simp]: "length (fmt_08lx w) = 8"
  by (simp add: fmt_08lx_def)

lemma snprintf_fits: "length s < n \<Longrightarrow> snprintf n s = s"
  by (simp add: snprintf_def)

lemma cmd_erase_start_sent:
  "snd (snd (cmd_erase_start drv (e, d, q)))
     = q @ (if fst (SF3_FlashWriteEnable drv d) \<noteq> XST_SUCCESS
            then [xQueuePrint ''WEN Fail''] else [])
         @ (if fst (SF3_SectorErase drv (snd (SF3_FlashWriteEnable drv d))
                      (sf3_addr_start_val e + sf3_i_val e * sf3_subsector_addr_incr)) \<noteq> XST_SUCCESS
            then [xQueuePrint (''Ers Fail ''
                    @ fmt_08lx (sf3_addr_start_val e + sf3_i_val e * sf3_subsector_addr_incr))]
            else [])"
  by (simp add: cmd_erase_start_def report_failure_def split_beta Let_def snprintf_fits
        PRINTF_BUF_SZ_def)

lemma cmd_erase_start_next:
  "sf3_i_val (fst (cmd_erase_start drv w)) = sf3_i_val (fst w) + 1"
  "operatingMode (fst (cmd_erase_start drv w))
     = (if sf3_i_val (fst w) + 1 < experi_subsector_cnt_per_iter
        then ST_CMD_ERASE_START else ST_CMD_ERASE_DONE)"
  by (simp_all add: cmd_erase_start_def report_failure_def split_beta Let_def)

lemma erase_run_any_driver:
  assumes "operatingMode (fst w) = ST_CMD_ERASE_START"
      and "unat (sf3_i_val (fst w)) + length inps \<le> 256"
      and "unat (sf3_i_val (fst w)) < 256"
  shows "sf3_i_val (fst (run drv inps w)) = sf3_i_val (fst w) + of_nat (length inps)
       \<and> operatingMode (fst (run drv inps w))
           = (if unat (sf3_i_val (fst w)) + length inps < 256
              then ST_CMD_ERASE_START else ST_CMD_ERASE_DONE)"
  using assms
proof (induction inps rule: rev_induct)
  case Nil
  then show ?case by simp
next
  case (snoc x xs)
  let ?v = "run drv xs w"
  from snoc have IH:
    "sf3_i_val (fst ?v) = sf3_i_val (fst w) + of_nat (length xs)"
    "operatingMode (fst ?v) = ST_CMD_ERASE_START"
    by simp_all
  have u: "unat (sf3_i_val (fst ?v)) = unat (sf3_i_val (fst w)) + length xs"
    using snoc.prems(2) by (simp add: IH(1) unat_plus_of_nat)
  have lt: "unat (sf3_i_val (fst ?v)) < 256" using snoc.prems(2) u by simp
  show ?case
    using IH lt u
    by (simp add: run_snoc cycle_unfold FSM_cases consts_num u32_succ_less_256 cmd_erase_start_next)
qed

section \<open>What the three loops compute\<close>

lemma fold_upt_Suc: "fold f [0..<Suc n] e = f n (fold f [0..<n] e)"
  by simp

lemma fold_fill_nth:
  "i < n \<Longrightarrow> i + x < length (WriteBuffer e) \<Longrightarrow>
   WriteBuffer (fold (fill_WriteBuffer_step x) [0..<n] e) ! (i + x)
     = sf3_pattern_track_val e + of_nat i * sf3_pattern_incr_val e"
proof (induction n)
  case 0
  then show ?case by simp
next
  case (Suc n)
  let ?e' = "fold (fill_WriteBuffer_step x) [0..<n] e"
  have wb: "WriteBuffer (fill_WriteBuffer_step x n ?e')
              = array_store (WriteBuffer ?e') (n + x) (sf3_pattern_track_val ?e')"
    by (simp add: fill_WriteBuffer_step_def)
  show ?case
  proof (cases "i = n")
    case True
    with Suc.prems show ?thesis
      by (simp only: fold_upt_Suc wb) (simp add: nth_array_store fold_fill_fields)
  next
    case False
    with Suc show ?thesis
      by (simp only: fold_upt_Suc wb) (simp add: nth_array_store)
  qed
qed

lemma fill_WriteBuffer_nth:
  "i < SF3_PAGE_SIZE drv \<Longrightarrow> i + SF3_WRITE_EXTRA_BYTES drv < length (WriteBuffer e) \<Longrightarrow>
   WriteBuffer (fill_WriteBuffer drv e) ! (i + SF3_WRITE_EXTRA_BYTES drv)
     = sf3_pattern_track_val e + of_nat i * sf3_pattern_incr_val e"
  by (simp add: fill_WriteBuffer_def fold_fill_nth)

lemma fold_clear_nth:
  "i < n \<Longrightarrow> i + x < length (ReadBuffer e) \<Longrightarrow>
   ReadBuffer (fold (\<lambda>iByte e. e \<lparr> ReadBuffer := array_store (ReadBuffer e) (iByte + x) 0x00 \<rparr>) [0..<n] e) ! (i + x) = 0"
proof (induction n)
  case 0
  then show ?case by simp
next
  case (Suc n)
  show ?case
  proof (cases "i = n")
    case True
    with Suc.prems show ?thesis
      by (simp only: fold_upt_Suc) (simp add: nth_array_store fold_clear_fields)
  next
    case False
    with Suc show ?thesis
      by (simp only: fold_upt_Suc) (simp add: nth_array_store)
  qed
qed

lemma clear_ReadBuffer_nth:
  "i < SF3_PAGE_SIZE drv \<Longrightarrow> i + SF3_READ_MIN_EXTRA_BYTES drv < length (ReadBuffer e) \<Longrightarrow>
   ReadBuffer (clear_ReadBuffer drv e) ! (i + SF3_READ_MIN_EXTRA_BYTES drv) = 0"
  by (simp add: clear_ReadBuffer_def fold_clear_nth)

lemma fold_compare_err:
  "sf3_err_count_val (fold (compare_ReadBuffer_step x) [0..<n] e)
     = sf3_err_count_val e
       + of_nat (length (filter (\<lambda>i. ReadBuffer e ! (i + x)
                                   \<noteq> sf3_pattern_track_val e + of_nat i * sf3_pattern_incr_val e) [0..<n]))"
proof (induction n)
  case 0
  then show ?case by simp
next
  case (Suc n)
  let ?e' = "fold (compare_ReadBuffer_step x) [0..<n] e"
  have st: "sf3_err_count_val (compare_ReadBuffer_step x n ?e')
              = sf3_err_count_val ?e'
                + (if ReadBuffer e ! (n + x) = sf3_pattern_track_val e + of_nat n * sf3_pattern_incr_val e
                   then 0 else 1)"
    by (simp add: compare_ReadBuffer_step_def fold_compare_fields)
  show ?case
    by (simp only: fold_upt_Suc st Suc.IH) simp
qed

lemma compare_ReadBuffer_err:
  "sf3_err_count_val (compare_ReadBuffer drv e)
     = sf3_err_count_val e
       + of_nat (length (filter (\<lambda>i. ReadBuffer e ! (i + SF3_READ_MIN_EXTRA_BYTES drv)
                                   \<noteq> sf3_pattern_track_val e + of_nat i * sf3_pattern_incr_val e)
                                [0..<SF3_PAGE_SIZE drv]))"
  by (simp add: compare_ReadBuffer_def fold_compare_err)

section \<open>The fault-free flash\<close>

lemma ideal_consts [simp]:
  "SF3_PAGE_SIZE (ideal_sf3 page wx rx) = page"
  "SF3_WRITE_EXTRA_BYTES (ideal_sf3 page wx rx) = wx"
  "SF3_READ_MIN_EXTRA_BYTES (ideal_sf3 page wx rx) = rx"
  "SF3_FlashWriteEnable (ideal_sf3 page wx rx) mem = (XST_SUCCESS, mem)"
  "SF3_SectorErase (ideal_sf3 page wx rx) mem a
     = (XST_SUCCESS, (\<lambda>x. if unat (x - a) < 4096 then 0xFF else mem x))"
  "SF3_FlashWrite (ideal_sf3 page wx rx) mem a n buf
     = (XST_SUCCESS, (\<lambda>x. if unat (x - a) < n then buf ! (unat (x - a) + wx) else mem x))"
  "SF3_FlashRead (ideal_sf3 page wx rx) mem a n buf
     = (XST_SUCCESS, take rx buf @ map (\<lambda>i. mem (a + of_nat i)) [0 ..< n], mem)"
  by (simp_all add: ideal_sf3_def)

lemma page_addr_inj:
  assumes "k * 256 + j < 2 ^ 32" "n * 256 + r < 2 ^ 32"
      and "(a::u32) + of_nat k * 256 + of_nat j = a + of_nat n * 256 + of_nat r"
  shows "k * 256 + j = n * 256 + r"
proof -
  have "(of_nat (k * 256 + j) :: u32) = of_nat (n * 256 + r)"
    using assms(3) by (simp add: algebra_simps)
  then show ?thesis using assms(1,2) by (rule of_nat_u32_inj [rotated 2])
qed

lemma ideal_page_body_mem:
  assumes "length (WriteBuffer (fst w)) = page + wx"
  shows "fst (snd (cmd_page_start_body (ideal_sf3 page wx rx) w)) x
     = (if unat (x - (sf3_addr_start_val (fst w) + sf3_i_val (fst w) * 256)) < page
        then sf3_pattern_track_val (fst w)
               + of_nat (unat (x - (sf3_addr_start_val (fst w) + sf3_i_val (fst w) * 256)))
                 * sf3_pattern_incr_val (fst w)
        else fst (snd w) x)"
  using assms
  by (simp add: cmd_page_start_body_def split_beta Let_def sf3_page_addr_incr_def
        fill_WriteBuffer_nth [where drv = "ideal_sf3 page wx rx", simplified])


lemma programmed_step:
  assumes old: "programmed page a s t mem n"
      and n: "n < 4096" and page: "page \<le> 256"
      and new: "\<And>x. mem' x = (if unat (x - (a + of_nat n * 256)) < page
                              then s + of_nat (unat (x - (a + of_nat n * 256))) * t else mem x)"
  shows "programmed page a s t mem' (Suc n)"
  unfolding programmed_def
proof (intro allI impI)
  fix k j
  assume k: "k < Suc n" and j: "j < page"
  let ?x = "a + of_nat k * 256 + of_nat j"
  let ?r = "unat (?x - (a + of_nat n * 256))"
  show "mem' ?x = s + of_nat j * t"
  proof (cases "k = n")
    case True
    have "?x - (a + of_nat n * 256) = of_nat j" using True by simp
    moreover have "unat (of_nat j :: u32) = j"
      by (rule of_nat_inverse [OF refl]) (use j page in simp)
    ultimately have "?r = j" by simp
    then show ?thesis using j by (simp add: new)
  next
    case False
    have "\<not> ?r < page"
    proof
      assume r: "?r < page"
      have "?x = (a + of_nat n * 256) + of_nat ?r" by simp
      then have "k * 256 + j = n * 256 + ?r"
        using k n j r page by (intro page_addr_inj [of k j n ?r a]) simp_all
      then have "k = n" using j r page by arith
      with False show False by simp
    qed
    moreover have "mem ?x = s + of_nat j * t"
      using old k j False by (simp add: programmed_def)
    ultimately show ?thesis by (simp add: new)
  qed
qed


lemma ideal_page_batch:
  assumes "programmed page (sf3_addr_start_val (fst w)) (sf3_pattern_start_val (fst w))
             (sf3_pattern_incr_val (fst w)) (fst (snd w)) n"
      and "sf3_i_val (fst w) = of_nat n" and "n + m \<le> 4096" and "page \<le> 256"
      and "sf3_pattern_track_val (fst w) = sf3_pattern_start_val (fst w)"
      and "length (WriteBuffer (fst w)) = page + wx"
  shows "programmed page (sf3_addr_start_val (fst w)) (sf3_pattern_start_val (fst w))
           (sf3_pattern_incr_val (fst w))
           (fst (snd ((cmd_page_start_body (ideal_sf3 page wx rx) ^^ m) w))) (n + m)"
  using assms(3)
proof (induction m)
  case 0
  then show ?case using assms(1) by simp
next
  case (Suc m)
  let ?v = "(cmd_page_start_body (ideal_sf3 page wx rx) ^^ m) w"
  have IH: "programmed page (sf3_addr_start_val (fst w)) (sf3_pattern_start_val (fst w))
              (sf3_pattern_incr_val (fst w)) (fst (snd ?v)) (n + m)"
    using Suc by simp
  have tr: "sf3_pattern_track_val (fst ?v) = sf3_pattern_start_val (fst w)"
    using assms(5) by (cases "m = 0") (simp_all add: page_batch_track)
  have len: "length (WriteBuffer (fst ?v)) = page + wx"
    using assms(6) by simp
  have iv: "sf3_i_val (fst ?v) = of_nat (n + m)"
    using assms(2) by simp
  have "programmed page (sf3_addr_start_val (fst w)) (sf3_pattern_start_val (fst w))
          (sf3_pattern_incr_val (fst w))
          (fst (snd (cmd_page_start_body (ideal_sf3 page wx rx) ?v))) (Suc (n + m))"
  proof (rule programmed_step [OF IH _ assms(4)])
    show "n + m < 4096" using Suc.prems by simp
  next
    fix x
    show "fst (snd (cmd_page_start_body (ideal_sf3 page wx rx) ?v)) x =
         (if unat (x - (sf3_addr_start_val (fst w) + of_nat (n + m) * 256)) < page
          then sf3_pattern_start_val (fst w)
               + of_nat (unat (x - (sf3_addr_start_val (fst w) + of_nat (n + m) * 256)))
                 * sf3_pattern_incr_val (fst w)
          else fst (snd ?v) x)"
      by (subst ideal_page_body_mem [OF len]) (simp add: tr assms(2))
  qed
  then show ?case by simp
qed

lemma received_ideal_nth:
  "length buf = page + rx \<Longrightarrow> i < page \<Longrightarrow>
   received_into (take rx buf @ map f [0..<page]) buf ! (i + rx) = f i"
  by (simp add: received_into_def nth_append)

lemma ideal_read_body:
  assumes "programmed page (sf3_addr_start_val (fst w)) (sf3_pattern_start_val (fst w))
             (sf3_pattern_incr_val (fst w)) (fst (snd w)) 4096"
      and "sf3_i_val (fst w) = of_nat n" and "n < 4096"
      and "length (ReadBuffer (fst w)) = page + rx"
  shows "sf3_err_count_val (fst (cmd_read_start_body (ideal_sf3 page wx rx) w)) = sf3_err_count_val (fst w)"
    and "fst (snd (cmd_read_start_body (ideal_sf3 page wx rx) w)) = fst (snd w)"
proof -
  have p: "\<And>i. i < page \<Longrightarrow>
      fst (snd w) (sf3_addr_start_val (fst w) + of_nat n * 256 + of_nat i)
        = sf3_pattern_start_val (fst w) + of_nat i * sf3_pattern_incr_val (fst w)"
    using assms(1,3) by (simp add: programmed_def)
  show "sf3_err_count_val (fst (cmd_read_start_body (ideal_sf3 page wx rx) w)) = sf3_err_count_val (fst w)"
    using assms(2,4) p
    by (simp add: cmd_read_start_body_def split_beta Let_def sf3_page_addr_incr_def
          compare_ReadBuffer_err received_ideal_nth filter_empty_conv [THEN iffD2])
  show "fst (snd (cmd_read_start_body (ideal_sf3 page wx rx) w)) = fst (snd w)"
    by (simp add: cmd_read_start_body_def split_beta Let_def)
qed


lemma ideal_read_batch:
  assumes "programmed page (sf3_addr_start_val (fst w)) (sf3_pattern_start_val (fst w))
             (sf3_pattern_incr_val (fst w)) (fst (snd w)) 4096"
      and "sf3_i_val (fst w) = of_nat n" and "n + m \<le> 4096"
      and "length (ReadBuffer (fst w)) = page + rx"
  shows "sf3_err_count_val (fst ((cmd_read_start_body (ideal_sf3 page wx rx) ^^ m) w))
           = sf3_err_count_val (fst w)
       \<and> fst (snd ((cmd_read_start_body (ideal_sf3 page wx rx) ^^ m) w)) = fst (snd w)"
  using assms(3)
proof (induction m)
  case 0
  then show ?case by simp
next
  case (Suc m)
  let ?v = "(cmd_read_start_body (ideal_sf3 page wx rx) ^^ m) w"
  have IH: "sf3_err_count_val (fst ?v) = sf3_err_count_val (fst w)" "fst (snd ?v) = fst (snd w)"
    using Suc by simp_all
  have pr: "programmed page (sf3_addr_start_val (fst ?v)) (sf3_pattern_start_val (fst ?v))
             (sf3_pattern_incr_val (fst ?v)) (fst (snd ?v)) 4096"
    using assms(1) IH(2) by simp
  have iv: "sf3_i_val (fst ?v) = of_nat (n + m)" using assms(2) by simp
  have lt: "n + m < 4096" using Suc.prems by simp
  have len: "length (ReadBuffer (fst ?v)) = page + rx" using assms(4) by simp
  show ?case
    using ideal_read_body [OF pr iv lt len, of wx] IH by simp
qed


lemma ideal_page_cycle:
  assumes "operatingMode (fst w) = ST_CMD_PAGE_START"
      and "programmed page (sf3_addr_start_val (fst w)) (sf3_pattern_start_val (fst w))
             (sf3_pattern_incr_val (fst w)) (fst (snd w)) (unat (sf3_i_val (fst w)))"
      and "unat (sf3_i_val (fst w)) + 32 \<le> 4096" and "page \<le> 256"
      and "sf3_pattern_track_val (fst w) = sf3_pattern_start_val (fst w)"
      and "length (WriteBuffer (fst w)) = page + wx"
  shows "programmed page (sf3_addr_start_val (fst w)) (sf3_pattern_start_val (fst w))
           (sf3_pattern_incr_val (fst w))
           (fst (snd (Experiment_prvSf3Task_cycle (ideal_sf3 page wx rx) inp w)))
           (unat (sf3_i_val (fst w)) + 32)"
proof -
  let ?w1 = "(Experiment_readUserInputs (fst inp) (snd inp) (fst w), fst (snd w),
              snd (snd w) @ Experiment_updateClsDisplayAndTerminal (fst w))"
  have "programmed page (sf3_addr_start_val (fst ?w1)) (sf3_pattern_start_val (fst ?w1))
           (sf3_pattern_incr_val (fst ?w1))
           (fst (snd ((cmd_page_start_body (ideal_sf3 page wx rx) ^^ 32) ?w1)))
           (unat (sf3_i_val (fst w)) + 32)"
    by (rule ideal_page_batch) (use assms in simp_all)
  then show ?thesis
    using assms(1) by (simp add: cycle_unfold FSM_cases)
qed

lemma ideal_page_run:
  assumes "operatingMode (fst w) = ST_CMD_PAGE_START"
      and "operatingModePrev (fst w) = ST_CMD_PAGE_START"
      and "unat (sf3_i_val (fst w)) + 32 * length inps \<le> 4096"
      and "unat (sf3_i_val (fst w)) < 4096"
      and "programmed page (sf3_addr_start_val (fst w)) (sf3_pattern_start_val (fst w))
             (sf3_pattern_incr_val (fst w)) (fst (snd w)) (unat (sf3_i_val (fst w)))"
      and "page \<le> 256"
      and "sf3_pattern_track_val (fst w) = sf3_pattern_start_val (fst w)"
      and "length (WriteBuffer (fst w)) = page + wx"
  shows "programmed page (sf3_addr_start_val (fst w)) (sf3_pattern_start_val (fst w))
           (sf3_pattern_incr_val (fst w))
           (fst (snd (run (ideal_sf3 page wx rx) inps w)))
           (unat (sf3_i_val (fst w)) + 32 * length inps)"
  using assms(3)
proof (induction inps rule: rev_induct)
  case Nil
  then show ?case using assms(5) by simp
next
  case (snoc x xs)
  let ?drv = "ideal_sf3 page wx rx"
  let ?v = "run ?drv xs w"
  have le: "unat (sf3_i_val (fst w)) + 32 * length xs \<le> 4096" using snoc.prems by simp
  note g = page_run [OF assms(1) assms(2) le assms(4), of ?drv]
  have lt: "unat (sf3_i_val (fst w)) + 32 * length xs < 4096" using snoc.prems by simp
  have m: "operatingMode (fst ?v) = ST_CMD_PAGE_START" using g lt by simp
  have iv: "unat (sf3_i_val (fst ?v)) = unat (sf3_i_val (fst w)) + 32 * length xs" using g by simp
  have cfg: "sf3_addr_start_val (fst ?v) = sf3_addr_start_val (fst w)"
            "sf3_pattern_start_val (fst ?v) = sf3_pattern_start_val (fst w)"
            "sf3_pattern_incr_val (fst ?v) = sf3_pattern_incr_val (fst w)"
            "length (WriteBuffer (fst ?v)) = length (WriteBuffer (fst w))"
    using g by (simp_all add: pass_cfg_def)
  have tr: "sf3_pattern_track_val (fst ?v) = sf3_pattern_start_val (fst ?v)"
    using g assms(7) cfg(2) by (cases "xs = []") simp_all
  have IH: "programmed page (sf3_addr_start_val (fst ?v)) (sf3_pattern_start_val (fst ?v))
              (sf3_pattern_incr_val (fst ?v)) (fst (snd ?v)) (unat (sf3_i_val (fst ?v)))"
    using snoc.IH [OF le] by (simp add: cfg iv)
  have "programmed page (sf3_addr_start_val (fst ?v)) (sf3_pattern_start_val (fst ?v))
           (sf3_pattern_incr_val (fst ?v))
           (fst (snd (Experiment_prvSf3Task_cycle ?drv x ?v)))
           (unat (sf3_i_val (fst ?v)) + 32)"
    by (rule ideal_page_cycle [OF m IH _ assms(6) tr])
       (use snoc.prems iv cfg assms(8) in simp_all)
  then show ?case
    by (simp add: run_snoc cfg iv ac_simps)
qed

lemma ideal_read_cycle:
  assumes "operatingMode (fst w) = ST_CMD_READ_START"
      and "programmed page (sf3_addr_start_val (fst w)) (sf3_pattern_start_val (fst w))
             (sf3_pattern_incr_val (fst w)) (fst (snd w)) 4096"
      and "unat (sf3_i_val (fst w)) + 32 \<le> 4096"
      and "length (ReadBuffer (fst w)) = page + rx"
  shows "sf3_err_count_val (fst (Experiment_prvSf3Task_cycle (ideal_sf3 page wx rx) inp w))
           = sf3_err_count_val (fst w)"
    and "fst (snd (Experiment_prvSf3Task_cycle (ideal_sf3 page wx rx) inp w)) = fst (snd w)"
proof -
  let ?w1 = "(Experiment_readUserInputs (fst inp) (snd inp) (fst w), fst (snd w),
              snd (snd w) @ Experiment_updateClsDisplayAndTerminal (fst w))"
  have "sf3_err_count_val (fst ((cmd_read_start_body (ideal_sf3 page wx rx) ^^ 32) ?w1))
           = sf3_err_count_val (fst ?w1)
       \<and> fst (snd ((cmd_read_start_body (ideal_sf3 page wx rx) ^^ 32) ?w1)) = fst (snd ?w1)"
    by (rule ideal_read_batch [where n = "unat (sf3_i_val (fst w))"]) (use assms in simp_all)
  then show "sf3_err_count_val (fst (Experiment_prvSf3Task_cycle (ideal_sf3 page wx rx) inp w))
           = sf3_err_count_val (fst w)"
    and "fst (snd (Experiment_prvSf3Task_cycle (ideal_sf3 page wx rx) inp w)) = fst (snd w)"
    using assms(1) by (simp_all add: cycle_unfold FSM_cases)
qed

lemma ideal_read_run:
  assumes "operatingMode (fst w) = ST_CMD_READ_START"
      and "operatingModePrev (fst w) = ST_CMD_READ_START"
      and "unat (sf3_i_val (fst w)) + 32 * length inps \<le> 4096"
      and "unat (sf3_i_val (fst w)) < 4096"
      and "programmed page (sf3_addr_start_val (fst w)) (sf3_pattern_start_val (fst w))
             (sf3_pattern_incr_val (fst w)) (fst (snd w)) 4096"
      and "length (ReadBuffer (fst w)) = page + rx"
  shows "sf3_err_count_val (fst (run (ideal_sf3 page wx rx) inps w)) = sf3_err_count_val (fst w)
       \<and> fst (snd (run (ideal_sf3 page wx rx) inps w)) = fst (snd w)"
  using assms(3)
proof (induction inps rule: rev_induct)
  case Nil
  then show ?case by simp
next
  case (snoc x xs)
  let ?drv = "ideal_sf3 page wx rx"
  let ?v = "run ?drv xs w"
  have le: "unat (sf3_i_val (fst w)) + 32 * length xs \<le> 4096" using snoc.prems by simp
  note g = read_run [OF assms(1) assms(2) le assms(4), of ?drv]
  have lt: "unat (sf3_i_val (fst w)) + 32 * length xs < 4096" using snoc.prems by simp
  have m: "operatingMode (fst ?v) = ST_CMD_READ_START" using g lt by simp
  have iv: "unat (sf3_i_val (fst ?v)) = unat (sf3_i_val (fst w)) + 32 * length xs" using g by simp
  have cfg: "sf3_addr_start_val (fst ?v) = sf3_addr_start_val (fst w)"
            "sf3_pattern_start_val (fst ?v) = sf3_pattern_start_val (fst w)"
            "sf3_pattern_incr_val (fst ?v) = sf3_pattern_incr_val (fst w)"
            "length (ReadBuffer (fst ?v)) = length (ReadBuffer (fst w))"
    using g by (simp_all add: pass_cfg_def)
  have IH: "sf3_err_count_val (fst ?v) = sf3_err_count_val (fst w)" "fst (snd ?v) = fst (snd w)"
    using snoc.IH [OF le] by simp_all
  have pr: "programmed page (sf3_addr_start_val (fst ?v)) (sf3_pattern_start_val (fst ?v))
             (sf3_pattern_incr_val (fst ?v)) (fst (snd ?v)) 4096"
    using assms(5) by (simp add: cfg IH)
  have i32: "unat (sf3_i_val (fst ?v)) + 32 \<le> 4096" using snoc.prems iv by simp
  have len: "length (ReadBuffer (fst ?v)) = page + rx" using assms(6) cfg by simp
  show ?case
    using ideal_read_cycle [OF m pr i32 len, of wx x] IH by (simp add: run_snoc)
qed

lemma ideal_pass_read_done:
  fixes page wx rx :: nat
  defines "drv \<equiv> ideal_sf3 page wx rx"
  assumes page: "page \<le> 256"
      and m: "operatingMode (fst w) = ST_CMD_ERASE_START"
             "operatingModePrev (fst w) = ST_CMD_ERASE_START"
      and i0: "sf3_i_val (fst w) = 0"
      and len: "length (WriteBuffer (fst w)) = page + wx" "length (ReadBuffer (fst w)) = page + rx"
      and l: "length i1 = 256" "length i2 = 300" "length i3 = 128"
             "length i4 = 300" "length i5 = 128"
  shows "operatingMode (fst (run drv (i1 @ i2 @ i3 @ i4 @ i5) w)) = ST_CMD_READ_DONE
       \<and> operatingModePrev (fst (run drv (i1 @ i2 @ i3 @ i4 @ i5) w)) = ST_CMD_READ_DONE
       \<and> cnt_t (fst (run drv (i1 @ i2 @ i3 @ i4 @ i5) w)) = 0
       \<and> sf3_err_count_val (fst (run drv (i1 @ i2 @ i3 @ i4 @ i5) w)) = sf3_err_count_val (fst w)
       \<and> pass_cfg (fst (run drv (i1 @ i2 @ i3 @ i4 @ i5) w)) = pass_cfg (fst w)"
proof -
  let ?w1 = "run drv i1 w"
  let ?w2 = "run drv i2 ?w1"
  let ?w3 = "run drv i3 ?w2"
  let ?w4 = "run drv i4 ?w3"
  let ?w5 = "run drv i5 ?w4"
  have s1: "operatingMode (fst ?w1) = ST_CMD_ERASE_DONE" "operatingModePrev (fst ?w1) = ST_CMD_ERASE_DONE"
           "unat (cnt_t (fst ?w1)) = 0" "pass_cfg (fst ?w1) = pass_cfg (fst w)"
           "sf3_err_count_val (fst ?w1) = sf3_err_count_val (fst w)"
    using erase_run [of w i1 drv] m i0 l(1) by simp_all
  have s2: "operatingMode (fst ?w2) = ST_CMD_PAGE_START" "operatingModePrev (fst ?w2) = ST_CMD_PAGE_START"
           "unat (cnt_t (fst ?w2)) = 0" "pass_cfg (fst ?w2) = pass_cfg (fst w)"
           "sf3_err_count_val (fst ?w2) = sf3_err_count_val (fst w)"
           "sf3_i_val (fst ?w2) = 0" "sf3_pattern_track_val (fst ?w2) = sf3_pattern_start_val (fst ?w1)"
    using done_run [of ST_CMD_ERASE_DONE drv ST_CMD_PAGE_START ?w1 i2, OF FSM_cases(7)] s1 l(2)
    by auto
  have c2: "sf3_addr_start_val (fst ?w2) = sf3_addr_start_val (fst w)"
           "sf3_pattern_start_val (fst ?w2) = sf3_pattern_start_val (fst w)"
           "sf3_pattern_incr_val (fst ?w2) = sf3_pattern_incr_val (fst w)"
           "length (WriteBuffer (fst ?w2)) = page + wx"
           "length (ReadBuffer (fst ?w2)) = page + rx"
           "sf3_pattern_track_val (fst ?w2) = sf3_pattern_start_val (fst ?w2)"
    using s1(4) s2(4,7) len by (simp_all add: pass_cfg_def)
  have s3: "operatingMode (fst ?w3) = ST_CMD_PAGE_DONE" "operatingModePrev (fst ?w3) = ST_CMD_PAGE_DONE"
           "unat (cnt_t (fst ?w3)) = 0" "pass_cfg (fst ?w3) = pass_cfg (fst w)"
           "sf3_err_count_val (fst ?w3) = sf3_err_count_val (fst w)"
    using page_run [of ?w2 i3 drv] s2 l(3) by simp_all
  have p3: "programmed page (sf3_addr_start_val (fst w)) (sf3_pattern_start_val (fst w))
              (sf3_pattern_incr_val (fst w)) (fst (snd ?w3)) 4096"
    using ideal_page_run [of ?w2 i3 page wx rx] s2 c2 l(3) page
    by (simp add: drv_def programmed_def)
  have s4: "operatingMode (fst ?w4) = ST_CMD_READ_START" "operatingModePrev (fst ?w4) = ST_CMD_READ_START"
           "unat (cnt_t (fst ?w4)) = 0" "pass_cfg (fst ?w4) = pass_cfg (fst w)"
           "sf3_err_count_val (fst ?w4) = sf3_err_count_val (fst w)"
           "sf3_i_val (fst ?w4) = 0" "fst (snd ?w4) = fst (snd ?w3)"
    using done_run [of ST_CMD_PAGE_DONE drv ST_CMD_READ_START ?w3 i4, OF FSM_cases(9)] s3 l(4)
    by auto
  have c4: "sf3_addr_start_val (fst ?w4) = sf3_addr_start_val (fst w)"
           "sf3_pattern_start_val (fst ?w4) = sf3_pattern_start_val (fst w)"
           "sf3_pattern_incr_val (fst ?w4) = sf3_pattern_incr_val (fst w)"
           "length (ReadBuffer (fst ?w4)) = page + rx"
    using s4(4) len by (simp_all add: pass_cfg_def)
  have s5: "operatingMode (fst ?w5) = ST_CMD_READ_DONE" "operatingModePrev (fst ?w5) = ST_CMD_READ_DONE"
           "unat (cnt_t (fst ?w5)) = 0" "pass_cfg (fst ?w5) = pass_cfg (fst w)"
    using read_run [of ?w4 i5 drv] s4 l(5) by simp_all
  have e5: "sf3_err_count_val (fst ?w5) = sf3_err_count_val (fst w)"
    using ideal_read_run [of ?w4 i5 page rx wx] s4 c4 p3 l(5)
    by (simp add: drv_def)
  show ?thesis
    using s5 e5 by (simp add: run_append u32_eq_num)
qed

section \<open>The four steps that begin a pass\<close>

lemma dep_cycle:
  assumes m: "operatingMode (fst w) = ST_WAIT_BUTTON_DEP"
      and sel: "wait_button_dep (Experiment_readUserInputs sw btn (fst w))
                  = (Experiment_readUserInputs sw btn (fst w))
                      \<lparr> sf3_test_done := False, operatingMode := ST_WAIT_BUTTON_REL,
                        sf3_test_pattern_selected := p \<rparr>"
  shows "operatingMode (fst (Experiment_prvSf3Task_cycle drv (sw, btn) w)) = ST_WAIT_BUTTON_REL"
    and "sf3_test_pattern_selected (fst (Experiment_prvSf3Task_cycle drv (sw, btn) w)) = p"
    and "sf3_start_at_zero (fst (Experiment_prvSf3Task_cycle drv (sw, btn) w)) = sf3_start_at_zero (fst w)"
    and "sf3_addr_start_val (fst (Experiment_prvSf3Task_cycle drv (sw, btn) w)) = sf3_addr_start_val (fst w)"
    and "sf3_err_count_val (fst (Experiment_prvSf3Task_cycle drv (sw, btn) w)) = sf3_err_count_val (fst w)"
    and "sf3_test_pass (fst (Experiment_prvSf3Task_cycle drv (sw, btn) w)) = sf3_test_pass (fst w)"
    and "fst (snd (Experiment_prvSf3Task_cycle drv (sw, btn) w)) = fst (snd w)"
    and "sf3_pattern_start_val (fst (Experiment_prvSf3Task_cycle drv (sw, btn) w))
           = sf3_pattern_start_val (fst w)"
    and "sf3_pattern_incr_val (fst (Experiment_prvSf3Task_cycle drv (sw, btn) w))
           = sf3_pattern_incr_val (fst w)"
  using m by (simp_all add: cycle_unfold FSM_cases sel)

lemma rel_cycle:
  assumes m: "operatingMode (fst w) = ST_WAIT_BUTTON_REL"
  shows "operatingMode (fst (Experiment_prvSf3Task_cycle drv (sw, 0) w)) = ST_SET_PATTERN"
    and "sf3_test_pattern_selected (fst (Experiment_prvSf3Task_cycle drv (sw, 0) w))
           = sf3_test_pattern_selected (fst w)"
    and "sf3_start_at_zero (fst (Experiment_prvSf3Task_cycle drv (sw, 0) w)) = sf3_start_at_zero (fst w)"
    and "sf3_addr_start_val (fst (Experiment_prvSf3Task_cycle drv (sw, 0) w)) = sf3_addr_start_val (fst w)"
    and "sf3_err_count_val (fst (Experiment_prvSf3Task_cycle drv (sw, 0) w)) = sf3_err_count_val (fst w)"
    and "sf3_test_pass (fst (Experiment_prvSf3Task_cycle drv (sw, 0) w)) = sf3_test_pass (fst w)"
    and "fst (snd (Experiment_prvSf3Task_cycle drv (sw, 0) w)) = fst (snd w)"
    and "sf3_pattern_start_val (fst (Experiment_prvSf3Task_cycle drv (sw, 0) w))
           = sf3_pattern_start_val (fst w)"
    and "sf3_pattern_incr_val (fst (Experiment_prvSf3Task_cycle drv (sw, 0) w))
           = sf3_pattern_incr_val (fst w)"
  using m by (simp_all add: cycle_unfold FSM_cases)

lemma set_pattern_seeds_cong:
  assumes "sf3_test_pattern_selected e = sf3_test_pattern_selected e'"
      and "sf3_pattern_start_val e = sf3_pattern_start_val e'"
      and "sf3_pattern_incr_val e = sf3_pattern_incr_val e'"
  shows "sf3_pattern_start_val (set_pattern e) = sf3_pattern_start_val (set_pattern e')"
    and "sf3_pattern_incr_val (set_pattern e) = sf3_pattern_incr_val (set_pattern e')"
  using assms by (simp_all add: set_pattern_def Let_def split: test_pattern.split)

lemma set_pattern_cycle:
  assumes m: "operatingMode (fst w) = ST_SET_PATTERN"
  shows "operatingMode (fst (Experiment_prvSf3Task_cycle drv inp w)) = ST_SET_START_ADDR"
    and "sf3_test_pattern_selected (fst (Experiment_prvSf3Task_cycle drv inp w))
           = sf3_test_pattern_selected (fst w)"
    and "sf3_pattern_start_val (fst (Experiment_prvSf3Task_cycle drv inp w))
           = sf3_pattern_start_val (set_pattern (fst w))"
    and "sf3_pattern_incr_val (fst (Experiment_prvSf3Task_cycle drv inp w))
           = sf3_pattern_incr_val (set_pattern (fst w))"
    and "sf3_start_at_zero (fst (Experiment_prvSf3Task_cycle drv inp w)) = sf3_start_at_zero (fst w)"
    and "sf3_addr_start_val (fst (Experiment_prvSf3Task_cycle drv inp w)) = sf3_addr_start_val (fst w)"
    and "sf3_err_count_val (fst (Experiment_prvSf3Task_cycle drv inp w)) = sf3_err_count_val (fst w)"
    and "sf3_test_pass (fst (Experiment_prvSf3Task_cycle drv inp w)) = sf3_test_pass (fst w)"
    and "fst (snd (Experiment_prvSf3Task_cycle drv inp w)) = fst (snd w)"
  using m
  by (simp_all add: cycle_unfold FSM_cases set_pattern_def Let_def Experiment_readUserInputs_def
      split: test_pattern.split)

lemma set_start_addr_cycle:
  assumes m: "operatingMode (fst w) = ST_SET_START_ADDR"
             "operatingModePrev (fst w) = ST_SET_START_ADDR"
      and lt: "sf3_start_at_zero (fst w) \<or> sf3_addr_start_val (fst w) < last_starting_byte_addr"
  shows "operatingMode (fst (Experiment_prvSf3Task_cycle drv inp w)) = ST_SET_START_WAIT"
    and "cnt_t (fst (Experiment_prvSf3Task_cycle drv inp w)) = 0"
    and "sf3_i_val (fst (Experiment_prvSf3Task_cycle drv inp w)) = 0"
    and "sf3_test_pattern_selected (fst (Experiment_prvSf3Task_cycle drv inp w))
           = sf3_test_pattern_selected (fst w)"
    and "sf3_pattern_start_val (fst (Experiment_prvSf3Task_cycle drv inp w))
           = sf3_pattern_start_val (fst w)"
    and "sf3_pattern_incr_val (fst (Experiment_prvSf3Task_cycle drv inp w))
           = sf3_pattern_incr_val (fst w)"
    and "sf3_addr_start_val (fst (Experiment_prvSf3Task_cycle drv inp w))
           = (if sf3_start_at_zero (fst w) then 0
              else sf3_addr_start_val (fst w) + per_iteration_byte_count)"
    and "\<not> sf3_start_at_zero (fst (Experiment_prvSf3Task_cycle drv inp w))"
    and "\<not> sf3_test_done (fst (Experiment_prvSf3Task_cycle drv inp w))"
    and "sf3_err_count_val (fst (Experiment_prvSf3Task_cycle drv inp w)) = sf3_err_count_val (fst w)"
    and "sf3_test_pass (fst (Experiment_prvSf3Task_cycle drv inp w)) = sf3_test_pass (fst w)"
    and "fst (snd (Experiment_prvSf3Task_cycle drv inp w)) = fst (snd w)"
  using m lt
  by (auto simp add: cycle_unfold FSM_cases set_start_addr_def Let_def)


lemma start_run:
  assumes m: "operatingMode (fst w) = ST_WAIT_BUTTON_DEP"
      and sel: "wait_button_dep (Experiment_readUserInputs sw btn (fst w))
                  = (Experiment_readUserInputs sw btn (fst w))
                      \<lparr> sf3_test_done := False, operatingMode := ST_WAIT_BUTTON_REL,
                        sf3_test_pattern_selected := p \<rparr>"
      and lt: "sf3_start_at_zero (fst w) \<or> sf3_addr_start_val (fst w) < last_starting_byte_addr"
  shows "operatingMode (fst (run drv [(sw, btn), (sw2, 0), x3, x4] w)) = ST_SET_START_WAIT
       \<and> operatingModePrev (fst (run drv [(sw, btn), (sw2, 0), x3, x4] w)) = ST_SET_START_WAIT
       \<and> cnt_t (fst (run drv [(sw, btn), (sw2, 0), x3, x4] w)) = 0
       \<and> sf3_i_val (fst (run drv [(sw, btn), (sw2, 0), x3, x4] w)) = 0
       \<and> sf3_test_pattern_selected (fst (run drv [(sw, btn), (sw2, 0), x3, x4] w)) = p
       \<and> sf3_pattern_start_val (fst (run drv [(sw, btn), (sw2, 0), x3, x4] w))
           = sf3_pattern_start_val (set_pattern ((fst w) \<lparr> sf3_test_pattern_selected := p \<rparr>))
       \<and> sf3_pattern_incr_val (fst (run drv [(sw, btn), (sw2, 0), x3, x4] w))
           = sf3_pattern_incr_val (set_pattern ((fst w) \<lparr> sf3_test_pattern_selected := p \<rparr>))
       \<and> sf3_addr_start_val (fst (run drv [(sw, btn), (sw2, 0), x3, x4] w))
           = (if sf3_start_at_zero (fst w) then 0
              else sf3_addr_start_val (fst w) + per_iteration_byte_count)
       \<and> \<not> sf3_start_at_zero (fst (run drv [(sw, btn), (sw2, 0), x3, x4] w))
       \<and> \<not> sf3_test_done (fst (run drv [(sw, btn), (sw2, 0), x3, x4] w))
       \<and> sf3_err_count_val (fst (run drv [(sw, btn), (sw2, 0), x3, x4] w)) = sf3_err_count_val (fst w)
       \<and> sf3_test_pass (fst (run drv [(sw, btn), (sw2, 0), x3, x4] w)) = sf3_test_pass (fst w)
       \<and> length (WriteBuffer (fst (run drv [(sw, btn), (sw2, 0), x3, x4] w))) = length (WriteBuffer (fst w))
       \<and> length (ReadBuffer (fst (run drv [(sw, btn), (sw2, 0), x3, x4] w))) = length (ReadBuffer (fst w))
       \<and> fst (snd (run drv [(sw, btn), (sw2, 0), x3, x4] w)) = fst (snd w)"
proof -
  define w1 where "w1 = Experiment_prvSf3Task_cycle drv (sw, btn) w"
  define w2 where "w2 = Experiment_prvSf3Task_cycle drv (sw2, 0) w1"
  define w3 where "w3 = Experiment_prvSf3Task_cycle drv x3 w2"
  define w4 where "w4 = Experiment_prvSf3Task_cycle drv x4 w3"
  note c1 = dep_cycle [OF m sel, of drv, folded w1_def]
  note c2 = rel_cycle [OF c1(1), of drv sw2, folded w2_def]
  note c3 = set_pattern_cycle [OF c2(1), of drv x3, folded w3_def]
  have p3: "operatingModePrev (fst w3) = ST_SET_START_ADDR"
    using c3(1) by (simp add: w3_def)
  have lt3: "sf3_start_at_zero (fst w3) \<or> sf3_addr_start_val (fst w3) < last_starting_byte_addr"
    using lt by (simp add: c3 c2 c1)
  note c4 = set_start_addr_cycle [OF c3(1) p3 lt3, of drv x4, folded w4_def]
  have seeds: "sf3_pattern_start_val (set_pattern (fst w2))
                 = sf3_pattern_start_val (set_pattern ((fst w) \<lparr> sf3_test_pattern_selected := p \<rparr>))"
              "sf3_pattern_incr_val (set_pattern (fst w2))
                 = sf3_pattern_incr_val (set_pattern ((fst w) \<lparr> sf3_test_pattern_selected := p \<rparr>))"
    by (rule set_pattern_seeds_cong; simp add: c2 c1)+
  have len: "length (WriteBuffer (fst w4)) = length (WriteBuffer (fst w))"
            "length (ReadBuffer (fst w4)) = length (ReadBuffer (fst w))"
    by (simp_all add: w4_def w3_def w2_def w1_def)
  have r: "run drv [(sw, btn), (sw2, 0), x3, x4] w = w4"
    by (simp add: w4_def w3_def w2_def w1_def)
  have pm: "operatingModePrev (fst w4) = ST_SET_START_WAIT"
    using c4(1) by (simp add: w4_def)
  show ?thesis
    unfolding r
    using c4 pm len by (simp add: c3 c2 c1 seeds)
qed

section \<open>The device that does not answer\<close>

lemma failing_consts [simp]:
  "SF3_PAGE_SIZE failing_sf3 = 256"
  "SF3_WRITE_EXTRA_BYTES failing_sf3 = 4"
  "SF3_READ_MIN_EXTRA_BYTES failing_sf3 = 4"
  "SF3_FlashWriteEnable failing_sf3 dev = (XST_FAILURE, dev)"
  "SF3_SectorErase failing_sf3 dev a = (XST_FAILURE, dev)"
  "SF3_FlashWrite failing_sf3 dev a n buf = (XST_FAILURE, dev)"
  "SF3_FlashRead failing_sf3 dev a n buf = (XST_FAILURE, [], dev)"
  by (simp_all add: failing_sf3_def)

lemma count_nonzero_bytes: "length (filter (\<lambda>i. (of_nat i :: u8) \<noteq> 0) [0..<256]) = 255"
proof -
  have ne: "\<And>x. x \<in> set [1..<256] \<Longrightarrow> (of_nat x :: u8) \<noteq> 0"
  proof -
    fix x :: nat assume "x \<in> set [1..<256]"
    then have x: "0 < x" "x < 256" by simp_all
    have "unat (of_nat x :: u8) = x"
      by (rule of_nat_inverse [OF refl]) (use x in simp)
    then show "(of_nat x :: u8) \<noteq> 0" using x(1) by (metis less_numeral_extra(3) unat_0)
  qed
  have "[0..<256] = 0 # [1..<256]" by (simp add: upt_conv_Cons)
  then have "filter (\<lambda>i. (of_nat i :: u8) \<noteq> 0) [0..<256] = filter (\<lambda>i. (of_nat i :: u8) \<noteq> 0) [1..<256]"
    by simp
  also have "\<dots> = [1..<256]" by (rule filter_True) (use ne in blast)
  finally show ?thesis by simp
qed

lemma failing_read_body:
  assumes "length (ReadBuffer (fst w)) = 260"
      and "sf3_pattern_start_val (fst w) = 0" "sf3_pattern_incr_val (fst w) = 1"
  shows "sf3_err_count_val (fst (cmd_read_start_body failing_sf3 w)) = sf3_err_count_val (fst w) + 255"
proof -
  let ?e1 = "(fst w) \<lparr> sf3_address_of_cmd :=
                  sf3_addr_start_val (fst w) + sf3_i_val (fst w) * sf3_page_addr_incr \<rparr>"
  have z: "\<And>i. i \<in> set [0..<256] \<Longrightarrow> ReadBuffer (clear_ReadBuffer failing_sf3 ?e1) ! (i + 4) = 0"
    using assms(1) clear_ReadBuffer_nth [of _ failing_sf3 ?e1] by simp
  have f: "filter (\<lambda>i. ReadBuffer (clear_ReadBuffer failing_sf3 ?e1) ! (i + 4) \<noteq> of_nat i) [0..<256]
             = filter (\<lambda>i. (of_nat i :: u8) \<noteq> 0) [0..<256]"
    by (rule filter_cong [OF refl]) (simp only: z, simp)
  show ?thesis
    using assms(2,3)
    by (simp add: cmd_read_start_body_def split_beta Let_def compare_ReadBuffer_err
          received_into_def f count_nonzero_bytes)
qed


lemma failing_read_batch:
  assumes "length (ReadBuffer (fst w)) = 260"
      and "sf3_pattern_start_val (fst w) = 0" "sf3_pattern_incr_val (fst w) = 1"
  shows "sf3_err_count_val (fst ((cmd_read_start_body failing_sf3 ^^ m) w))
           = sf3_err_count_val (fst w) + of_nat m * 255"
proof (induction m)
  case 0
  then show ?case by simp
next
  case (Suc m)
  let ?v = "(cmd_read_start_body failing_sf3 ^^ m) w"
  have "sf3_err_count_val (fst (cmd_read_start_body failing_sf3 ?v)) = sf3_err_count_val (fst ?v) + 255"
    by (rule failing_read_body) (use assms in simp_all)
  then show ?case using Suc by (simp add: algebra_simps)
qed

lemma failing_read_run:
  assumes "operatingMode (fst w) = ST_CMD_READ_START"
      and "operatingModePrev (fst w) = ST_CMD_READ_START"
      and "unat (sf3_i_val (fst w)) + 32 * length inps \<le> 4096"
      and "unat (sf3_i_val (fst w)) < 4096"
      and "length (ReadBuffer (fst w)) = 260"
      and "sf3_pattern_start_val (fst w) = 0" "sf3_pattern_incr_val (fst w) = 1"
  shows "sf3_err_count_val (fst (run failing_sf3 inps w))
           = sf3_err_count_val (fst w) + of_nat (length inps) * 8160"
  using assms(3)
proof (induction inps rule: rev_induct)
  case Nil
  then show ?case by simp
next
  case (snoc x xs)
  let ?v = "run failing_sf3 xs w"
  let ?w1 = "(Experiment_readUserInputs (fst x) (snd x) (fst ?v), fst (snd ?v),
              snd (snd ?v) @ Experiment_updateClsDisplayAndTerminal (fst ?v))"
  have le: "unat (sf3_i_val (fst w)) + 32 * length xs \<le> 4096" using snoc.prems by simp
  note g = read_run [OF assms(1) assms(2) le assms(4), of failing_sf3]
  have lt: "unat (sf3_i_val (fst w)) + 32 * length xs < 4096" using snoc.prems by simp
  have m: "operatingMode (fst ?v) = ST_CMD_READ_START" using g lt by simp
  have cfg: "sf3_pattern_start_val (fst ?v) = 0" "sf3_pattern_incr_val (fst ?v) = 1"
            "length (ReadBuffer (fst ?v)) = 260"
    using g assms(5-7) by (simp_all add: pass_cfg_def)
  have "sf3_err_count_val (fst ((cmd_read_start_body failing_sf3 ^^ 32) ?w1))
           = sf3_err_count_val (fst ?w1) + of_nat 32 * 255"
    by (rule failing_read_batch) (use cfg in simp_all)
  then have "sf3_err_count_val (fst (Experiment_prvSf3Task_cycle failing_sf3 x ?v))
           = sf3_err_count_val (fst ?v) + 8160"
    using m by (simp add: cycle_unfold FSM_cases)
  then show ?case
    using snoc.IH [OF le] by (simp add: run_snoc algebra_simps)
qed


lemma pass_inputs_split:
  "(0, 1) # replicate 1866 (0::u32, 0::u32)
     = [(0, 1), (0, 0), (0, 0), (0, 0)] @ replicate 151 (0, 0) @ replicate 256 (0, 0)
       @ replicate 300 (0, 0) @ replicate 128 (0, 0) @ replicate 300 (0, 0)
       @ replicate 128 (0, 0) @ replicate 300 (0, 0) @ replicate 300 (0, 0)"
proof -
  have "replicate 1866 (0::u32, 0::u32) = replicate (3 + 151 + 256 + 300 + 128 + 300 + 128 + 300 + 300) (0, 0)"
    by simp
  also have "\<dots> = replicate 3 (0, 0) @ replicate 151 (0, 0) @ replicate 256 (0, 0)
       @ replicate 300 (0, 0) @ replicate 128 (0, 0) @ replicate 300 (0, 0)
       @ replicate 128 (0, 0) @ replicate 300 (0, 0) @ replicate 300 (0, 0)"
    by (simp only: replicate_add append_assoc)
  also have "replicate 3 (0::u32, 0::u32) = [(0, 0), (0, 0), (0, 0)]"
    by (simp add: numeral_3_eq_3)
  finally show ?thesis by simp
qed

lemma failing_pass:
  assumes m: "operatingMode (fst w) = ST_WAIT_BUTTON_DEP"
      and lt: "sf3_addr_start_val (fst w) < last_starting_byte_addr"
      and len: "length (ReadBuffer (fst w)) = 260"
  shows "operatingMode (fst (run failing_sf3 ((0, 1) # replicate 1866 (0, 0)) w)) = ST_WAIT_BUTTON_DEP
       \<and> operatingModePrev (fst (run failing_sf3 ((0, 1) # replicate 1866 (0, 0)) w)) = ST_WAIT_BUTTON_DEP
       \<and> sf3_addr_start_val (fst (run failing_sf3 ((0, 1) # replicate 1866 (0, 0)) w))
           = (if sf3_start_at_zero (fst w) then 0
              else sf3_addr_start_val (fst w) + per_iteration_byte_count)
       \<and> \<not> sf3_start_at_zero (fst (run failing_sf3 ((0, 1) # replicate 1866 (0, 0)) w))
       \<and> \<not> sf3_test_done (fst (run failing_sf3 ((0, 1) # replicate 1866 (0, 0)) w))
       \<and> sf3_err_count_val (fst (run failing_sf3 ((0, 1) # replicate 1866 (0, 0)) w))
           = sf3_err_count_val (fst w) + 1044480
       \<and> length (ReadBuffer (fst (run failing_sf3 ((0, 1) # replicate 1866 (0, 0)) w))) = 260"
proof -
  let ?drv = "failing_sf3"
  define a where "a = run ?drv [(0, 1), (0, 0), (0, 0), (0, 0)] w"
  define b where "b = run ?drv (replicate 151 (0, 0)) a"
  define w1 where "w1 = run ?drv (replicate 256 (0, 0)) b"
  define w2 where "w2 = run ?drv (replicate 300 (0, 0)) w1"
  define w3 where "w3 = run ?drv (replicate 128 (0, 0)) w2"
  define w4 where "w4 = run ?drv (replicate 300 (0, 0)) w3"
  define w5 where "w5 = run ?drv (replicate 128 (0, 0)) w4"
  define w6 where "w6 = run ?drv (replicate 300 (0, 0)) w5"
  define w7 where "w7 = run ?drv (replicate 300 (0, 0)) w6"
  have r: "run ?drv ((0, 1) # replicate 1866 (0, 0)) w = w7"
    unfolding pass_inputs_split run_append
    by (simp only: a_def b_def w1_def w2_def w3_def w4_def w5_def w6_def w7_def)
  have sel: "wait_button_dep (Experiment_readUserInputs 0 1 (fst w))
                  = (Experiment_readUserInputs 0 1 (fst w))
                      \<lparr> sf3_test_done := False, operatingMode := ST_WAIT_BUTTON_REL,
                        sf3_test_pattern_selected := TEST_PATTERN_A \<rparr>"
    using lt by (simp add: wait_button_dep_def mask_defs Let_def)
  have sa: "operatingMode (fst a) = ST_SET_START_WAIT" "operatingModePrev (fst a) = ST_SET_START_WAIT"
      "unat (cnt_t (fst a)) = 0" "sf3_i_val (fst a) = 0"
      "sf3_pattern_start_val (fst a) = 0" "sf3_pattern_incr_val (fst a) = 1"
      "sf3_addr_start_val (fst a) = (if sf3_start_at_zero (fst w) then 0
              else sf3_addr_start_val (fst w) + per_iteration_byte_count)"
      "\<not> sf3_start_at_zero (fst a)" "\<not> sf3_test_done (fst a)"
      "sf3_err_count_val (fst a) = sf3_err_count_val (fst w)"
      "length (ReadBuffer (fst a)) = 260"
    using start_run [of w 0 1 TEST_PATTERN_A ?drv 0 "(0, 0)" "(0, 0)", OF m sel, folded a_def] lt len
    by (simp_all add: set_pattern_def Let_def sf3_test_pattern_startval_a_def
          sf3_test_pattern_incrval_a_def)
  have sb: "operatingMode (fst b) = ST_CMD_ERASE_START" "operatingModePrev (fst b) = ST_CMD_ERASE_START"
      "sf3_i_val (fst b) = 0" "pass_cfg (fst b) = pass_cfg (fst a)"
      "sf3_err_count_val (fst b) = sf3_err_count_val (fst w)"
    using wait_run [of a "replicate 151 (0, 0)" ?drv, folded b_def] sa by simp_all
  have s1: "operatingMode (fst w1) = ST_CMD_ERASE_DONE" "operatingModePrev (fst w1) = ST_CMD_ERASE_DONE"
           "unat (cnt_t (fst w1)) = 0" "pass_cfg (fst w1) = pass_cfg (fst a)"
           "sf3_err_count_val (fst w1) = sf3_err_count_val (fst w)"
    using erase_run [of b "replicate 256 (0, 0)" ?drv, folded w1_def] sb by simp_all
  have s2: "operatingMode (fst w2) = ST_CMD_PAGE_START" "operatingModePrev (fst w2) = ST_CMD_PAGE_START"
           "unat (cnt_t (fst w2)) = 0" "pass_cfg (fst w2) = pass_cfg (fst a)"
           "sf3_err_count_val (fst w2) = sf3_err_count_val (fst w)"
           "sf3_i_val (fst w2) = 0"
    using done_run [of ST_CMD_ERASE_DONE ?drv ST_CMD_PAGE_START w1 "replicate 300 (0, 0)",
                    OF FSM_cases(7), folded w2_def] s1
    by auto
  have s3: "operatingMode (fst w3) = ST_CMD_PAGE_DONE" "operatingModePrev (fst w3) = ST_CMD_PAGE_DONE"
           "unat (cnt_t (fst w3)) = 0" "pass_cfg (fst w3) = pass_cfg (fst a)"
           "sf3_err_count_val (fst w3) = sf3_err_count_val (fst w)"
    using page_run [of w2 "replicate 128 (0, 0)" ?drv, folded w3_def] s2 by simp_all
  have s4: "operatingMode (fst w4) = ST_CMD_READ_START" "operatingModePrev (fst w4) = ST_CMD_READ_START"
           "unat (cnt_t (fst w4)) = 0" "pass_cfg (fst w4) = pass_cfg (fst a)"
           "sf3_err_count_val (fst w4) = sf3_err_count_val (fst w)"
           "sf3_i_val (fst w4) = 0"
    using done_run [of ST_CMD_PAGE_DONE ?drv ST_CMD_READ_START w3 "replicate 300 (0, 0)",
                    OF FSM_cases(9), folded w4_def] s3
    by auto
  have c4: "sf3_pattern_start_val (fst w4) = 0" "sf3_pattern_incr_val (fst w4) = 1"
           "length (ReadBuffer (fst w4)) = 260"
    using s4(4) sa by (simp_all add: pass_cfg_def)
  have s5: "operatingMode (fst w5) = ST_CMD_READ_DONE" "operatingModePrev (fst w5) = ST_CMD_READ_DONE"
           "unat (cnt_t (fst w5)) = 0" "pass_cfg (fst w5) = pass_cfg (fst a)"
    using read_run [of w4 "replicate 128 (0, 0)" ?drv, folded w5_def] s4 by simp_all
  have e5: "sf3_err_count_val (fst w5) = sf3_err_count_val (fst w) + 1044480"
    using failing_read_run [of w4 "replicate 128 (0, 0)", folded w5_def] s4 c4 by simp
  have s6: "operatingMode (fst w6) = ST_DISPLAY_FINAL" "operatingModePrev (fst w6) = ST_DISPLAY_FINAL"
           "unat (cnt_t (fst w6)) = 0" "pass_cfg (fst w6) = pass_cfg (fst a)"
           "sf3_err_count_val (fst w6) = sf3_err_count_val (fst w) + 1044480"
    using done_run [of ST_CMD_READ_DONE ?drv ST_DISPLAY_FINAL w5 "replicate 300 (0, 0)",
                    OF FSM_cases(11), folded w6_def] s5 e5
    by auto
  have s7: "operatingMode (fst w7) = ST_WAIT_BUTTON_DEP" "operatingModePrev (fst w7) = ST_WAIT_BUTTON_DEP"
           "pass_cfg (fst w7) = pass_cfg (fst a)"
           "sf3_err_count_val (fst w7) = sf3_err_count_val (fst w) + 1044480"
    using final_run [of w6 "replicate 300 (0, 0)" ?drv, folded w7_def] s6 by simp_all
  show ?thesis
    unfolding r using s7 sa by (simp add: pass_cfg_def)
qed


lemma region_addr_less:
  assumes "j < 31"
  shows "(of_nat j :: u32) * 1048576 < 32505856"
proof -
  have "(of_nat (j * 1048576) :: u32) = of_nat j * 1048576" by simp
  then have "unat ((of_nat j :: u32) * 1048576) = j * 1048576"
    by (rule of_nat_inverse) (use assms in simp)
  then show ?thesis using assms by (simp add: word_less_nat_alt)
qed

lemma init_fields:
  "operatingMode (Experiment_InitData (experiData drv)) = ST_WAIT_BUTTON_DEP"
  "operatingModePrev (Experiment_InitData (experiData drv)) = ST_WAIT_BUTTON_DEP"
  "sf3_start_at_zero (Experiment_InitData (experiData drv))"
  "sf3_addr_start_val (Experiment_InitData (experiData drv)) = 0"
  "sf3_err_count_val (Experiment_InitData (experiData drv)) = 0"
  "sf3_i_val (Experiment_InitData (experiData drv)) = 0"
  "cnt_t (Experiment_InitData (experiData drv)) = 0"
  "cnt_t_freerun (Experiment_InitData (experiData drv)) = 0"
  "\<not> sf3_test_done (Experiment_InitData (experiData drv))"
  "\<not> sf3_test_pass (Experiment_InitData (experiData drv))"
  "sf3_test_pattern_selected (Experiment_InitData (experiData drv)) = TEST_PATTERN_NONE"
  "length (WriteBuffer (Experiment_InitData (experiData drv)))
     = SF3_PAGE_SIZE drv + SF3_WRITE_EXTRA_BYTES drv"
  "length (ReadBuffer (Experiment_InitData (experiData drv)))
     = SF3_PAGE_SIZE drv + SF3_READ_MIN_EXTRA_BYTES drv"
  by (simp_all add: Experiment_InitData_def experiData_def)

lemma button0_passes_Suc: "button0_passes (Suc k) = button0_passes k @ button0_pass"
proof -
  have "replicate (Suc k) button0_pass = replicate k button0_pass @ [button0_pass]"
    by (simp add: replicate_append_same)
  then show ?thesis by (simp add: button0_passes_def)
qed

lemma failing_passes:
  assumes "j \<le> 31"
  shows "operatingMode (fst (run failing_sf3 (button0_passes (Suc j))
            (Experiment_InitData (experiData failing_sf3), (), []))) = ST_WAIT_BUTTON_DEP
       \<and> sf3_addr_start_val (fst (run failing_sf3 (button0_passes (Suc j))
            (Experiment_InitData (experiData failing_sf3), (), []))) = of_nat j * 1048576
       \<and> \<not> sf3_start_at_zero (fst (run failing_sf3 (button0_passes (Suc j))
            (Experiment_InitData (experiData failing_sf3), (), [])))
       \<and> \<not> sf3_test_done (fst (run failing_sf3 (button0_passes (Suc j))
            (Experiment_InitData (experiData failing_sf3), (), [])))
       \<and> sf3_err_count_val (fst (run failing_sf3 (button0_passes (Suc j))
            (Experiment_InitData (experiData failing_sf3), (), []))) = of_nat (Suc j) * 1044480
       \<and> length (ReadBuffer (fst (run failing_sf3 (button0_passes (Suc j))
            (Experiment_InitData (experiData failing_sf3), (), [])))) = 260"
  using assms
proof (induction j)
  case 0
  have "button0_passes (Suc 0) = (0, 1) # replicate 1866 (0, 0)"
    by (simp add: button0_passes_def button0_pass_def)
  then show ?case
    using failing_pass [of "(Experiment_InitData (experiData failing_sf3), (), [])"]
    by (simp add: init_fields consts_num)
next
  case (Suc j)
  let ?v = "run failing_sf3 (button0_passes (Suc j))
              (Experiment_InitData (experiData failing_sf3), (), [])"
  have IH: "operatingMode (fst ?v) = ST_WAIT_BUTTON_DEP"
      "sf3_addr_start_val (fst ?v) = of_nat j * 1048576"
      "\<not> sf3_start_at_zero (fst ?v)"
      "sf3_err_count_val (fst ?v) = of_nat (Suc j) * 1044480"
      "length (ReadBuffer (fst ?v)) = 260"
    using Suc by simp_all
  have lt: "sf3_addr_start_val (fst ?v) < last_starting_byte_addr"
    using region_addr_less [of j] Suc.prems by (simp add: IH consts_num)
  show ?case
    unfolding button0_passes_Suc [of "Suc j"] run_append button0_pass_def
    using failing_pass [OF IH(1) lt IH(5)] IH
    by (simp add: consts_num algebra_simps)
qed

section \<open>The start address of the region in reachable states\<close>

lemma region_step_nat:
  assumes "(a::nat) mod 1048576 = 0" "a < 32505856"
  shows "a + 1048576 \<le> 32505856"
proof -
  from assms(1) obtain k where k: "a = 1048576 * k" by (auto simp: mod_eq_0_iff_dvd)
  with assms(2) have "k < 31" by simp
  then have "k + 1 \<le> 31" by simp
  then have "1048576 * (k + 1) \<le> 1048576 * (31::nat)" by (rule mult_le_mono2)
  with k show ?thesis by simp
qed

lemma region_step:
  assumes "unat (a::u32) mod 1048576 = 0" "a < 32505856"
  shows "unat (a + 1048576) mod 1048576 = 0 \<and> a + 1048576 \<le> 32505856
       \<and> unat (a + 1048576) = unat a + 1048576"
proof -
  have lt: "unat a < 32505856" using assms(2) by (simp add: word_less_nat_alt)
  have u: "unat (a + 1048576) = unat a + 1048576"
    using lt by (subst unat_add_lem [THEN iffD1]) simp_all
  have "unat a + 1048576 \<le> 32505856" using assms(1) lt by (rule region_step_nat)
  then show ?thesis using assms(1) u by (simp add: word_le_nat_alt)
qed

lemma region_start_FSM:
  assumes "unat (sf3_addr_start_val (fst w)) mod 1048576 = 0 \<and> sf3_addr_start_val (fst w) \<le> 32505856"
  shows "unat (sf3_addr_start_val (fst (Experiment_operateFSM drv w))) mod 1048576 = 0
       \<and> sf3_addr_start_val (fst (Experiment_operateFSM drv w)) \<le> 32505856"
proof (cases "operatingMode (fst w) = ST_SET_START_ADDR")
  case True
  then show ?thesis using assms region_step [of "sf3_addr_start_val (fst w)"]
    by (simp add: FSM_cases set_start_addr_def consts_num Let_def)
next
  case False
  then have "sf3_addr_start_val (fst (Experiment_operateFSM drv w)) = sf3_addr_start_val (fst w)"
    by (cases "operatingMode (fst w)"; simp add: FSM_cases case_defs Let_def split: test_pattern.split)
  then show ?thesis using assms by simp
qed

lemma region_start_reachable:
  "reachable drv w \<Longrightarrow>
   unat (sf3_addr_start_val (fst w)) mod 1048576 = 0 \<and> sf3_addr_start_val (fst w) \<le> 32505856"
proof (induction rule: reachable.induct)
  case (reachable_init dev)
  then show ?case by (simp add: init_fields)
next
  case (reachable_cycle w inp)
  then show ?case
    using region_start_FSM [of "(Experiment_readUserInputs (fst inp) (snd inp) (fst w), fst (snd w),
            snd (snd w) @ Experiment_updateClsDisplayAndTerminal (fst w))" drv]
    by (simp add: cycle_unfold)
qed

section \<open>The sub-operation index in reachable states\<close>

lemma sub_op_bounded_cong:
  "operatingMode e' = operatingMode e \<Longrightarrow> sf3_i_val e' = sf3_i_val e \<Longrightarrow>
   sf3_pattern_track_val e' = sf3_pattern_track_val e \<Longrightarrow>
   sf3_pattern_start_val e' = sf3_pattern_start_val e \<Longrightarrow>
   sub_op_bounded e' = sub_op_bounded e"
  by (cases "operatingMode e") (simp_all add: sub_op_bounded_def)

lemma sub_op_bounded_FSM:
  assumes "sub_op_bounded (fst w)"
  shows "sub_op_bounded (fst (Experiment_operateFSM drv w))"
proof (cases "operatingMode (fst w)")
  case ST_CMD_ERASE_START
  then have lt: "unat (sf3_i_val (fst w)) < 256" using assms by (simp add: sub_op_bounded_def)
  then have "unat (sf3_i_val (fst w) + 1) = unat (sf3_i_val (fst w)) + 1"
    by (simp add: unat_add_lem [THEN iffD1])
  then show ?thesis
    using ST_CMD_ERASE_START lt
    by (simp add: FSM_cases sub_op_bounded_def consts_num u32_succ_less_256)
next
  case ST_CMD_PAGE_START
  then have b: "unat (sf3_i_val (fst w)) < 4096" "32 dvd unat (sf3_i_val (fst w))"
    using assms by (simp_all add: sub_op_bounded_def)
  then have le: "unat (sf3_i_val (fst w)) + 32 \<le> 4096" by presburger
  have u: "unat (sf3_i_val (fst w) + 32) = unat (sf3_i_val (fst w)) + 32"
    using unat_plus_of_nat [of "sf3_i_val (fst w)" 32] le by simp
  show ?thesis
    using ST_CMD_PAGE_START b le u u32_add_less_4096 [of "sf3_i_val (fst w)" 32]
    by (simp add: FSM_cases sub_op_bounded_def consts_num page_batch_mode page_batch_track)
next
  case ST_CMD_READ_START
  then have b: "unat (sf3_i_val (fst w)) < 4096" "32 dvd unat (sf3_i_val (fst w))"
    using assms by (simp_all add: sub_op_bounded_def)
  then have le: "unat (sf3_i_val (fst w)) + 32 \<le> 4096" by presburger
  have u: "unat (sf3_i_val (fst w) + 32) = unat (sf3_i_val (fst w)) + 32"
    using unat_plus_of_nat [of "sf3_i_val (fst w)" 32] le by simp
  show ?thesis
    using ST_CMD_READ_START b le u u32_add_less_4096 [of "sf3_i_val (fst w)" 32]
    by (simp add: FSM_cases sub_op_bounded_def consts_num read_batch_mode)
qed (use assms in \<open>simp_all add: FSM_cases sub_op_bounded_def case_defs Let_def
       split: test_pattern.split\<close>)

lemma sub_op_bounded_reachable: "reachable drv w \<Longrightarrow> sub_op_bounded (fst w)"
proof (induction rule: reachable.induct)
  case (reachable_init dev)
  then show ?case by (simp add: sub_op_bounded_def init_fields)
next
  case (reachable_cycle w inp)
  let ?w1 = "(Experiment_readUserInputs (fst inp) (snd inp) (fst w), fst (snd w),
            snd (snd w) @ Experiment_updateClsDisplayAndTerminal (fst w))"
  have "sub_op_bounded (fst ?w1) = sub_op_bounded (fst w)"
    by (rule sub_op_bounded_cong) simp_all
  then have "sub_op_bounded (fst ?w1)" using reachable_cycle.IH by simp
  then have "sub_op_bounded (fst (Experiment_operateFSM drv ?w1))" by (rule sub_op_bounded_FSM)
  moreover have "sub_op_bounded (fst (Experiment_prvSf3Task_cycle drv inp w))
                   = sub_op_bounded (fst (Experiment_operateFSM drv ?w1))"
    by (rule sub_op_bounded_cong) (simp_all add: cycle_unfold)
  ultimately show ?case by simp
qed


lemma erase_entry_run:
  assumes m: "operatingMode (fst w) = ST_WAIT_BUTTON_DEP"
      and lt: "sf3_addr_start_val (fst w) < last_starting_byte_addr"
  shows "operatingMode (fst (run drv ((0, 1) # replicate 154 (0, 0)) w)) = ST_CMD_ERASE_START
       \<and> operatingModePrev (fst (run drv ((0, 1) # replicate 154 (0, 0)) w)) = ST_CMD_ERASE_START
       \<and> sf3_i_val (fst (run drv ((0, 1) # replicate 154 (0, 0)) w)) = 0
       \<and> sf3_test_pattern_selected (fst (run drv ((0, 1) # replicate 154 (0, 0)) w)) = TEST_PATTERN_A
       \<and> sf3_pattern_start_val (fst (run drv ((0, 1) # replicate 154 (0, 0)) w)) = 0
       \<and> sf3_pattern_incr_val (fst (run drv ((0, 1) # replicate 154 (0, 0)) w)) = 1
       \<and> sf3_addr_start_val (fst (run drv ((0, 1) # replicate 154 (0, 0)) w))
           = (if sf3_start_at_zero (fst w) then 0
              else sf3_addr_start_val (fst w) + per_iteration_byte_count)
       \<and> sf3_err_count_val (fst (run drv ((0, 1) # replicate 154 (0, 0)) w)) = sf3_err_count_val (fst w)
       \<and> length (WriteBuffer (fst (run drv ((0, 1) # replicate 154 (0, 0)) w))) = length (WriteBuffer (fst w))
       \<and> length (ReadBuffer (fst (run drv ((0, 1) # replicate 154 (0, 0)) w))) = length (ReadBuffer (fst w))"
proof -
  define a where "a = run drv [(0, 1), (0, 0), (0, 0), (0, 0)] w"
  have sp: "(0, 1) # replicate 154 (0::u32, 0::u32) = [(0, 1), (0, 0), (0, 0), (0, 0)] @ replicate 151 (0, 0)"
  proof -
    have "replicate 154 (0::u32, 0::u32) = replicate (3 + 151) (0, 0)" by simp
    also have "\<dots> = replicate 3 (0, 0) @ replicate 151 (0, 0)" by (simp only: replicate_add)
    also have "replicate 3 (0::u32, 0::u32) = [(0, 0), (0, 0), (0, 0)]" by (simp add: numeral_3_eq_3)
    finally show ?thesis by simp
  qed
  have r: "run drv ((0, 1) # replicate 154 (0, 0)) w = run drv (replicate 151 (0, 0)) a"
    unfolding sp run_append a_def by (rule refl)
  have sel: "wait_button_dep (Experiment_readUserInputs 0 1 (fst w))
                  = (Experiment_readUserInputs 0 1 (fst w))
                      \<lparr> sf3_test_done := False, operatingMode := ST_WAIT_BUTTON_REL,
                        sf3_test_pattern_selected := TEST_PATTERN_A \<rparr>"
    using lt by (simp add: wait_button_dep_def mask_defs Let_def)
  have sa: "operatingMode (fst a) = ST_SET_START_WAIT" "operatingModePrev (fst a) = ST_SET_START_WAIT"
      "unat (cnt_t (fst a)) = 0" "sf3_i_val (fst a) = 0"
      "sf3_pattern_start_val (fst a) = 0" "sf3_pattern_incr_val (fst a) = 1"
      "sf3_test_pattern_selected (fst a) = TEST_PATTERN_A"
      "sf3_addr_start_val (fst a) = (if sf3_start_at_zero (fst w) then 0
              else sf3_addr_start_val (fst w) + per_iteration_byte_count)"
      "sf3_err_count_val (fst a) = sf3_err_count_val (fst w)"
      "length (WriteBuffer (fst a)) = length (WriteBuffer (fst w))"
      "length (ReadBuffer (fst a)) = length (ReadBuffer (fst w))"
    using start_run [of w 0 1 TEST_PATTERN_A drv 0 "(0, 0)" "(0, 0)", OF m sel, folded a_def] lt
    by (simp_all add: set_pattern_def Let_def sf3_test_pattern_startval_a_def
          sf3_test_pattern_incrval_a_def)
  show ?thesis
    unfolding r
    using wait_run [of a "replicate 151 (0, 0)" drv] sa by (simp add: pass_cfg_def)
qed

lemma failing_erase_entry_fields:
  "operatingMode (fst failing_erase_entry) = ST_CMD_ERASE_START"
  "operatingModePrev (fst failing_erase_entry) = ST_CMD_ERASE_START"
  "sf3_i_val (fst failing_erase_entry) = 0"
  "sf3_addr_start_val (fst failing_erase_entry) = 0"
  using erase_entry_run [of "(Experiment_InitData (experiData failing_sf3), (), [])" failing_sf3]
  by (simp_all add: failing_erase_entry_def init_fields consts_num)

lemma failing_page_batch_done_fields:
  "operatingMode (fst failing_page_batch_done) = ST_CMD_PAGE_START"
  "sf3_i_val (fst failing_page_batch_done) = 32"
proof -
  define w1 where "w1 = run failing_sf3 (replicate 256 (0, 0)) failing_erase_entry"
  define w2 where "w2 = run failing_sf3 (replicate 300 (0, 0)) w1"
  have r: "failing_page_batch_done = Experiment_prvSf3Task_cycle failing_sf3 (0, 0) w2"
    by (simp add: failing_page_batch_done_def run_append w2_def w1_def)
  have s1: "operatingMode (fst w1) = ST_CMD_ERASE_DONE" "operatingModePrev (fst w1) = ST_CMD_ERASE_DONE"
           "unat (cnt_t (fst w1)) = 0"
    using erase_run [of failing_erase_entry "replicate 256 (0, 0)" failing_sf3, folded w1_def]
      failing_erase_entry_fields by simp_all
  have s2: "operatingMode (fst w2) = ST_CMD_PAGE_START" "operatingModePrev (fst w2) = ST_CMD_PAGE_START"
           "sf3_i_val (fst w2) = 0"
    using done_run [of ST_CMD_ERASE_DONE failing_sf3 ST_CMD_PAGE_START w1 "replicate 300 (0, 0)",
                    OF FSM_cases(7), folded w2_def] s1
    by auto
  have "unat (sf3_i_val (fst failing_page_batch_done)) = 32"
    unfolding r using page_cycle(2) [of w2 failing_sf3 "(0, 0)"] s2 by simp
  then show "sf3_i_val (fst failing_page_batch_done) = 32"
    by (simp add: word_unat_eq_iff)
  show "operatingMode (fst failing_page_batch_done) = ST_CMD_PAGE_START"
    unfolding r using page_cycle(1) [of w2 failing_sf3 "(0, 0)"] s2 by simp
qed

section \<open>The pattern constants and the buffer lengths in reachable states\<close>

lemma pattern_latched_cong:
  assumes "operatingMode e' = operatingMode e"
      and "sf3_test_pattern_selected e' = sf3_test_pattern_selected e"
      and "sf3_pattern_start_val e' = sf3_pattern_start_val e"
      and "sf3_pattern_incr_val e' = sf3_pattern_incr_val e"
  shows "pattern_latched e' = pattern_latched e"
  using assms set_pattern_seeds_cong [of e' e]
  by (cases "operatingMode e") (simp_all add: pattern_latched_def)

lemma pattern_latched_kept:
  assumes "sf3_test_pattern_selected e' = sf3_test_pattern_selected e"
      and "sf3_pattern_start_val e' = sf3_pattern_start_val e"
      and "sf3_pattern_incr_val e' = sf3_pattern_incr_val e"
      and "sf3_test_pattern_selected e \<noteq> TEST_PATTERN_NONE"
      and "sf3_pattern_start_val e = sf3_pattern_start_val (set_pattern e)"
      and "sf3_pattern_incr_val e = sf3_pattern_incr_val (set_pattern e)"
  shows "pattern_latched e'"
  using assms set_pattern_seeds_cong [of e' e]
  by (cases "operatingMode e'") (simp_all add: pattern_latched_def)

lemma pattern_latched_FSM:
  assumes "pattern_latched (fst w)"
  shows "pattern_latched (fst (Experiment_operateFSM drv w))"
proof (cases "operatingMode (fst w)")
  case ST_WAIT_BUTTON_DEP
  then show ?thesis
    by (simp add: FSM_cases wait_button_dep_def pattern_latched_def Let_def)
next
  case ST_WAIT_BUTTON_REL
  then show ?thesis using assms by (simp add: FSM_cases pattern_latched_def)
next
  case ST_SET_PATTERN
  then show ?thesis using assms
    by (simp add: FSM_cases pattern_latched_def set_pattern_def Let_def split: test_pattern.split)
next
  case ST_SET_START_ADDR
  then have l: "sf3_test_pattern_selected (fst w) \<noteq> TEST_PATTERN_NONE"
      "sf3_pattern_start_val (fst w) = sf3_pattern_start_val (set_pattern (fst w))"
      "sf3_pattern_incr_val (fst w) = sf3_pattern_incr_val (set_pattern (fst w))"
    using assms by (simp_all add: pattern_latched_def)
  show ?thesis
    by (rule pattern_latched_kept [OF _ _ _ l])
       (simp_all add: FSM_cases ST_SET_START_ADDR set_start_addr_def Let_def)
next
  case ST_SET_START_WAIT
  then have l: "sf3_test_pattern_selected (fst w) \<noteq> TEST_PATTERN_NONE"
      "sf3_pattern_start_val (fst w) = sf3_pattern_start_val (set_pattern (fst w))"
      "sf3_pattern_incr_val (fst w) = sf3_pattern_incr_val (set_pattern (fst w))"
    using assms by (simp_all add: pattern_latched_def)
  show ?thesis
    by (rule pattern_latched_kept [OF _ _ _ l]) (simp_all add: FSM_cases ST_SET_START_WAIT)
next
  case ST_CMD_ERASE_START
  then have l: "sf3_test_pattern_selected (fst w) \<noteq> TEST_PATTERN_NONE"
      "sf3_pattern_start_val (fst w) = sf3_pattern_start_val (set_pattern (fst w))"
      "sf3_pattern_incr_val (fst w) = sf3_pattern_incr_val (set_pattern (fst w))"
    using assms by (simp_all add: pattern_latched_def)
  show ?thesis
    by (rule pattern_latched_kept [OF _ _ _ l]) (simp_all add: FSM_cases ST_CMD_ERASE_START)
next
  case ST_CMD_ERASE_DONE
  then have l: "sf3_test_pattern_selected (fst w) \<noteq> TEST_PATTERN_NONE"
      "sf3_pattern_start_val (fst w) = sf3_pattern_start_val (set_pattern (fst w))"
      "sf3_pattern_incr_val (fst w) = sf3_pattern_incr_val (set_pattern (fst w))"
    using assms by (simp_all add: pattern_latched_def)
  show ?thesis
    by (rule pattern_latched_kept [OF _ _ _ l])
       (simp_all add: FSM_cases ST_CMD_ERASE_DONE cmd_done_def Let_def)
next
  case ST_CMD_PAGE_START
  then have l: "sf3_test_pattern_selected (fst w) \<noteq> TEST_PATTERN_NONE"
      "sf3_pattern_start_val (fst w) = sf3_pattern_start_val (set_pattern (fst w))"
      "sf3_pattern_incr_val (fst w) = sf3_pattern_incr_val (set_pattern (fst w))"
    using assms by (simp_all add: pattern_latched_def)
  show ?thesis
    by (rule pattern_latched_kept [OF _ _ _ l]) (simp_all add: FSM_cases ST_CMD_PAGE_START)
next
  case ST_CMD_PAGE_DONE
  then have l: "sf3_test_pattern_selected (fst w) \<noteq> TEST_PATTERN_NONE"
      "sf3_pattern_start_val (fst w) = sf3_pattern_start_val (set_pattern (fst w))"
      "sf3_pattern_incr_val (fst w) = sf3_pattern_incr_val (set_pattern (fst w))"
    using assms by (simp_all add: pattern_latched_def)
  show ?thesis
    by (rule pattern_latched_kept [OF _ _ _ l])
       (simp_all add: FSM_cases ST_CMD_PAGE_DONE cmd_done_def Let_def)
next
  case ST_CMD_READ_START
  then have l: "sf3_test_pattern_selected (fst w) \<noteq> TEST_PATTERN_NONE"
      "sf3_pattern_start_val (fst w) = sf3_pattern_start_val (set_pattern (fst w))"
      "sf3_pattern_incr_val (fst w) = sf3_pattern_incr_val (set_pattern (fst w))"
    using assms by (simp_all add: pattern_latched_def)
  show ?thesis
    by (rule pattern_latched_kept [OF _ _ _ l]) (simp_all add: FSM_cases ST_CMD_READ_START)
next
  case ST_CMD_READ_DONE
  then have l: "sf3_test_pattern_selected (fst w) \<noteq> TEST_PATTERN_NONE"
      "sf3_pattern_start_val (fst w) = sf3_pattern_start_val (set_pattern (fst w))"
      "sf3_pattern_incr_val (fst w) = sf3_pattern_incr_val (set_pattern (fst w))"
    using assms by (simp_all add: pattern_latched_def)
  show ?thesis
    by (rule pattern_latched_kept [OF _ _ _ l])
       (simp_all add: FSM_cases ST_CMD_READ_DONE cmd_done_def Let_def)
next
  case ST_DISPLAY_FINAL
  then have l: "sf3_test_pattern_selected (fst w) \<noteq> TEST_PATTERN_NONE"
      "sf3_pattern_start_val (fst w) = sf3_pattern_start_val (set_pattern (fst w))"
      "sf3_pattern_incr_val (fst w) = sf3_pattern_incr_val (set_pattern (fst w))"
    using assms by (simp_all add: pattern_latched_def)
  show ?thesis
    by (rule pattern_latched_kept [OF _ _ _ l])
       (simp_all add: FSM_cases ST_DISPLAY_FINAL display_final_def Let_def)
next
  case OPERATING_MODE_NONE
  then show ?thesis by (simp add: FSM_cases pattern_latched_def)
qed

lemma pattern_latched_reachable: "reachable drv w \<Longrightarrow> pattern_latched (fst w)"
proof (induction rule: reachable.induct)
  case (reachable_init dev)
  then show ?case by (simp add: pattern_latched_def init_fields)
next
  case (reachable_cycle w inp)
  let ?w1 = "(Experiment_readUserInputs (fst inp) (snd inp) (fst w), fst (snd w),
            snd (snd w) @ Experiment_updateClsDisplayAndTerminal (fst w))"
  have "pattern_latched (fst ?w1) = pattern_latched (fst w)"
    by (rule pattern_latched_cong) simp_all
  then have "pattern_latched (fst ?w1)" using reachable_cycle.IH by simp
  then have "pattern_latched (fst (Experiment_operateFSM drv ?w1))" by (rule pattern_latched_FSM)
  moreover have "pattern_latched (fst (Experiment_prvSf3Task_cycle drv inp w))
                   = pattern_latched (fst (Experiment_operateFSM drv ?w1))"
    by (rule pattern_latched_cong) (simp_all add: cycle_unfold)
  ultimately show ?case by simp
qed

lemma buffer_lengths_reachable:
  "reachable drv w \<Longrightarrow>
     length (WriteBuffer (fst w)) = SF3_PAGE_SIZE drv + SF3_WRITE_EXTRA_BYTES drv
   \<and> length (ReadBuffer (fst w)) = SF3_PAGE_SIZE drv + SF3_READ_MIN_EXTRA_BYTES drv"
  by (induction rule: reachable.induct) (simp_all add: init_fields)

lemma pattern_byte_mod:
  "unat ((s::u8) + of_nat i * t) = (unat s + i * unat t) mod 256"
  by (simp add: unat_word_ariths unat_of_nat mod_simps)

section \<open>One page command, and two more states of the pass on the silent device\<close>

lemma read_entry_run:
  assumes "operatingMode (fst w) = ST_CMD_ERASE_START"
      and "operatingModePrev (fst w) = ST_CMD_ERASE_START"
      and "sf3_i_val (fst w) = 0"
      and "length i1 = 256" "length i2 = 300" "length i3 = 128" "length i4 = 300"
  shows "operatingMode (fst (run drv (i1 @ i2 @ i3 @ i4) w)) = ST_CMD_READ_START
       \<and> operatingModePrev (fst (run drv (i1 @ i2 @ i3 @ i4) w)) = ST_CMD_READ_START
       \<and> sf3_i_val (fst (run drv (i1 @ i2 @ i3 @ i4) w)) = 0
       \<and> pass_cfg (fst (run drv (i1 @ i2 @ i3 @ i4) w)) = pass_cfg (fst w)
       \<and> sf3_err_count_val (fst (run drv (i1 @ i2 @ i3 @ i4) w)) = sf3_err_count_val (fst w)"
proof -
  define w1 where "w1 = run drv i1 w"
  define w2 where "w2 = run drv i2 w1"
  define w3 where "w3 = run drv i3 w2"
  define w4 where "w4 = run drv i4 w3"
  have r: "run drv (i1 @ i2 @ i3 @ i4) w = w4"
    by (simp add: run_append w4_def w3_def w2_def w1_def)
  have s1: "operatingMode (fst w1) = ST_CMD_ERASE_DONE" "operatingModePrev (fst w1) = ST_CMD_ERASE_DONE"
           "unat (cnt_t (fst w1)) = 0" "pass_cfg (fst w1) = pass_cfg (fst w)"
           "sf3_err_count_val (fst w1) = sf3_err_count_val (fst w)"
    using erase_run [of w i1 drv, folded w1_def] assms by simp_all
  have n2: "i2 \<noteq> []" "i4 \<noteq> []" using assms by auto
  have s2: "operatingMode (fst w2) = ST_CMD_PAGE_START" "operatingModePrev (fst w2) = ST_CMD_PAGE_START"
           "sf3_i_val (fst w2) = 0" "pass_cfg (fst w2) = pass_cfg (fst w)"
           "sf3_err_count_val (fst w2) = sf3_err_count_val (fst w)"
    using done_run [of ST_CMD_ERASE_DONE drv ST_CMD_PAGE_START w1 i2, OF FSM_cases(7), folded w2_def]
          s1 assms(5) n2
    by auto
  have s3: "operatingMode (fst w3) = ST_CMD_PAGE_DONE" "operatingModePrev (fst w3) = ST_CMD_PAGE_DONE"
           "cnt_t (fst w3) = 0" "pass_cfg (fst w3) = pass_cfg (fst w)"
           "sf3_err_count_val (fst w3) = sf3_err_count_val (fst w)"
    using page_run [of w2 i3 drv, folded w3_def] s2 assms(6) by simp_all
  have s4: "operatingMode (fst w4) = ST_CMD_READ_START" "operatingModePrev (fst w4) = ST_CMD_READ_START"
           "sf3_i_val (fst w4) = 0" "pass_cfg (fst w4) = pass_cfg (fst w)"
           "sf3_err_count_val (fst w4) = sf3_err_count_val (fst w)"
    using done_run [of ST_CMD_PAGE_DONE drv ST_CMD_READ_START w3 i4, OF FSM_cases(9), folded w4_def]
          s3 assms(7) n2
    by auto
  show ?thesis unfolding r using s4 by simp
qed

lemma failing_read_entry_fields:
  "operatingMode (fst failing_read_entry) = ST_CMD_READ_START"
  "sf3_i_val (fst failing_read_entry) = 0"
  using read_entry_run [of failing_erase_entry "replicate 256 (0, 0)" "replicate 300 (0, 0)"
          "replicate 128 (0, 0)" "replicate 300 (0, 0)" failing_sf3]
  by (simp_all add: failing_erase_entry_fields failing_read_entry_def)

lemma failing_page_batch_done_pattern:
  "sf3_test_pattern_selected (fst failing_page_batch_done) = TEST_PATTERN_A"
proof -
  let ?w = "(Experiment_InitData (experiData failing_sf3), (), [] :: queue_send list)"
  define w1 where "w1 = run failing_sf3 (replicate 256 (0, 0)) failing_erase_entry"
  define w2 where "w2 = run failing_sf3 (replicate 300 (0, 0)) w1"
  have r: "failing_page_batch_done = Experiment_prvSf3Task_cycle failing_sf3 (0, 0) w2"
    by (simp add: failing_page_batch_done_def run_append w2_def w1_def)
  have s0: "sf3_test_pattern_selected (fst failing_erase_entry) = TEST_PATTERN_A"
    using erase_entry_run [of ?w failing_sf3]
    by (simp add: failing_erase_entry_def init_fields consts_num)
  have s1: "operatingMode (fst w1) = ST_CMD_ERASE_DONE" "operatingModePrev (fst w1) = ST_CMD_ERASE_DONE"
           "unat (cnt_t (fst w1)) = 0" "pass_cfg (fst w1) = pass_cfg (fst failing_erase_entry)"
    using erase_run [of failing_erase_entry "replicate 256 (0, 0)" failing_sf3, folded w1_def]
      failing_erase_entry_fields by simp_all
  have s2: "operatingMode (fst w2) = ST_CMD_PAGE_START" "operatingModePrev (fst w2) = ST_CMD_PAGE_START"
           "sf3_i_val (fst w2) = 0" "pass_cfg (fst w2) = pass_cfg (fst failing_erase_entry)"
    using done_run [of ST_CMD_ERASE_DONE failing_sf3 ST_CMD_PAGE_START w1 "replicate 300 (0, 0)",
                    OF FSM_cases(7), folded w2_def] s1
    by auto
  have "pass_cfg (fst failing_page_batch_done) = pass_cfg (fst failing_erase_entry)"
    unfolding r using page_cycle(5) [of w2 failing_sf3 "(0, 0)"] s2 by simp
  then show ?thesis using s0 by (simp add: pass_cfg_def)
qed

lemma page_body_WriteBuffer:
  assumes "i < SF3_PAGE_SIZE drv"
      and "i + SF3_WRITE_EXTRA_BYTES drv < length (WriteBuffer (fst w))"
  shows "WriteBuffer (fst (cmd_page_start_body drv w)) ! (i + SF3_WRITE_EXTRA_BYTES drv)
           = sf3_pattern_track_val (fst w) + of_nat i * sf3_pattern_incr_val (fst w)"
  using assms
  by (simp add: cmd_page_start_body_def split_beta Let_def report_failure_def fill_WriteBuffer_nth)

lemma page_body_written:
  "fst (snd (cmd_page_start_body drv w))
     = snd (SF3_FlashWrite drv (snd (SF3_FlashWriteEnable drv (fst (snd w))))
              (sf3_addr_start_val (fst w) + sf3_i_val (fst w) * sf3_page_addr_incr)
              (SF3_PAGE_SIZE drv) (WriteBuffer (fst (cmd_page_start_body drv w))))"
  by (simp add: cmd_page_start_body_def split_beta Let_def report_failure_def)

lemma read_body_err:
  "sf3_err_count_val (fst (cmd_read_start_body drv w))
     = sf3_err_count_val (fst w)
       + of_nat (length (filter
           (\<lambda>i. ReadBuffer (fst (cmd_read_start_body drv w)) ! (i + SF3_READ_MIN_EXTRA_BYTES drv)
                  \<noteq> sf3_pattern_start_val (fst w) + of_nat i * sf3_pattern_incr_val (fst w))
           [0..<SF3_PAGE_SIZE drv]))"
  by (simp add: cmd_read_start_body_def split_beta Let_def report_failure_def compare_ReadBuffer_err)

section \<open>Whole passes with any driver\<close>

lemma reachable_prev:
  "reachable drv w \<Longrightarrow> operatingModePrev (fst w) = operatingMode (fst w)"
  by (induction rule: reachable.induct) (simp_all add: init_fields)

lemma err_kept_FSM:
  "operatingMode (fst w) \<noteq> ST_CMD_READ_START \<Longrightarrow>
   sf3_err_count_val (fst (Experiment_operateFSM drv w)) = sf3_err_count_val (fst w)"
  by (cases "operatingMode (fst w)")
     (simp_all add: FSM_cases case_defs Let_def split: test_pattern.split)

lemma err_kept_cycle:
  "operatingMode (fst w) \<noteq> ST_CMD_READ_START \<Longrightarrow>
   sf3_err_count_val (fst (Experiment_prvSf3Task_cycle drv inp w)) = sf3_err_count_val (fst w)"
  by (simp add: cycle_unfold err_kept_FSM)

lemma pass_start_run:
  assumes m: "operatingMode (fst w) = ST_WAIT_BUTTON_DEP"
      and lt: "sf3_addr_start_val (fst w) < last_starting_byte_addr"
      and p: "p \<noteq> TEST_PATTERN_NONE"
  shows "operatingMode (fst (run drv ((0, pattern_button p) # replicate 154 (0, 0)) w)) = ST_CMD_ERASE_START
       \<and> operatingModePrev (fst (run drv ((0, pattern_button p) # replicate 154 (0, 0)) w)) = ST_CMD_ERASE_START
       \<and> sf3_i_val (fst (run drv ((0, pattern_button p) # replicate 154 (0, 0)) w)) = 0
       \<and> sf3_test_pattern_selected (fst (run drv ((0, pattern_button p) # replicate 154 (0, 0)) w)) = p
       \<and> sf3_addr_start_val (fst (run drv ((0, pattern_button p) # replicate 154 (0, 0)) w))
           = (if sf3_start_at_zero (fst w) then 0
              else sf3_addr_start_val (fst w) + per_iteration_byte_count)
       \<and> \<not> sf3_start_at_zero (fst (run drv ((0, pattern_button p) # replicate 154 (0, 0)) w))
       \<and> sf3_err_count_val (fst (run drv ((0, pattern_button p) # replicate 154 (0, 0)) w))
           = sf3_err_count_val (fst w)"
proof -
  let ?b = "pattern_button p"
  define a where "a = run drv [(0, ?b), (0, 0), (0, 0), (0, 0)] w"
  have sp: "(0, ?b) # replicate 154 (0::u32, 0::u32) = [(0, ?b), (0, 0), (0, 0), (0, 0)] @ replicate 151 (0, 0)"
  proof -
    have "replicate 154 (0::u32, 0::u32) = replicate (3 + 151) (0, 0)" by simp
    also have "\<dots> = replicate 3 (0, 0) @ replicate 151 (0, 0)" by (simp only: replicate_add)
    also have "replicate 3 (0::u32, 0::u32) = [(0, 0), (0, 0), (0, 0)]" by (simp add: numeral_3_eq_3)
    finally show ?thesis by simp
  qed
  have r: "run drv ((0, ?b) # replicate 154 (0, 0)) w = run drv (replicate 151 (0, 0)) a"
    unfolding sp run_append a_def by (rule refl)
  have sel: "wait_button_dep (Experiment_readUserInputs 0 ?b (fst w))
                  = (Experiment_readUserInputs 0 ?b (fst w))
                      \<lparr> sf3_test_done := False, operatingMode := ST_WAIT_BUTTON_REL,
                        sf3_test_pattern_selected := p \<rparr>"
    using lt p by (cases p) (simp_all add: wait_button_dep_def pattern_button_def mask_defs Let_def)
  have sa: "operatingMode (fst a) = ST_SET_START_WAIT" "operatingModePrev (fst a) = ST_SET_START_WAIT"
      "unat (cnt_t (fst a)) = 0" "sf3_i_val (fst a) = 0"
      "sf3_test_pattern_selected (fst a) = p"
      "sf3_addr_start_val (fst a) = (if sf3_start_at_zero (fst w) then 0
              else sf3_addr_start_val (fst w) + per_iteration_byte_count)"
      "\<not> sf3_start_at_zero (fst a)"
      "sf3_err_count_val (fst a) = sf3_err_count_val (fst w)"
    using start_run [of w 0 ?b p drv 0 "(0, 0)" "(0, 0)", OF m sel, folded a_def] lt
    by simp_all
  show ?thesis
    unfolding r
    using wait_run [of a "replicate 151 (0, 0)" drv] sa by (simp add: pass_cfg_def)
qed

lemma button0_pass_run:
  assumes m: "operatingMode (fst w) = ST_WAIT_BUTTON_DEP"
      and lt: "sf3_addr_start_val (fst w) < last_starting_byte_addr"
  shows "operatingMode (fst (run drv button0_pass w)) = ST_WAIT_BUTTON_DEP
       \<and> sf3_addr_start_val (fst (run drv button0_pass w))
           = (if sf3_start_at_zero (fst w) then 0
              else sf3_addr_start_val (fst w) + per_iteration_byte_count)
       \<and> \<not> sf3_start_at_zero (fst (run drv button0_pass w))"
proof -
  define b where "b = run drv ((0, 1) # replicate 154 (0, 0)) w"
  define w4 where "w4 = run drv (replicate 256 (0, 0) @ replicate 300 (0, 0) @ replicate 128 (0, 0)
                                  @ replicate 300 (0, 0)) b"
  define w5 where "w5 = run drv (replicate 128 (0, 0)) w4"
  define w6 where "w6 = run drv (replicate 300 (0, 0)) w5"
  define w7 where "w7 = run drv (replicate 300 (0, 0)) w6"
  have sp: "button0_pass = ((0, 1) # replicate 154 (0, 0))
              @ (replicate 256 (0, 0) @ replicate 300 (0, 0) @ replicate 128 (0, 0) @ replicate 300 (0, 0))
              @ replicate 128 (0, 0) @ replicate 300 (0, 0) @ replicate 300 (0, 0)"
  proof -
    have "replicate 1866 (0::u32, 0::u32)
            = replicate (154 + (256 + 300 + 128 + 300) + 128 + 300 + 300) (0, 0)"
      by simp
    also have "\<dots> = replicate 154 (0, 0)
              @ (replicate 256 (0, 0) @ replicate 300 (0, 0) @ replicate 128 (0, 0) @ replicate 300 (0, 0))
              @ replicate 128 (0, 0) @ replicate 300 (0, 0) @ replicate 300 (0, 0)"
      by (simp only: replicate_add append_assoc)
    finally show ?thesis by (simp add: button0_pass_def)
  qed
  have r: "run drv button0_pass w = w7"
    unfolding w7_def w6_def w5_def w4_def b_def sp run_append by (rule refl)
  have sb: "operatingMode (fst b) = ST_CMD_ERASE_START" "operatingModePrev (fst b) = ST_CMD_ERASE_START"
      "sf3_i_val (fst b) = 0"
      "sf3_addr_start_val (fst b) = (if sf3_start_at_zero (fst w) then 0
              else sf3_addr_start_val (fst w) + per_iteration_byte_count)"
      "\<not> sf3_start_at_zero (fst b)"
    using pass_start_run [of w TEST_PATTERN_A drv, OF m lt, folded b_def]
    by (simp_all add: pattern_button_def mask_defs b_def)
  have s4: "operatingMode (fst w4) = ST_CMD_READ_START" "operatingModePrev (fst w4) = ST_CMD_READ_START"
           "sf3_i_val (fst w4) = 0" "pass_cfg (fst w4) = pass_cfg (fst b)"
    using read_entry_run [of b "replicate 256 (0, 0)" "replicate 300 (0, 0)" "replicate 128 (0, 0)"
            "replicate 300 (0, 0)" drv, folded w4_def] sb
    by simp_all
  have s5: "operatingMode (fst w5) = ST_CMD_READ_DONE" "operatingModePrev (fst w5) = ST_CMD_READ_DONE"
           "unat (cnt_t (fst w5)) = 0" "pass_cfg (fst w5) = pass_cfg (fst b)"
    using read_run [of w4 "replicate 128 (0, 0)" drv, folded w5_def] s4 by simp_all
  have s6: "operatingMode (fst w6) = ST_DISPLAY_FINAL" "operatingModePrev (fst w6) = ST_DISPLAY_FINAL"
           "unat (cnt_t (fst w6)) = 0" "pass_cfg (fst w6) = pass_cfg (fst b)"
    using done_run [of ST_CMD_READ_DONE drv ST_DISPLAY_FINAL w5 "replicate 300 (0, 0)",
                    OF FSM_cases(11), folded w6_def] s5
    by auto
  have s7: "operatingMode (fst w7) = ST_WAIT_BUTTON_DEP" "pass_cfg (fst w7) = pass_cfg (fst b)"
    using final_run [of w6 "replicate 300 (0, 0)" drv, folded w7_def] s6 by simp_all
  show ?thesis
    unfolding r using s7 sb by (simp add: pass_cfg_def)
qed

lemma button0_passes_run:
  assumes "j \<le> 31"
  shows "operatingMode (fst (run drv (button0_passes (Suc j))
            (Experiment_InitData (experiData drv), dev, []))) = ST_WAIT_BUTTON_DEP
       \<and> sf3_addr_start_val (fst (run drv (button0_passes (Suc j))
            (Experiment_InitData (experiData drv), dev, []))) = of_nat j * 1048576
       \<and> \<not> sf3_start_at_zero (fst (run drv (button0_passes (Suc j))
            (Experiment_InitData (experiData drv), dev, [])))"
  using assms
proof (induction j)
  case 0
  have "button0_passes (Suc 0) = button0_pass"
    by (simp add: button0_passes_def)
  then show ?case
    using button0_pass_run [of "(Experiment_InitData (experiData drv), dev, [])" drv]
    by (simp add: init_fields consts_num)
next
  case (Suc j)
  let ?v = "run drv (button0_passes (Suc j)) (Experiment_InitData (experiData drv), dev, [])"
  have IH: "operatingMode (fst ?v) = ST_WAIT_BUTTON_DEP"
      "sf3_addr_start_val (fst ?v) = of_nat j * 1048576"
      "\<not> sf3_start_at_zero (fst ?v)"
    using Suc by simp_all
  have lt: "sf3_addr_start_val (fst ?v) < last_starting_byte_addr"
    using region_addr_less [of j] Suc.prems by (simp add: IH consts_num)
  show ?case
    unfolding button0_passes_Suc [of "Suc j"] run_append
    using button0_pass_run [OF IH(1) lt, of drv] IH
    by (simp add: consts_num algebra_simps)
qed

lemma pass_start_reached:
  assumes k: "k < 32" and p: "p \<noteq> TEST_PATTERN_NONE"
  shows "reachable drv (run drv (pass_start k p) (Experiment_InitData (experiData drv), dev, []))
       \<and> operatingMode (fst (run drv (pass_start k p)
            (Experiment_InitData (experiData drv), dev, []))) = ST_CMD_ERASE_START
       \<and> sf3_i_val (fst (run drv (pass_start k p)
            (Experiment_InitData (experiData drv), dev, []))) = 0
       \<and> sf3_addr_start_val (fst (run drv (pass_start k p)
            (Experiment_InitData (experiData drv), dev, []))) = of_nat k * per_iteration_byte_count
       \<and> sf3_test_pattern_selected (fst (run drv (pass_start k p)
            (Experiment_InitData (experiData drv), dev, []))) = p"
proof -
  let ?i = "(Experiment_InitData (experiData drv), dev, [] :: queue_send list)"
  define v where "v = run drv (button0_passes k) ?i"
  have r: "run drv (pass_start k p) ?i = run drv ((0, pattern_button p) # replicate 154 (0, 0)) v"
    by (simp only: pass_start_def run_append v_def)
  have re: "reachable drv (run drv (pass_start k p) ?i)"
    by (rule reachable_run [OF reachable_init])
  have f: "operatingMode (fst v) = ST_WAIT_BUTTON_DEP
         \<and> sf3_addr_start_val (fst v) < last_starting_byte_addr
         \<and> (if sf3_start_at_zero (fst v) then 0
              else sf3_addr_start_val (fst v) + per_iteration_byte_count)
             = of_nat k * per_iteration_byte_count"
  proof (cases k)
    case 0
    then have "v = ?i" by (simp add: v_def button0_passes_def)
    then show ?thesis using 0 by (simp add: init_fields consts_num)
  next
    case (Suc j)
    then have j: "j \<le> 31" "j < 31" using k by simp_all
    show ?thesis
      using button0_passes_run [OF j(1), of drv dev] region_addr_less [OF j(2)]
      by (simp add: v_def Suc consts_num algebra_simps)
  qed
  show ?thesis
    unfolding r [symmetric]
    using pass_start_run [of v p drv, folded r] f p re
    by simp
qed

section \<open>Runs on the fault-free flash count no error\<close>

lemma cycle_pattern_fields:
  "operatingMode (fst w) \<noteq> ST_SET_PATTERN \<Longrightarrow>
     sf3_pattern_start_val (fst (Experiment_prvSf3Task_cycle drv inp w)) = sf3_pattern_start_val (fst w)"
  "operatingMode (fst w) \<noteq> ST_SET_PATTERN \<Longrightarrow>
     sf3_pattern_incr_val (fst (Experiment_prvSf3Task_cycle drv inp w)) = sf3_pattern_incr_val (fst w)"
  "operatingMode (fst w) \<noteq> ST_SET_START_ADDR \<Longrightarrow>
     sf3_addr_start_val (fst (Experiment_prvSf3Task_cycle drv inp w)) = sf3_addr_start_val (fst w)"
  by (cases "operatingMode (fst w)";
      simp add: cycle_unfold FSM_cases case_defs Let_def split: test_pattern.split)+

lemma fault_free_cycle:
  assumes r: "reachable (ideal_sf3 page wx rx) w"
      and page: "page \<le> 256"
      and inv: "fault_free_inv page w"
  shows "fault_free_inv page (Experiment_prvSf3Task_cycle (ideal_sf3 page wx rx) inp w)"
proof -
  let ?drv = "ideal_sf3 page wx rx"
  let ?w' = "Experiment_prvSf3Task_cycle ?drv inp w"
  have sub: "sub_op_bounded (fst w)" using sub_op_bounded_reachable [OF r] .
  have len: "length (WriteBuffer (fst w)) = page + wx" "length (ReadBuffer (fst w)) = page + rx"
    using buffer_lengths_reachable [OF r] by simp_all
  have e0: "sf3_err_count_val (fst w) = 0" using inv by (simp add: fault_free_inv_def)
  show ?thesis
  proof (cases "operatingMode (fst w)")
    case ST_CMD_ERASE_DONE
    then have "operatingMode (fst ?w') = ST_CMD_ERASE_DONE
             \<or> operatingMode (fst ?w') = ST_CMD_PAGE_START \<and> sf3_i_val (fst ?w') = 0"
      by (simp add: cycle_unfold FSM_cases cmd_done_def Let_def)
    moreover have "sf3_err_count_val (fst ?w') = 0"
      using ST_CMD_ERASE_DONE e0 by (simp add: err_kept_cycle)
    ultimately show ?thesis
      by (auto simp add: fault_free_inv_def programmed_def)
  next
    case ST_CMD_PAGE_START
    then have b: "unat (sf3_i_val (fst w)) < 4096" "32 dvd unat (sf3_i_val (fst w))"
        "sf3_pattern_track_val (fst w) = sf3_pattern_start_val (fst w)"
      using sub by (simp_all add: sub_op_bounded_def)
    then have le: "unat (sf3_i_val (fst w)) + 32 \<le> 4096" by presburger
    have pr: "programmed page (sf3_addr_start_val (fst w)) (sf3_pattern_start_val (fst w))
             (sf3_pattern_incr_val (fst w)) (fst (snd w)) (unat (sf3_i_val (fst w)))"
      using inv ST_CMD_PAGE_START by (simp add: fault_free_inv_def)
    have p': "programmed page (sf3_addr_start_val (fst w)) (sf3_pattern_start_val (fst w))
           (sf3_pattern_incr_val (fst w)) (fst (snd ?w')) (unat (sf3_i_val (fst w)) + 32)"
      by (rule ideal_page_cycle [OF ST_CMD_PAGE_START pr le page b(3) len(1)])
    have u: "unat (sf3_i_val (fst w) + 32) = unat (sf3_i_val (fst w)) + 32"
      using unat_plus_of_nat [of "sf3_i_val (fst w)" 32] le by simp
    have i': "unat (sf3_i_val (fst ?w')) = unat (sf3_i_val (fst w)) + 32"
      using ST_CMD_PAGE_START u by (simp add: cycle_unfold FSM_cases)
    have m': "operatingMode (fst ?w')
           = (if unat (sf3_i_val (fst w)) + 32 < 4096 then ST_CMD_PAGE_START else ST_CMD_PAGE_DONE)"
      using ST_CMD_PAGE_START u u32_add_less_4096 [of "sf3_i_val (fst w)" 32] le
      by (simp add: cycle_unfold FSM_cases page_batch_mode consts_num)
    have f: "sf3_addr_start_val (fst ?w') = sf3_addr_start_val (fst w)"
            "sf3_pattern_start_val (fst ?w') = sf3_pattern_start_val (fst w)"
            "sf3_pattern_incr_val (fst ?w') = sf3_pattern_incr_val (fst w)"
            "sf3_err_count_val (fst ?w') = 0"
      using ST_CMD_PAGE_START e0 by (simp_all add: cycle_pattern_fields err_kept_cycle)
    show ?thesis
    proof (cases "unat (sf3_i_val (fst w)) + 32 < 4096")
      case True
      then show ?thesis using p' m' i' f by (simp add: fault_free_inv_def)
    next
      case False
      then have "unat (sf3_i_val (fst w)) + 32 = 4096" using le by simp
      then show ?thesis using p' m' f by (simp add: fault_free_inv_def)
    qed
  next
    case ST_CMD_PAGE_DONE
    then have pr: "programmed page (sf3_addr_start_val (fst w)) (sf3_pattern_start_val (fst w))
             (sf3_pattern_incr_val (fst w)) (fst (snd w)) 4096"
      using inv by (simp add: fault_free_inv_def)
    have "operatingMode (fst ?w') = ST_CMD_PAGE_DONE \<or> operatingMode (fst ?w') = ST_CMD_READ_START"
      using ST_CMD_PAGE_DONE by (simp add: cycle_unfold FSM_cases cmd_done_def Let_def)
    moreover have "sf3_addr_start_val (fst ?w') = sf3_addr_start_val (fst w)"
            "sf3_pattern_start_val (fst ?w') = sf3_pattern_start_val (fst w)"
            "sf3_pattern_incr_val (fst ?w') = sf3_pattern_incr_val (fst w)"
            "sf3_err_count_val (fst ?w') = 0"
            "fst (snd ?w') = fst (snd w)"
      using ST_CMD_PAGE_DONE e0
      by (simp_all add: cycle_pattern_fields err_kept_cycle cycle_device_idle)
    ultimately show ?thesis using pr by (auto simp add: fault_free_inv_def)
  next
    case ST_CMD_READ_START
    then have b: "unat (sf3_i_val (fst w)) < 4096" "32 dvd unat (sf3_i_val (fst w))"
      using sub by (simp_all add: sub_op_bounded_def)
    then have le: "unat (sf3_i_val (fst w)) + 32 \<le> 4096" by presburger
    have pr: "programmed page (sf3_addr_start_val (fst w)) (sf3_pattern_start_val (fst w))
             (sf3_pattern_incr_val (fst w)) (fst (snd w)) 4096"
      using inv ST_CMD_READ_START by (simp add: fault_free_inv_def)
    note c = ideal_read_cycle [OF ST_CMD_READ_START pr le len(2), of wx inp]
    have "operatingMode (fst ?w') = ST_CMD_READ_START \<or> operatingMode (fst ?w') = ST_CMD_READ_DONE"
      using ST_CMD_READ_START by (simp add: cycle_unfold FSM_cases read_batch_mode)
    moreover have "sf3_addr_start_val (fst ?w') = sf3_addr_start_val (fst w)"
            "sf3_pattern_start_val (fst ?w') = sf3_pattern_start_val (fst w)"
            "sf3_pattern_incr_val (fst ?w') = sf3_pattern_incr_val (fst w)"
      using ST_CMD_READ_START by (simp_all add: cycle_pattern_fields)
    ultimately show ?thesis using pr c e0 by (auto simp add: fault_free_inv_def)
  next
    case ST_WAIT_BUTTON_DEP
    then have "operatingMode (fst ?w') = ST_WAIT_BUTTON_DEP \<or> operatingMode (fst ?w') = ST_WAIT_BUTTON_REL"
      by (simp add: cycle_unfold FSM_cases wait_button_dep_def Let_def)
    moreover have "sf3_err_count_val (fst ?w') = 0"
      using ST_WAIT_BUTTON_DEP e0 by (simp add: err_kept_cycle)
    ultimately show ?thesis by (auto simp add: fault_free_inv_def)
  next
    case ST_WAIT_BUTTON_REL
    then have "operatingMode (fst ?w') = ST_WAIT_BUTTON_REL \<or> operatingMode (fst ?w') = ST_SET_PATTERN"
      by (simp add: cycle_unfold FSM_cases)
    moreover have "sf3_err_count_val (fst ?w') = 0"
      using ST_WAIT_BUTTON_REL e0 by (simp add: err_kept_cycle)
    ultimately show ?thesis by (auto simp add: fault_free_inv_def)
  next
    case ST_SET_PATTERN
    then have "operatingMode (fst ?w') = ST_SET_START_ADDR"
      by (simp add: cycle_unfold FSM_cases set_pattern_def Let_def)
    moreover have "sf3_err_count_val (fst ?w') = 0"
      using ST_SET_PATTERN e0 by (simp add: err_kept_cycle)
    ultimately show ?thesis by (auto simp add: fault_free_inv_def)
  next
    case ST_SET_START_ADDR
    then have "operatingMode (fst ?w') = ST_SET_START_WAIT \<or> operatingMode (fst ?w') = ST_WAIT_BUTTON_DEP"
      by (simp add: cycle_unfold FSM_cases set_start_addr_def Let_def)
    moreover have "sf3_err_count_val (fst ?w') = 0"
      using ST_SET_START_ADDR e0 by (simp add: err_kept_cycle)
    ultimately show ?thesis by (auto simp add: fault_free_inv_def)
  next
    case ST_SET_START_WAIT
    then have "operatingMode (fst ?w') = ST_SET_START_WAIT \<or> operatingMode (fst ?w') = ST_CMD_ERASE_START"
      by (simp add: cycle_unfold FSM_cases)
    moreover have "sf3_err_count_val (fst ?w') = 0"
      using ST_SET_START_WAIT e0 by (simp add: err_kept_cycle)
    ultimately show ?thesis by (auto simp add: fault_free_inv_def)
  next
    case ST_CMD_ERASE_START
    then have "operatingMode (fst ?w') = ST_CMD_ERASE_START \<or> operatingMode (fst ?w') = ST_CMD_ERASE_DONE"
      by (simp add: cycle_unfold FSM_cases cmd_erase_start_next)
    moreover have "sf3_err_count_val (fst ?w') = 0"
      using ST_CMD_ERASE_START e0 by (simp add: err_kept_cycle)
    ultimately show ?thesis by (auto simp add: fault_free_inv_def)
  next
    case ST_CMD_READ_DONE
    then have "operatingMode (fst ?w') = ST_CMD_READ_DONE \<or> operatingMode (fst ?w') = ST_DISPLAY_FINAL"
      by (simp add: cycle_unfold FSM_cases cmd_done_def Let_def)
    moreover have "sf3_err_count_val (fst ?w') = 0"
      using ST_CMD_READ_DONE e0 by (simp add: err_kept_cycle)
    ultimately show ?thesis by (auto simp add: fault_free_inv_def)
  next
    case ST_DISPLAY_FINAL
    then have "operatingMode (fst ?w') = ST_DISPLAY_FINAL \<or> operatingMode (fst ?w') = ST_WAIT_BUTTON_DEP"
      by (simp add: cycle_unfold FSM_cases display_final_def Let_def)
    moreover have "sf3_err_count_val (fst ?w') = 0"
      using ST_DISPLAY_FINAL e0 by (simp add: err_kept_cycle)
    ultimately show ?thesis by (auto simp add: fault_free_inv_def)
  next
    case OPERATING_MODE_NONE
    then have "operatingMode (fst ?w') = ST_WAIT_BUTTON_DEP"
      by (simp add: cycle_unfold FSM_cases)
    moreover have "sf3_err_count_val (fst ?w') = 0"
      using OPERATING_MODE_NONE e0 by (simp add: err_kept_cycle)
    ultimately show ?thesis by (auto simp add: fault_free_inv_def)
  qed
qed

lemma fault_free_reachable:
  assumes "reachable (ideal_sf3 page wx rx) w" and "page \<le> 256"
  shows "fault_free_inv page w"
  using assms
proof (induction rule: reachable.induct)
  case (reachable_init dev)
  then show ?case by (simp add: fault_free_inv_def init_fields)
next
  case (reachable_cycle w inp)
  then show ?case by (simp add: fault_free_cycle)
qed

lemma fault_free_count_zero:
  "reachable (ideal_sf3 page wx rx) w \<Longrightarrow> page \<le> 256 \<Longrightarrow> sf3_err_count_val (fst w) = 0"
  using fault_free_reachable [of page wx rx w] by (simp add: fault_free_inv_def)

section \<open>The start of a pass with pattern D\<close>

lemma pattern_D_erase_entry_fields:
  "operatingMode (fst pattern_D_erase_entry) = ST_CMD_ERASE_START"
  "operatingModePrev (fst pattern_D_erase_entry) = ST_CMD_ERASE_START"
  "sf3_i_val (fst pattern_D_erase_entry) = 0"
  "sf3_err_count_val (fst pattern_D_erase_entry) = 0"
  "length (WriteBuffer (fst pattern_D_erase_entry)) = 260"
  "length (ReadBuffer (fst pattern_D_erase_entry)) = 260"
  "sf3_pattern_start_val (fst pattern_D_erase_entry) = 0x18"
  "sf3_pattern_incr_val (fst pattern_D_erase_entry) = 0x17"
  "sf3_test_pattern_selected (fst pattern_D_erase_entry) = TEST_PATTERN_D"
  "sf3_addr_start_val (fst pattern_D_erase_entry) = 0"
proof -
  let ?drv = "ideal_sf3 256 4 4"
  let ?w = "(Experiment_InitData (experiData ?drv), (\<lambda>x. 0::u8), [] :: queue_send list)"
  define a where "a = run ?drv [(0, 8), (0, 0), (0, 0), (0, 0)] ?w"
  have sp: "(0, 8) # replicate 154 (0::u32, 0::u32) = [(0, 8), (0, 0), (0, 0), (0, 0)] @ replicate 151 (0, 0)"
  proof -
    have "replicate 154 (0::u32, 0::u32) = replicate (3 + 151) (0, 0)" by simp
    also have "\<dots> = replicate 3 (0, 0) @ replicate 151 (0, 0)" by (simp only: replicate_add)
    also have "replicate 3 (0::u32, 0::u32) = [(0, 0), (0, 0), (0, 0)]" by (simp add: numeral_3_eq_3)
    finally show ?thesis by simp
  qed
  have r: "pattern_D_erase_entry = run ?drv (replicate 151 (0, 0)) a"
    unfolding pattern_D_erase_entry_def sp run_append a_def by (rule refl)
  have sel: "wait_button_dep (Experiment_readUserInputs 0 8 (fst ?w))
                  = (Experiment_readUserInputs 0 8 (fst ?w))
                      \<lparr> sf3_test_done := False, operatingMode := ST_WAIT_BUTTON_REL,
                        sf3_test_pattern_selected := TEST_PATTERN_D \<rparr>"
    by (simp add: wait_button_dep_def mask_defs Let_def init_fields consts_num)
  have sa: "operatingMode (fst a) = ST_SET_START_WAIT" "operatingModePrev (fst a) = ST_SET_START_WAIT"
      "unat (cnt_t (fst a)) = 0" "sf3_i_val (fst a) = 0"
      "sf3_pattern_start_val (fst a) = 0x18" "sf3_pattern_incr_val (fst a) = 0x17"
      "sf3_test_pattern_selected (fst a) = TEST_PATTERN_D"
      "sf3_addr_start_val (fst a) = 0"
      "sf3_err_count_val (fst a) = 0"
      "length (WriteBuffer (fst a)) = 260"
      "length (ReadBuffer (fst a)) = 260"
    using start_run [of ?w 0 8 TEST_PATTERN_D ?drv 0 "(0, 0)" "(0, 0)", OF _ sel, folded a_def]
    by (simp_all add: set_pattern_def Let_def sf3_test_pattern_startval_d_def
          sf3_test_pattern_incrval_d_def init_fields)
  show "operatingMode (fst pattern_D_erase_entry) = ST_CMD_ERASE_START"
  "operatingModePrev (fst pattern_D_erase_entry) = ST_CMD_ERASE_START"
  "sf3_i_val (fst pattern_D_erase_entry) = 0"
  "sf3_err_count_val (fst pattern_D_erase_entry) = 0"
  "length (WriteBuffer (fst pattern_D_erase_entry)) = 260"
  "length (ReadBuffer (fst pattern_D_erase_entry)) = 260"
  "sf3_pattern_start_val (fst pattern_D_erase_entry) = 0x18"
  "sf3_pattern_incr_val (fst pattern_D_erase_entry) = 0x17"
  "sf3_test_pattern_selected (fst pattern_D_erase_entry) = TEST_PATTERN_D"
  "sf3_addr_start_val (fst pattern_D_erase_entry) = 0"
    unfolding r
    using wait_run [of a "replicate 151 (0, 0)" ?drv] sa by (simp_all add: pass_cfg_def)
qed

section \<open>The error count only grows\<close>

lemma read_body_count:
  assumes "unat (sf3_err_count_val (fst w)) + SF3_PAGE_SIZE drv < 2 ^ 32"
  shows "unat (sf3_err_count_val (fst w)) \<le> unat (sf3_err_count_val (fst (cmd_read_start_body drv w)))
       \<and> unat (sf3_err_count_val (fst (cmd_read_start_body drv w)))
           \<le> unat (sf3_err_count_val (fst w)) + SF3_PAGE_SIZE drv"
proof -
  define M where "M = length (filter
           (\<lambda>i. ReadBuffer (fst (cmd_read_start_body drv w)) ! (i + SF3_READ_MIN_EXTRA_BYTES drv)
                  \<noteq> sf3_pattern_start_val (fst w) + of_nat i * sf3_pattern_incr_val (fst w))
           [0..<SF3_PAGE_SIZE drv])"
  have "M \<le> length [0..<SF3_PAGE_SIZE drv]" unfolding M_def by (rule length_filter_le)
  then have M: "M \<le> SF3_PAGE_SIZE drv" by simp
  have e: "sf3_err_count_val (fst (cmd_read_start_body drv w)) = sf3_err_count_val (fst w) + of_nat M"
    unfolding M_def by (rule read_body_err)
  have "unat (sf3_err_count_val (fst w) + of_nat M) = unat (sf3_err_count_val (fst w)) + M"
    by (rule unat_plus_of_nat) (use assms M in simp)
  then show ?thesis using M by (simp add: e)
qed

lemma read_batch_count:
  assumes "unat (sf3_err_count_val (fst w)) + n * SF3_PAGE_SIZE drv < 2 ^ 32"
  shows "unat (sf3_err_count_val (fst w))
           \<le> unat (sf3_err_count_val (fst ((cmd_read_start_body drv ^^ n) w)))
       \<and> unat (sf3_err_count_val (fst ((cmd_read_start_body drv ^^ n) w)))
           \<le> unat (sf3_err_count_val (fst w)) + n * SF3_PAGE_SIZE drv"
  using assms
proof (induction n)
  case 0
  then show ?case by simp
next
  case (Suc n)
  let ?v = "(cmd_read_start_body drv ^^ n) w"
  have IH: "unat (sf3_err_count_val (fst w)) \<le> unat (sf3_err_count_val (fst ?v))"
           "unat (sf3_err_count_val (fst ?v)) \<le> unat (sf3_err_count_val (fst w)) + n * SF3_PAGE_SIZE drv"
    using Suc by simp_all
  have "unat (sf3_err_count_val (fst ?v)) + SF3_PAGE_SIZE drv < 2 ^ 32"
    using IH(2) Suc.prems by simp
  from read_body_count [OF this] show ?case using IH by simp
qed

lemma region_index:
  assumes "unat (a::u32) mod 1048576 = 0" "a \<le> 32505856"
  shows "unat a div 1048576 \<le> 31"
proof -
  have "unat a \<le> 32505856" using assms(2) by (simp add: word_le_nat_alt)
  then have "unat a div 1048576 \<le> 32505856 div 1048576" by (rule div_le_mono)
  then show ?thesis by simp
qed

lemma pages_compared_le:
  assumes r: "reachable drv w"
  shows "pages_compared (fst w) \<le> 131072"
proof -
  have "unat (sf3_addr_start_val (fst w)) div 1048576 \<le> 31"
    using region_start_reachable [OF r] by (simp add: region_index)
  moreover have "operatingMode (fst w) = ST_CMD_READ_START \<longrightarrow> unat (sf3_i_val (fst w)) < 4096"
    using sub_op_bounded_reachable [OF r] by (auto simp add: sub_op_bounded_def)
  ultimately show ?thesis
    by (cases "operatingMode (fst w)") (simp_all add: pages_compared_def)
qed


lemma pages_compared_cycle:
  assumes reg: "unat (sf3_addr_start_val (fst w)) mod 1048576 = 0"
               "sf3_addr_start_val (fst w) \<le> 32505856"
      and early: "sf3_start_at_zero (fst w) \<longrightarrow>
          operatingMode (fst w) = ST_WAIT_BUTTON_DEP \<or> operatingMode (fst w) = ST_WAIT_BUTTON_REL
          \<or> operatingMode (fst w) = ST_SET_PATTERN \<or> operatingMode (fst w) = ST_SET_START_ADDR
          \<or> operatingMode (fst w) = OPERATING_MODE_NONE"
      and m: "operatingMode (fst w) \<noteq> ST_CMD_READ_START"
  shows "pages_compared (fst w) \<le> pages_compared (fst (Experiment_prvSf3Task_cycle drv inp w))
       \<and> (sf3_start_at_zero (fst (Experiment_prvSf3Task_cycle drv inp w)) \<longrightarrow>
          operatingMode (fst (Experiment_prvSf3Task_cycle drv inp w)) = ST_WAIT_BUTTON_DEP
          \<or> operatingMode (fst (Experiment_prvSf3Task_cycle drv inp w)) = ST_WAIT_BUTTON_REL
          \<or> operatingMode (fst (Experiment_prvSf3Task_cycle drv inp w)) = ST_SET_PATTERN
          \<or> operatingMode (fst (Experiment_prvSf3Task_cycle drv inp w)) = ST_SET_START_ADDR
          \<or> operatingMode (fst (Experiment_prvSf3Task_cycle drv inp w)) = OPERATING_MODE_NONE)"
proof (cases "operatingMode (fst w)")
  case ST_WAIT_BUTTON_DEP
  then show ?thesis
    by (simp add: cycle_unfold FSM_cases wait_button_dep_def Let_def pages_compared_def)
next
  case ST_WAIT_BUTTON_REL
  then show ?thesis
    by (simp add: cycle_unfold FSM_cases pages_compared_def)
next
  case ST_SET_PATTERN
  then show ?thesis
    by (simp add: cycle_unfold FSM_cases set_pattern_def Let_def pages_compared_def
          split: test_pattern.split)
next
  case ST_SET_START_ADDR
  show ?thesis
  proof (cases "sf3_start_at_zero (fst w)")
    case True
    then show ?thesis using ST_SET_START_ADDR
      by (simp add: cycle_unfold FSM_cases set_start_addr_def Let_def pages_compared_def)
  next
    case False
    show ?thesis
    proof (cases "sf3_addr_start_val (fst w) < last_starting_byte_addr")
      case True
      then have lt: "sf3_addr_start_val (fst w) < 32505856" by (simp add: consts_num)
      have u: "unat (sf3_addr_start_val (fst w) + 1048576)
                 = unat (sf3_addr_start_val (fst w)) + 1048576"
        using region_step [OF reg(1) lt] by simp
      have d: "(unat (sf3_addr_start_val (fst w)) + 1048576) div 1048576
                 = unat (sf3_addr_start_val (fst w)) div 1048576 + 1"
        by simp
      show ?thesis using ST_SET_START_ADDR False True u d
        by (simp add: cycle_unfold FSM_cases set_start_addr_def Let_def pages_compared_def consts_num)
    next
      case nlt: False
      then show ?thesis using ST_SET_START_ADDR False
        by (simp add: cycle_unfold FSM_cases set_start_addr_def Let_def pages_compared_def)
    qed
  qed
next
  case ST_SET_START_WAIT
  then show ?thesis using early
    by (simp add: cycle_unfold FSM_cases pages_compared_def)
next
  case ST_CMD_ERASE_START
  then show ?thesis using early
    by (simp add: cycle_unfold FSM_cases pages_compared_def cmd_erase_start_next)
next
  case ST_CMD_ERASE_DONE
  then show ?thesis using early
    by (simp add: cycle_unfold FSM_cases pages_compared_def cmd_done_def Let_def)
next
  case ST_CMD_PAGE_START
  then show ?thesis using early
    by (simp add: cycle_unfold FSM_cases pages_compared_def page_batch_mode)
next
  case ST_CMD_PAGE_DONE
  then show ?thesis using early
    by (simp add: cycle_unfold FSM_cases pages_compared_def cmd_done_def Let_def)
next
  case ST_CMD_READ_START
  then show ?thesis using m by simp
next
  case ST_CMD_READ_DONE
  then show ?thesis using early
    by (simp add: cycle_unfold FSM_cases pages_compared_def cmd_done_def Let_def)
next
  case ST_DISPLAY_FINAL
  then show ?thesis using early
    by (simp add: cycle_unfold FSM_cases pages_compared_def display_final_def Let_def)
next
  case OPERATING_MODE_NONE
  then show ?thesis
    by (simp add: cycle_unfold FSM_cases pages_compared_def)
qed

lemma read_cycle_count:
  assumes m: "operatingMode (fst w) = ST_CMD_READ_START"
      and nw: "unat (sf3_err_count_val (fst w)) + 32 * SF3_PAGE_SIZE drv < 2 ^ 32"
  shows "unat (sf3_err_count_val (fst w))
           \<le> unat (sf3_err_count_val (fst (Experiment_prvSf3Task_cycle drv inp w)))
       \<and> unat (sf3_err_count_val (fst (Experiment_prvSf3Task_cycle drv inp w)))
           \<le> unat (sf3_err_count_val (fst w)) + 32 * SF3_PAGE_SIZE drv"
proof -
  let ?w1 = "(Experiment_readUserInputs (fst inp) (snd inp) (fst w), fst (snd w),
              snd (snd w) @ Experiment_updateClsDisplayAndTerminal (fst w))"
  have "unat (sf3_err_count_val (fst ?w1)) + 32 * SF3_PAGE_SIZE drv < 2 ^ 32"
    using nw by simp
  from read_batch_count [OF this] show ?thesis
    using m by (simp add: cycle_unfold FSM_cases)
qed

lemma count_bounded_cycle:
  assumes r: "reachable drv w"
      and page: "SF3_PAGE_SIZE drv \<le> 256"
      and inv: "count_bounded (SF3_PAGE_SIZE drv) (fst w)"
  shows "count_bounded (SF3_PAGE_SIZE drv) (fst (Experiment_prvSf3Task_cycle drv inp w))
       \<and> unat (sf3_err_count_val (fst w))
           \<le> unat (sf3_err_count_val (fst (Experiment_prvSf3Task_cycle drv inp w)))"
proof -
  let ?P = "SF3_PAGE_SIZE drv"
  let ?w' = "Experiment_prvSf3Task_cycle drv inp w"
  note reg = region_start_reachable [OF r]
  have sub: "sub_op_bounded (fst w)" using sub_op_bounded_reachable [OF r] .
  have b: "unat (sf3_err_count_val (fst w)) \<le> ?P * pages_compared (fst w)"
    and early: "sf3_start_at_zero (fst w) \<longrightarrow>
          operatingMode (fst w) = ST_WAIT_BUTTON_DEP \<or> operatingMode (fst w) = ST_WAIT_BUTTON_REL
          \<or> operatingMode (fst w) = ST_SET_PATTERN \<or> operatingMode (fst w) = ST_SET_START_ADDR
          \<or> operatingMode (fst w) = OPERATING_MODE_NONE"
    using inv by (simp_all add: count_bounded_def)
  show ?thesis
  proof (cases "operatingMode (fst w) = ST_CMD_READ_START")
    case False
    note pc = pages_compared_cycle [OF conjunct1 [OF reg] conjunct2 [OF reg] early False, of drv inp]
    have e: "sf3_err_count_val (fst ?w') = sf3_err_count_val (fst w)"
      using False by (rule err_kept_cycle)
    have "?P * pages_compared (fst w) \<le> ?P * pages_compared (fst ?w')"
      using pc by (intro mult_le_mono2) simp
    with b have "unat (sf3_err_count_val (fst w)) \<le> ?P * pages_compared (fst ?w')"
      by (rule order_trans)
    then show ?thesis using pc e by (simp add: count_bounded_def)
  next
    case True
    have nz: "\<not> sf3_start_at_zero (fst w)" using early True by auto
    have i: "unat (sf3_i_val (fst w)) < 4096" "32 dvd unat (sf3_i_val (fst w))"
      using sub True by (simp_all add: sub_op_bounded_def)
    then have le: "unat (sf3_i_val (fst w)) + 32 \<le> 4096" by presburger
    have pl: "pages_compared (fst w) \<le> 131072" by (rule pages_compared_le [OF r])
    have "?P * pages_compared (fst w) \<le> 256 * 131072"
      using page pl by (rule mult_le_mono)
    then have nw: "unat (sf3_err_count_val (fst w)) + 32 * ?P < 2 ^ 32"
      using b page by simp
    note c = read_cycle_count [OF True nw, of inp]
    have u: "unat (sf3_i_val (fst w) + 32) = unat (sf3_i_val (fst w)) + 32"
      using unat_plus_of_nat [of "sf3_i_val (fst w)" 32] le by simp
    have m': "operatingMode (fst ?w')
           = (if unat (sf3_i_val (fst w)) + 32 < 4096 then ST_CMD_READ_START else ST_CMD_READ_DONE)"
      using True u u32_add_less_4096 [of "sf3_i_val (fst w)" 32] le
      by (simp add: cycle_unfold FSM_cases read_batch_mode consts_num)
    have f: "unat (sf3_i_val (fst ?w')) = unat (sf3_i_val (fst w)) + 32"
            "sf3_addr_start_val (fst ?w') = sf3_addr_start_val (fst w)"
            "sf3_start_at_zero (fst ?w') = sf3_start_at_zero (fst w)"
      using True u by (simp_all add: cycle_unfold FSM_cases)
    have p': "pages_compared (fst ?w') = pages_compared (fst w) + 32"
    proof (cases "unat (sf3_i_val (fst w)) + 32 < 4096")
      case lt: True
      then show ?thesis using True m' f nz by (simp add: pages_compared_def)
    next
      case False
      then have "unat (sf3_i_val (fst w)) = 4064" using le by simp
      then show ?thesis using True m' f nz False by (simp add: pages_compared_def)
    qed
    have "?P * pages_compared (fst ?w') = ?P * pages_compared (fst w) + 32 * ?P"
      unfolding p' by (simp add: algebra_simps)
    then have "unat (sf3_err_count_val (fst ?w')) \<le> ?P * pages_compared (fst ?w')"
      using c b by simp
    then show ?thesis using c nz f(3) by (simp add: count_bounded_def)
  qed
qed

lemma count_bounded_reachable:
  assumes "reachable drv w" and "SF3_PAGE_SIZE drv \<le> 256"
  shows "count_bounded (SF3_PAGE_SIZE drv) (fst w)"
  using assms
proof (induction rule: reachable.induct)
  case (reachable_init dev)
  then show ?case by (simp add: count_bounded_def pages_compared_def init_fields)
next
  case (reachable_cycle w inp)
  then show ?case using count_bounded_cycle [of drv w inp] by simp
qed

section \<open>The loop that clears the read buffer\<close>

lemma clear_checked_append:
  "\<forall>i\<in>set xs. i + extra < length buf \<Longrightarrow>
   clear_ReadBuffer_checked extra (xs @ rest) buf
     = clear_ReadBuffer_checked extra rest (fold (\<lambda>i b. b[i + extra := 0]) xs buf)"
  by (induction xs arbitrary: buf) (simp_all add: array_store_checked_def)

lemma length_fold_list_update:
  "length (fold (\<lambda>i b. b[i + extra := (0::u8)]) xs buf) = length buf"
  by (induction xs arbitrary: buf) simp_all

text \<open>
  C3. The clearing loop of \<open>ST_CMD_READ_START\<close> runs its index up to
  \<open>SF3_PAGE_SIZE + SF3_READ_MIN_EXTRA_BYTES\<close> and stores at the index plus
  \<open>SF3_READ_MIN_EXTRA_BYTES\<close>. Whenever the read buffer has its declared length and the
  number of extra bytes is not zero, the store for \<open>iByte = SF3_PAGE_SIZE\<close> is at the
  index equal to the length of the array: with checked stores the loop ends in the
  out-of-bounds branch. The claim that every store stays in bounds does not hold of
  the code.
\<close>

theorem C3_clear_loop_leaves_ReadBuffer:
  assumes "0 < extra" and "length buf = page + extra"
  shows "clear_ReadBuffer_checked extra [0 ..< page + extra] buf
           = Inl (OutOfBounds (page + extra) (page + extra))"
proof -
  have "[0 ..< page + extra] = [0 ..< page] @ [page ..< page + extra]"
    by (rule upt_add_eq_append) simp
  moreover have "[page ..< page + extra] = page # [Suc page ..< page + extra]"
    using assms(1) by (simp add: upt_conv_Cons)
  ultimately have split: "[0 ..< page + extra] = [0 ..< page] @ page # [Suc page ..< page + extra]"
    by simp
  show ?thesis
    unfolding split using assms
    by (subst clear_checked_append) (simp_all add: length_fold_list_update array_store_checked_def)
qed

theorem C3_clear_loop_leaves_ReadBuffer_witness:
  "(0::nat) < 4 \<and> length (replicate 260 (0::u8)) = 256 + 4
   \<and> clear_ReadBuffer_checked 4 [0 ..< 256 + 4] (replicate 260 0) = Inl (OutOfBounds 260 260)"
  using C3_clear_loop_leaves_ReadBuffer [of 4 "replicate 260 0" 256] by simp

section \<open>Selection of the pattern\<close>

text \<open>
  C5, as the code has it. In \<open>ST_WAIT_BUTTON_DEP\<close>, with the start address below the last
  one, an input selects its pattern only when the word read from the buttons is exactly
  the mask of that one button, or the word read from the switches is exactly the mask
  of that one switch. Among the inputs that match in this way the first in the order
  A, B, C, D wins, and the step goes to \<open>ST_WAIT_BUTTON_REL\<close>. When no word matches
  exactly, the mode and the selected pattern stay as they are.
\<close>

theorem C5_first_exact_match_wins:
  assumes "operatingMode e = ST_WAIT_BUTTON_DEP"
      and "sf3_addr_start_val e < last_starting_byte_addr"
      and "Experiment_operateFSM drv (Experiment_readUserInputs switches buttons e, d, q) = (e', d', q')"
  shows "(operatingMode e', sf3_test_pattern_selected e') =
      (if buttons = 1 \<or> switches = 1 then (ST_WAIT_BUTTON_REL, TEST_PATTERN_A)
       else if buttons = 2 \<or> switches = 2 then (ST_WAIT_BUTTON_REL, TEST_PATTERN_B)
       else if buttons = 4 \<or> switches = 4 then (ST_WAIT_BUTTON_REL, TEST_PATTERN_C)
       else if buttons = 8 \<or> switches = 8 then (ST_WAIT_BUTTON_REL, TEST_PATTERN_D)
       else (ST_WAIT_BUTTON_DEP, sf3_test_pattern_selected e))"
  using assms
  by (auto simp: Experiment_operateFSM_def Experiment_readUserInputs_def wait_button_dep_def
      mask_defs Let_def)

theorem C5_first_exact_match_wins_witness:
  "operatingMode (Experiment_InitData (experiData failing_sf3)) = ST_WAIT_BUTTON_DEP
   \<and> sf3_addr_start_val (Experiment_InitData (experiData failing_sf3)) < last_starting_byte_addr
   \<and> (operatingMode (fst (Experiment_operateFSM failing_sf3
          (Experiment_readUserInputs 1 2 (Experiment_InitData (experiData failing_sf3)), (), []))),
        sf3_test_pattern_selected (fst (Experiment_operateFSM failing_sf3
          (Experiment_readUserInputs 1 2 (Experiment_InitData (experiData failing_sf3)), (), []))))
       = (ST_WAIT_BUTTON_REL, TEST_PATTERN_A)"
proof -
  let ?e = "Experiment_InitData (experiData failing_sf3)"
  let ?r = "Experiment_operateFSM failing_sf3 (Experiment_readUserInputs 1 2 ?e, (), [])"
  have m: "operatingMode ?e = ST_WAIT_BUTTON_DEP"
    by (simp add: Experiment_InitData_def)
  have a: "sf3_addr_start_val ?e < last_starting_byte_addr"
    by (simp add: Experiment_InitData_def consts_num)
  have r: "?r = (fst ?r, fst (snd ?r), snd (snd ?r))"
    by (simp add: prod_eq_iff)
  show ?thesis
    using m a C5_first_exact_match_wins [OF m a r] by simp
qed

text \<open>
  The claim of C5 as it is written fails on the code in two ways. With the first two
  buttons pressed together (the button word is 3) and no switch set, no comparison
  holds: the step neither selects pattern A nor leaves \<open>ST_WAIT_BUTTON_DEP\<close>. With the
  second button alone (the button word is 2) and the first two switches set (the switch
  word is 3), the input of pattern A is active, and the step selects pattern B.
\<close>

theorem C5_lowest_active_input_counterexample:
  "operatingMode (fst (Experiment_operateFSM failing_sf3
      (Experiment_readUserInputs 0 3 (Experiment_InitData (experiData failing_sf3)), (), [])))
     = ST_WAIT_BUTTON_DEP
   \<and> sf3_test_pattern_selected (fst (Experiment_operateFSM failing_sf3
      (Experiment_readUserInputs 0 3 (Experiment_InitData (experiData failing_sf3)), (), [])))
     = TEST_PATTERN_NONE
   \<and> sf3_test_pattern_selected (fst (Experiment_operateFSM failing_sf3
      (Experiment_readUserInputs 3 2 (Experiment_InitData (experiData failing_sf3)), (), [])))
     = TEST_PATTERN_B"
  by (simp add: Experiment_operateFSM_def Experiment_readUserInputs_def wait_button_dep_def
      Experiment_InitData_def mask_defs consts_num Let_def)

section \<open>A pass on the fault-free flash\<close>

lemma split_1412:
  assumes "length (inps :: 'a list) = 1412"
  shows "\<exists>i1 i2 i3 i4 i5 i6. inps = i1 @ i2 @ i3 @ i4 @ i5 @ i6 \<and> length i1 = 256 \<and> length i2 = 300
           \<and> length i3 = 128 \<and> length i4 = 300 \<and> length i5 = 128 \<and> length i6 = 300"
proof (intro exI conjI)
  let ?d1 = "drop 256 inps"
  let ?d2 = "drop 300 ?d1"
  let ?d3 = "drop 128 ?d2"
  let ?d4 = "drop 300 ?d3"
  let ?d5 = "drop 128 ?d4"
  show "inps = take 256 inps @ take 300 ?d1 @ take 128 ?d2 @ take 300 ?d3 @ take 128 ?d4 @ ?d5"
    by (simp only: append_take_drop_id)
qed (use assms in simp_all)

lemma fault_free_pass_keeps_count:
  assumes "page \<le> 256"
      and "operatingMode e = ST_CMD_ERASE_START"
      and "operatingModePrev e = ST_CMD_ERASE_START"
      and "sf3_i_val e = 0"
      and "length (WriteBuffer e) = page + wx"
      and "length (ReadBuffer e) = page + rx"
      and "length inps = 1412"
  shows "operatingMode (fst (run (ideal_sf3 page wx rx) (butlast inps) (e, mem, q))) = ST_CMD_READ_DONE
       \<and> operatingMode (fst (run (ideal_sf3 page wx rx) inps (e, mem, q))) = ST_DISPLAY_FINAL
       \<and> sf3_err_count_val (fst (run (ideal_sf3 page wx rx) inps (e, mem, q))) = sf3_err_count_val e
       \<and> sf3_test_pass (fst (run (ideal_sf3 page wx rx) (inps @ [inp]) (e, mem, q)))
           = (sf3_err_count_val e = 0)"
proof -
  let ?drv = "ideal_sf3 page wx rx"
  obtain i1 i2 i3 i4 i5 i6 where
    sp: "inps = i1 @ i2 @ i3 @ i4 @ i5 @ i6" and
    l: "length i1 = 256" "length i2 = 300" "length i3 = 128" "length i4 = 300" "length i5 = 128"
       "length i6 = 300"
    using split_1412 [OF assms(7)] by blast
  define w5 where "w5 = run ?drv (i1 @ i2 @ i3 @ i4 @ i5) (e, mem, q)"
  have s5: "operatingMode (fst w5) = ST_CMD_READ_DONE" "operatingModePrev (fst w5) = ST_CMD_READ_DONE"
           "unat (cnt_t (fst w5)) = 0" "sf3_err_count_val (fst w5) = sf3_err_count_val e"
    using ideal_pass_read_done [of page "(e, mem, q)" wx rx i1 i2 i3 i4 i5, folded w5_def] assms(1-6) l
    by simp_all
  have ne: "i6 \<noteq> []" using l(6) by auto
  have r: "run ?drv inps (e, mem, q) = run ?drv i6 w5"
          "run ?drv (butlast inps) (e, mem, q) = run ?drv (butlast i6) w5"
    using ne by (simp_all add: sp w5_def run_append butlast_append)
  define w6 where "w6 = run ?drv i6 w5"
  have s6: "operatingMode (fst w6) = ST_DISPLAY_FINAL" "operatingModePrev (fst w6) = ST_DISPLAY_FINAL"
           "unat (cnt_t (fst w6)) = 0" "sf3_err_count_val (fst w6) = sf3_err_count_val e"
    using done_run [of ST_CMD_READ_DONE ?drv ST_DISPLAY_FINAL w5 i6, OF FSM_cases(11), folded w6_def]
      s5 l(6)
    by auto
  have s6': "operatingMode (fst (run ?drv (butlast i6) w5)) = ST_CMD_READ_DONE"
    using done_run [of ST_CMD_READ_DONE ?drv ST_DISPLAY_FINAL w5 "butlast i6", OF FSM_cases(11)]
      s5 l(6)
    by auto
  have s7: "sf3_test_pass (fst (Experiment_prvSf3Task_cycle ?drv inp w6)) = (sf3_err_count_val e = 0)"
    using final_cycle(5) [of w6 ?drv inp] s6 by simp
  show ?thesis
    using s6 s6' s7 by (simp add: r run_snoc w6_def [symmetric])
qed

text \<open>
  C1. One full pass on the fault-free flash ends with no error counted.  The flash is
  fault-free from the start of the task: the states are those that the task reaches from
  \<open>Experiment_InitData\<close> with the fault-free flash as its driver, whatever the buttons and
  switches have done and whatever the memory held at first.  In every such state the error
  count is zero (the invariant \<open>fault_free_reachable\<close>), so it is zero when a pass begins,
  though no step of the state machine resets it.  From every such state at the start of the
  erase phase (\<open>ST_CMD_ERASE_START\<close> with the sub-operation index at zero), whatever the
  inputs, the task is in \<open>ST_CMD_READ_DONE\<close> after 1411 cycles, enters \<open>ST_DISPLAY_FINAL\<close>
  with the 1412th cycle (256 erase cycles, 128 program cycles, 128 read cycles and three
  waits of 300 cycles), the error count is zero there, and the next step sets
  \<open>sf3_test_pass\<close>.  Every region and every pattern has such a start: for each of the 32
  regions \<open>k\<close> and each of the four patterns \<open>p\<close> the inputs \<open>pass_start k p\<close> lead to the
  start of the erase phase with start address \<open>k * per_iteration_byte_count\<close> and pattern
  \<open>p\<close>, and the pass that follows ends in the same way.  The page has at most 256 bytes,
  the distance between two page addresses.
\<close>

theorem C1_fault_free_pass_has_no_errors:
  assumes "page \<le> 256" and "length inps = 1412"
  shows "(reachable (ideal_sf3 page wx rx) (e, mem, q)
          \<and> operatingMode e = ST_CMD_ERASE_START \<and> sf3_i_val e = 0 \<longrightarrow>
            sf3_err_count_val e = 0
          \<and> operatingMode (fst (run (ideal_sf3 page wx rx) (butlast inps) (e, mem, q))) = ST_CMD_READ_DONE
          \<and> operatingMode (fst (run (ideal_sf3 page wx rx) inps (e, mem, q))) = ST_DISPLAY_FINAL
          \<and> sf3_err_count_val (fst (run (ideal_sf3 page wx rx) inps (e, mem, q))) = 0
          \<and> sf3_test_pass (fst (run (ideal_sf3 page wx rx) (inps @ [inp]) (e, mem, q))))
       \<and> (k < 32 \<and> p \<noteq> TEST_PATTERN_NONE \<longrightarrow>
            operatingMode (fst (run (ideal_sf3 page wx rx) (pass_start k p)
              (Experiment_InitData (experiData (ideal_sf3 page wx rx)), mem0, []))) = ST_CMD_ERASE_START
          \<and> sf3_addr_start_val (fst (run (ideal_sf3 page wx rx) (pass_start k p)
              (Experiment_InitData (experiData (ideal_sf3 page wx rx)), mem0, [])))
               = of_nat k * per_iteration_byte_count
          \<and> sf3_test_pattern_selected (fst (run (ideal_sf3 page wx rx) (pass_start k p)
              (Experiment_InitData (experiData (ideal_sf3 page wx rx)), mem0, []))) = p
          \<and> operatingMode (fst (run (ideal_sf3 page wx rx) (pass_start k p @ inps)
              (Experiment_InitData (experiData (ideal_sf3 page wx rx)), mem0, []))) = ST_DISPLAY_FINAL
          \<and> sf3_err_count_val (fst (run (ideal_sf3 page wx rx) (pass_start k p @ inps)
              (Experiment_InitData (experiData (ideal_sf3 page wx rx)), mem0, []))) = 0
          \<and> sf3_test_pass (fst (run (ideal_sf3 page wx rx) (pass_start k p @ inps @ [inp])
              (Experiment_InitData (experiData (ideal_sf3 page wx rx)), mem0, []))))"
proof -
  let ?drv = "ideal_sf3 page wx rx"
  have A: "sf3_err_count_val (fst w) = 0
          \<and> operatingMode (fst (run ?drv (butlast inps) w)) = ST_CMD_READ_DONE
          \<and> operatingMode (fst (run ?drv inps w)) = ST_DISPLAY_FINAL
          \<and> sf3_err_count_val (fst (run ?drv inps w)) = 0
          \<and> sf3_test_pass (fst (run ?drv (inps @ [inp]) w))"
    if r: "reachable ?drv w" and m: "operatingMode (fst w) = ST_CMD_ERASE_START"
      and i: "sf3_i_val (fst w) = 0" for w
  proof -
    have z: "sf3_err_count_val (fst w) = 0"
      by (rule fault_free_count_zero [OF r assms(1)])
    have pv: "operatingModePrev (fst w) = ST_CMD_ERASE_START"
      using reachable_prev [OF r] m by simp
    have len: "length (WriteBuffer (fst w)) = page + wx" "length (ReadBuffer (fst w)) = page + rx"
      using buffer_lengths_reachable [OF r] by simp_all
    have c: "(fst w, fst (snd w), snd (snd w)) = w" by simp
    show ?thesis
      using fault_free_pass_keeps_count
              [OF assms(1) m pv i len assms(2), of "fst (snd w)" "snd (snd w)" inp, unfolded c] z
      by simp
  qed
  have B: "operatingMode (fst (run ?drv (pass_start k p)
              (Experiment_InitData (experiData ?drv), mem0, []))) = ST_CMD_ERASE_START
          \<and> sf3_addr_start_val (fst (run ?drv (pass_start k p)
              (Experiment_InitData (experiData ?drv), mem0, []))) = of_nat k * per_iteration_byte_count
          \<and> sf3_test_pattern_selected (fst (run ?drv (pass_start k p)
              (Experiment_InitData (experiData ?drv), mem0, []))) = p
          \<and> operatingMode (fst (run ?drv (pass_start k p @ inps)
              (Experiment_InitData (experiData ?drv), mem0, []))) = ST_DISPLAY_FINAL
          \<and> sf3_err_count_val (fst (run ?drv (pass_start k p @ inps)
              (Experiment_InitData (experiData ?drv), mem0, []))) = 0
          \<and> sf3_test_pass (fst (run ?drv (pass_start k p @ inps @ [inp])
              (Experiment_InitData (experiData ?drv), mem0, [])))"
    if k: "k < 32" and p: "p \<noteq> TEST_PATTERN_NONE"
  proof -
    define W where "W = run ?drv (pass_start k p) (Experiment_InitData (experiData ?drv), mem0, [])"
    note s = pass_start_reached [OF k p, of ?drv mem0, folded W_def]
    have a: "sf3_err_count_val (fst W) = 0
          \<and> operatingMode (fst (run ?drv (butlast inps) W)) = ST_CMD_READ_DONE
          \<and> operatingMode (fst (run ?drv inps W)) = ST_DISPLAY_FINAL
          \<and> sf3_err_count_val (fst (run ?drv inps W)) = 0
          \<and> sf3_test_pass (fst (run ?drv (inps @ [inp]) W))"
      by (rule A) (use s in simp_all)
    show ?thesis
      unfolding run_append W_def [symmetric] using s a by (simp add: run_append)
  qed
  show ?thesis using A [of "(e, mem, q)"] B by simp
qed

theorem C1_fault_free_pass_has_no_errors_witness:
  "operatingMode (fst (run (ideal_sf3 256 4 4) (pass_start 1 TEST_PATTERN_D)
      (Experiment_InitData (experiData (ideal_sf3 256 4 4)), (\<lambda>a. 0), []))) = ST_CMD_ERASE_START
   \<and> sf3_addr_start_val (fst (run (ideal_sf3 256 4 4) (pass_start 1 TEST_PATTERN_D)
      (Experiment_InitData (experiData (ideal_sf3 256 4 4)), (\<lambda>a. 0), []))) = 1048576
   \<and> sf3_test_pattern_selected (fst (run (ideal_sf3 256 4 4) (pass_start 1 TEST_PATTERN_D)
      (Experiment_InitData (experiData (ideal_sf3 256 4 4)), (\<lambda>a. 0), []))) = TEST_PATTERN_D
   \<and> operatingMode (fst (run (ideal_sf3 256 4 4) (pass_start 1 TEST_PATTERN_D @ replicate 1412 (0, 0))
      (Experiment_InitData (experiData (ideal_sf3 256 4 4)), (\<lambda>a. 0), []))) = ST_DISPLAY_FINAL
   \<and> sf3_err_count_val (fst (run (ideal_sf3 256 4 4) (pass_start 1 TEST_PATTERN_D @ replicate 1412 (0, 0))
      (Experiment_InitData (experiData (ideal_sf3 256 4 4)), (\<lambda>a. 0), []))) = 0
   \<and> sf3_test_pass (fst (run (ideal_sf3 256 4 4)
      (pass_start 1 TEST_PATTERN_D @ replicate 1412 (0, 0) @ [(0, 0)])
      (Experiment_InitData (experiData (ideal_sf3 256 4 4)), (\<lambda>a. 0), [])))
   \<and> operatingMode (fst pattern_D_erase_entry) = ST_CMD_ERASE_START
   \<and> sf3_i_val (fst pattern_D_erase_entry) = 0
   \<and> operatingMode (fst (run (ideal_sf3 256 4 4) (replicate 1412 (0, 0)) pattern_D_erase_entry))
       = ST_DISPLAY_FINAL
   \<and> sf3_err_count_val (fst (run (ideal_sf3 256 4 4) (replicate 1412 (0, 0)) pattern_D_erase_entry)) = 0
   \<and> sf3_test_pass (fst (run (ideal_sf3 256 4 4) (replicate 1412 (0, 0) @ [(0, 0)]) pattern_D_erase_entry))"
proof -
  have r: "reachable (ideal_sf3 256 4 4)
             (fst pattern_D_erase_entry, fst (snd pattern_D_erase_entry),
              snd (snd pattern_D_erase_entry))"
    unfolding pattern_D_erase_entry_def
    by (simp only: prod.collapse) (rule reachable_run [OF reachable_init])
  show ?thesis
    using C1_fault_free_pass_has_no_errors
            [of 256 "replicate 1412 (0, 0)" 4 4 "fst pattern_D_erase_entry"
                "fst (snd pattern_D_erase_entry)" "snd (snd pattern_D_erase_entry)" "(0, 0)"
                1 TEST_PATTERN_D "\<lambda>a. 0"] r
    by (simp add: pattern_D_erase_entry_fields consts_num)
qed

section \<open>After the last region\<close>

lemma idle_cycle:
  assumes "operatingMode (fst w) = ST_WAIT_BUTTON_DEP"
      and "\<not> sf3_addr_start_val (fst w) < last_starting_byte_addr"
  shows "operatingMode (fst (Experiment_prvSf3Task_cycle drv inp w)) = ST_WAIT_BUTTON_DEP"
    and "sf3_test_done (fst (Experiment_prvSf3Task_cycle drv inp w))"
    and "sf3_addr_start_val (fst (Experiment_prvSf3Task_cycle drv inp w)) = sf3_addr_start_val (fst w)"
    and "sf3_start_at_zero (fst (Experiment_prvSf3Task_cycle drv inp w)) = sf3_start_at_zero (fst w)"
    and "sf3_err_count_val (fst (Experiment_prvSf3Task_cycle drv inp w)) = sf3_err_count_val (fst w)"
    and "sf3_test_pass (fst (Experiment_prvSf3Task_cycle drv inp w)) = sf3_test_pass (fst w)"
    and "fst (snd (Experiment_prvSf3Task_cycle drv inp w)) = fst (snd w)"
  using assms by (simp_all add: cycle_unfold FSM_cases wait_button_dep_def)

text \<open>
  C6, as the code has it. Once the task is back in \<open>ST_WAIT_BUTTON_DEP\<close> with the start
  address at the last region start (the 32nd pass has ended), every further cycle,
  whatever the buttons and switches read, leaves the mode in \<open>ST_WAIT_BUTTON_DEP\<close>, has
  \<open>sf3_test_done\<close> set and leaves the start address where it is.
\<close>

theorem C6_idle_after_last_region:
  assumes "operatingMode e = ST_WAIT_BUTTON_DEP"
      and "sf3_addr_start_val e = last_starting_byte_addr"
      and "\<not> sf3_start_at_zero e"
      and "inps \<noteq> []"
  shows "operatingMode (fst (run drv inps (e, d, q))) = ST_WAIT_BUTTON_DEP
       \<and> sf3_test_done (fst (run drv inps (e, d, q)))
       \<and> sf3_addr_start_val (fst (run drv inps (e, d, q))) = last_starting_byte_addr
       \<and> \<not> sf3_start_at_zero (fst (run drv inps (e, d, q)))"
  using assms(4)
proof (induction inps rule: rev_induct)
  case Nil
  then show ?case by simp
next
  case (snoc x xs)
  let ?v = "run drv xs (e, d, q)"
  have v: "operatingMode (fst ?v) = ST_WAIT_BUTTON_DEP
         \<and> sf3_addr_start_val (fst ?v) = last_starting_byte_addr
         \<and> \<not> sf3_start_at_zero (fst ?v)"
    using snoc.IH assms(1-3) by (cases "xs = []") simp_all
  then have "\<not> sf3_addr_start_val (fst ?v) < last_starting_byte_addr" by simp
  with v show ?case
    by (simp add: run_snoc idle_cycle)
qed

lemma last_region_num: "(of_nat 31 :: u32) * 1048576 = last_starting_byte_addr"
  "(of_nat 30 :: u32) * 1048576 + per_iteration_byte_count = last_starting_byte_addr"
  by (simp_all add: consts_num)

theorem C6_idle_after_last_region_witness:
  "operatingMode (fst (run failing_sf3 [(1, 1), (0, 0), (15, 15)]
      (run failing_sf3 (button0_passes 32) (Experiment_InitData (experiData failing_sf3), (), []))))
     = ST_WAIT_BUTTON_DEP
   \<and> sf3_test_done (fst (run failing_sf3 [(1, 1), (0, 0), (15, 15)]
      (run failing_sf3 (button0_passes 32) (Experiment_InitData (experiData failing_sf3), (), []))))"
proof -
  let ?W = "run failing_sf3 (button0_passes 32) (Experiment_InitData (experiData failing_sf3), (), [])"
  have f: "operatingMode (fst ?W) = ST_WAIT_BUTTON_DEP"
          "sf3_addr_start_val (fst ?W) = last_starting_byte_addr"
          "\<not> sf3_start_at_zero (fst ?W)"
    using failing_passes [of 31] last_region_num(1) by (simp_all add: eval_nat_numeral)
  have ne: "[(1, 1), (0, 0), (15, 15)] \<noteq> ([] :: (u32 \<times> u32) list)" by simp
  show ?thesis
    using C6_idle_after_last_region [OF f ne, of failing_sf3 "fst (snd ?W)" "snd (snd ?W)",
            unfolded prod.collapse]
    by simp
qed


text \<open>
  The claim of C6 as it is written takes every reachable state whose start address is
  the last region start and whose flag \<open>sf3_start_at_zero\<close> is clear. The 32nd pass itself
  runs in such states. After 31 passes and the four steps that begin the 32nd one, on the
  device that does not answer, the state is reachable, the start address is the last
  region start, the flag is clear, and the next cycle leaves the task in
  \<open>ST_SET_START_WAIT\<close> with \<open>sf3_test_done\<close> clear.
\<close>

theorem C6_last_pass_running_counterexample:
  "reachable failing_sf3
     (run failing_sf3 (button0_passes 31 @ [(0, 1), (0, 0), (0, 0), (0, 0)])
        (Experiment_InitData (experiData failing_sf3), (), []))
   \<and> sf3_addr_start_val (fst (run failing_sf3 (button0_passes 31 @ [(0, 1), (0, 0), (0, 0), (0, 0)])
        (Experiment_InitData (experiData failing_sf3), (), []))) = last_starting_byte_addr
   \<and> \<not> sf3_start_at_zero (fst (run failing_sf3 (button0_passes 31 @ [(0, 1), (0, 0), (0, 0), (0, 0)])
        (Experiment_InitData (experiData failing_sf3), (), [])))
   \<and> operatingMode (fst (Experiment_prvSf3Task_cycle failing_sf3 (0, 0)
        (run failing_sf3 (button0_passes 31 @ [(0, 1), (0, 0), (0, 0), (0, 0)])
           (Experiment_InitData (experiData failing_sf3), (), [])))) = ST_SET_START_WAIT
   \<and> \<not> sf3_test_done (fst (Experiment_prvSf3Task_cycle failing_sf3 (0, 0)
        (run failing_sf3 (button0_passes 31 @ [(0, 1), (0, 0), (0, 0), (0, 0)])
           (Experiment_InitData (experiData failing_sf3), (), []))))"
proof -
  let ?i = "(Experiment_InitData (experiData failing_sf3), (), [] :: queue_send list)"
  define V where "V = run failing_sf3 (button0_passes 31) ?i"
  define W where "W = run failing_sf3 [(0, 1), (0, 0), (0, 0), (0, 0)] V"
  have r: "run failing_sf3 (button0_passes 31 @ [(0, 1), (0, 0), (0, 0), (0, 0)]) ?i = W"
    by (simp only: run_append W_def V_def)
  have f: "operatingMode (fst V) = ST_WAIT_BUTTON_DEP"
          "sf3_addr_start_val (fst V) = of_nat 30 * 1048576"
          "\<not> sf3_start_at_zero (fst V)"
    using failing_passes [of 30] by (simp_all add: eval_nat_numeral V_def)
  have lt: "sf3_addr_start_val (fst V) < last_starting_byte_addr"
    using region_addr_less [of 30] by (simp add: f consts_num)
  have sel: "wait_button_dep (Experiment_readUserInputs 0 1 (fst V))
                  = (Experiment_readUserInputs 0 1 (fst V))
                      \<lparr> sf3_test_done := False, operatingMode := ST_WAIT_BUTTON_REL,
                        sf3_test_pattern_selected := TEST_PATTERN_A \<rparr>"
    using lt by (simp add: wait_button_dep_def mask_defs Let_def)
  have sW: "operatingMode (fst W) = ST_SET_START_WAIT" "operatingModePrev (fst W) = ST_SET_START_WAIT"
      "unat (cnt_t (fst W)) = 0"
      "sf3_addr_start_val (fst W) = last_starting_byte_addr"
      "\<not> sf3_start_at_zero (fst W)" "\<not> sf3_test_done (fst W)"
    using start_run [of V 0 1 TEST_PATTERN_A failing_sf3 0 "(0, 0)" "(0, 0)", OF f(1) sel, folded W_def]
      lt f(3) last_region_num(2)
    by (simp_all add: f(2))
  have reach: "reachable failing_sf3 W"
    unfolding r [symmetric] by (rule reachable_run [OF reachable_init])
  have nx: "operatingMode (fst (Experiment_prvSf3Task_cycle failing_sf3 (0, 0) W)) = ST_SET_START_WAIT"
           "\<not> sf3_test_done (fst (Experiment_prvSf3Task_cycle failing_sf3 (0, 0) W))"
    using wait_cycle [of W failing_sf3 "(0, 0)"] sW by (simp_all add: pass_cfg_def)
  show ?thesis
    unfolding r using reach sW nx by simp
qed

section \<open>The error count\<close>

text \<open>
  The claim of C2 as it is written fails on the code: the error count is not set to zero
  when a pass begins. On the device that does not answer, the first pass with pattern A
  counts 255 mismatches on each of the 4096 pages. After that pass and the four steps
  through \<open>ST_SET_PATTERN\<close> and \<open>ST_SET_START_ADDR\<close> that begin the second pass, the task
  waits in \<open>ST_SET_START_WAIT\<close>, before the erase phase, and the error count still is
  4096 * 255 = 1044480.
\<close>

theorem C2_count_carried_over_counterexample:
  "operatingMode (fst (run failing_sf3 (button0_passes 1 @ [(0, 1), (0, 0), (0, 0), (0, 0)])
        (Experiment_InitData (experiData failing_sf3), (), []))) = ST_SET_START_WAIT
   \<and> sf3_err_count_val (fst (run failing_sf3 (button0_passes 1 @ [(0, 1), (0, 0), (0, 0), (0, 0)])
        (Experiment_InitData (experiData failing_sf3), (), []))) = 1044480"
proof -
  let ?i = "(Experiment_InitData (experiData failing_sf3), (), [] :: queue_send list)"
  define V where "V = run failing_sf3 (button0_passes 1) ?i"
  define W where "W = run failing_sf3 [(0, 1), (0, 0), (0, 0), (0, 0)] V"
  have r: "run failing_sf3 (button0_passes 1 @ [(0, 1), (0, 0), (0, 0), (0, 0)]) ?i = W"
    by (simp only: run_append W_def V_def)
  have f: "operatingMode (fst V) = ST_WAIT_BUTTON_DEP"
          "sf3_addr_start_val (fst V) = 0"
          "sf3_err_count_val (fst V) = 1044480"
    using failing_passes [of 0] by (simp_all add: V_def)
  have lt: "sf3_addr_start_val (fst V) < last_starting_byte_addr"
    by (simp add: f consts_num)
  have sel: "wait_button_dep (Experiment_readUserInputs 0 1 (fst V))
                  = (Experiment_readUserInputs 0 1 (fst V))
                      \<lparr> sf3_test_done := False, operatingMode := ST_WAIT_BUTTON_REL,
                        sf3_test_pattern_selected := TEST_PATTERN_A \<rparr>"
    using lt by (simp add: wait_button_dep_def mask_defs Let_def)
  show ?thesis
    unfolding r
    using start_run [of V 0 1 TEST_PATTERN_A failing_sf3 0 "(0, 0)" "(0, 0)", OF f(1) sel, folded W_def]
      lt f(3)
    by simp
qed

lemma count_mono_run:
  assumes "reachable drv w" and "SF3_PAGE_SIZE drv \<le> 256"
  shows "unat (sf3_err_count_val (fst w)) \<le> unat (sf3_err_count_val (fst (run drv inps w)))"
proof (induction inps rule: rev_induct)
  case Nil
  then show ?case by simp
next
  case (snoc inp inps)
  have r: "reachable drv (run drv inps w)" by (rule reachable_run [OF assms(1)])
  have "unat (sf3_err_count_val (fst (run drv inps w)))
          \<le> unat (sf3_err_count_val (fst (Experiment_prvSf3Task_cycle drv inp (run drv inps w))))"
    using count_bounded_cycle [OF r assms(2) count_bounded_reachable [OF r assms(2)], of inp]
    by simp
  with snoc show ?case by (simp add: run_snoc)
qed

text \<open>
  C2, amended. \<open>Experiment_InitData\<close> sets the error count to zero, and nothing else does:
  no step of the state machine resets it, so the steps through \<open>ST_SET_PATTERN\<close> and
  \<open>ST_SET_START_ADDR\<close> that begin a new pass leave the count as the passes before left it.
  In every reachable state, with pages of at most 256 bytes: a cycle of the task in a mode
  other than \<open>ST_CMD_READ_START\<close> leaves the count unchanged (among them every cycle from
  \<open>ST_DISPLAY_FINAL\<close> on, when the result has been latched into \<open>sf3_test_pass\<close>); every
  cycle and every run leave the count at least as large as it was, without wrap-around of
  the 32-bit counter; and the count is at most the page size times the 131072 pages of the
  32 regions.  The count is cumulative over the passes.
\<close>

theorem C2_error_count_is_cumulative:
  assumes "reachable drv (e, d, q)" and "SF3_PAGE_SIZE drv \<le> 256"
  shows "sf3_err_count_val (Experiment_InitData (experiData drv)) = 0
       \<and> (operatingMode e \<noteq> ST_CMD_READ_START \<longrightarrow>
            sf3_err_count_val (fst (Experiment_prvSf3Task_cycle drv inp (e, d, q)))
              = sf3_err_count_val e)
       \<and> unat (sf3_err_count_val e)
           \<le> unat (sf3_err_count_val (fst (Experiment_prvSf3Task_cycle drv inp (e, d, q))))
       \<and> unat (sf3_err_count_val e) \<le> unat (sf3_err_count_val (fst (run drv inps (e, d, q))))
       \<and> unat (sf3_err_count_val e) \<le> SF3_PAGE_SIZE drv * 131072"
proof -
  have 1: "sf3_err_count_val (Experiment_InitData (experiData drv)) = 0"
    by (simp add: init_fields)
  have 2: "operatingMode e \<noteq> ST_CMD_READ_START \<longrightarrow>
            sf3_err_count_val (fst (Experiment_prvSf3Task_cycle drv inp (e, d, q)))
              = sf3_err_count_val e"
    using err_kept_cycle [of "(e, d, q)" drv inp] by simp
  note cb = count_bounded_reachable [OF assms]
  have 3: "unat (sf3_err_count_val e)
           \<le> unat (sf3_err_count_val (fst (Experiment_prvSf3Task_cycle drv inp (e, d, q))))"
    using count_bounded_cycle [OF assms cb, of inp] by simp
  have 4: "unat (sf3_err_count_val e) \<le> unat (sf3_err_count_val (fst (run drv inps (e, d, q))))"
    using count_mono_run [OF assms, of inps] by simp
  have "unat (sf3_err_count_val e) \<le> SF3_PAGE_SIZE drv * pages_compared e"
    using cb by (simp add: count_bounded_def)
  also have "\<dots> \<le> SF3_PAGE_SIZE drv * 131072"
    using pages_compared_le [OF assms(1)] by (intro mult_le_mono2) simp
  finally have 5: "unat (sf3_err_count_val e) \<le> SF3_PAGE_SIZE drv * 131072" .
  show ?thesis by (rule conjI [OF 1 conjI [OF 2 conjI [OF 3 conjI [OF 4 5]]]])
qed

theorem C2_error_count_is_cumulative_witness:
  "operatingMode (fst (run failing_sf3 (button0_passes 1)
      (Experiment_InitData (experiData failing_sf3), (), []))) = ST_WAIT_BUTTON_DEP
   \<and> sf3_err_count_val (fst (run failing_sf3 (button0_passes 1)
      (Experiment_InitData (experiData failing_sf3), (), []))) = 1044480
   \<and> sf3_err_count_val (fst (Experiment_prvSf3Task_cycle failing_sf3 (0, 1)
      (run failing_sf3 (button0_passes 1)
         (Experiment_InitData (experiData failing_sf3), (), [])))) = 1044480
   \<and> 1044480 \<le> unat (sf3_err_count_val (fst (run failing_sf3 (button0_passes 1)
      (run failing_sf3 (button0_passes 1)
         (Experiment_InitData (experiData failing_sf3), (), [])))))"
proof -
  define V where "V = run failing_sf3 (button0_passes 1)
                        (Experiment_InitData (experiData failing_sf3), (), [])"
  have r: "reachable failing_sf3 (fst V, fst (snd V), snd (snd V))"
    unfolding V_def by (simp only: prod.collapse) (rule reachable_run [OF reachable_init])
  have f: "operatingMode (fst V) = ST_WAIT_BUTTON_DEP" "sf3_err_count_val (fst V) = 1044480"
    using failing_passes [of 0] by (simp_all add: V_def)
  have c: "(fst V, fst (snd V), snd (snd V)) = V" by (simp only: prod.collapse)
  have "operatingMode (fst V) = ST_WAIT_BUTTON_DEP
      \<and> sf3_err_count_val (fst V) = 1044480
      \<and> sf3_err_count_val (fst (Experiment_prvSf3Task_cycle failing_sf3 (0, 1) V)) = 1044480
      \<and> 1044480 \<le> unat (sf3_err_count_val (fst (run failing_sf3 (button0_passes 1) V)))"
    using C2_error_count_is_cumulative [OF r, of "(0, 1)" "button0_passes 1", unfolded c] f
    by simp
  then show ?thesis unfolding V_def .
qed

section \<open>The start address of the region\<close>

text \<open>
  C7. In every reachable state the start address of the region is a multiple of
  \<open>per_iteration_byte_count\<close> and at most \<open>last_starting_byte_addr\<close>, which is
  \<open>per_iteration_byte_count * 31\<close>; and one more step of the state machine, whatever the
  switches and buttons read, gives a start address with the same two properties.
\<close>

theorem C7_region_start_is_aligned_and_bounded:
  assumes "reachable drv (e, d, q)"
  shows "unat per_iteration_byte_count dvd unat (sf3_addr_start_val e)
       \<and> sf3_addr_start_val e \<le> per_iteration_byte_count * 31
       \<and> last_starting_byte_addr = per_iteration_byte_count * 31
       \<and> unat per_iteration_byte_count dvd
            unat (sf3_addr_start_val (fst (Experiment_operateFSM drv
                    (Experiment_readUserInputs switches buttons e, d, q))))
       \<and> sf3_addr_start_val (fst (Experiment_operateFSM drv
                    (Experiment_readUserInputs switches buttons e, d, q)))
            \<le> per_iteration_byte_count * 31"
proof -
  have a: "unat (sf3_addr_start_val e) mod 1048576 = 0 \<and> sf3_addr_start_val e \<le> 32505856"
    using region_start_reachable [OF assms] by simp
  have b: "unat (sf3_addr_start_val (fst (Experiment_operateFSM drv
                    (Experiment_readUserInputs switches buttons e, d, q)))) mod 1048576 = 0
        \<and> sf3_addr_start_val (fst (Experiment_operateFSM drv
                    (Experiment_readUserInputs switches buttons e, d, q))) \<le> 32505856"
    using a by (intro region_start_FSM) simp
  show ?thesis
    using a b by (simp add: consts_num mod_eq_0_iff_dvd)
qed


theorem C7_region_start_is_aligned_and_bounded_witness:
  "sf3_addr_start_val (fst (run failing_sf3 (button0_passes 2)
        (Experiment_InitData (experiData failing_sf3), (), []))) = 1048576
   \<and> unat per_iteration_byte_count dvd unat (sf3_addr_start_val (fst (run failing_sf3 (button0_passes 2)
        (Experiment_InitData (experiData failing_sf3), (), []))))
   \<and> sf3_addr_start_val (fst (run failing_sf3 (button0_passes 2)
        (Experiment_InitData (experiData failing_sf3), (), []))) \<le> per_iteration_byte_count * 31"
proof -
  let ?W = "run failing_sf3 (button0_passes 2) (Experiment_InitData (experiData failing_sf3), (), [])"
  have "reachable failing_sf3 ?W" by (rule reachable_run [OF reachable_init])
  then have r: "reachable failing_sf3 (fst ?W, fst (snd ?W), snd (snd ?W))"
    by (simp only: prod.collapse)
  have a: "sf3_addr_start_val (fst ?W) = 1048576"
    using failing_passes [of 1] by (simp add: eval_nat_numeral)
  from C7_region_start_is_aligned_and_bounded [OF r, of 0 0]
  have "unat per_iteration_byte_count dvd unat (sf3_addr_start_val (fst ?W))
        \<and> sf3_addr_start_val (fst ?W) \<le> per_iteration_byte_count * 31"
    by blast
  with a show ?thesis by blast
qed

section \<open>The sub-operation index stays within the count of the phase\<close>

text \<open>
  C8. In every reachable state the sub-operation index \<open>sf3_i_val\<close> is below the count of the
  phase while a phase runs (256 subsectors in \<open>ST_CMD_ERASE_START\<close>, 4096 pages in
  \<open>ST_CMD_PAGE_START\<close> and \<open>ST_CMD_READ_START\<close>), at most that count in the \<open>DONE\<close> states, and
  zero elsewhere.  The step of the state machine taken from such a state leaves the index at
  most the count, also after each of the up to 32 commands of a batch, and the mode after the
  step is the \<open>DONE\<close> state of the phase exactly when the index has reached the count.
\<close>

theorem C8_sub_op_index_within_count:
  assumes "reachable drv (e, d, q)"
  shows "(operatingMode e = ST_CMD_ERASE_START \<longrightarrow>
            sf3_i_val e < experi_subsector_cnt_per_iter
          \<and> sf3_i_val (fst (Experiment_operateFSM drv (Experiment_readUserInputs switches buttons e, d, q')))
               \<le> experi_subsector_cnt_per_iter
          \<and> operatingMode (fst (Experiment_operateFSM drv (Experiment_readUserInputs switches buttons e, d, q')))
               = (if sf3_i_val (fst (Experiment_operateFSM drv (Experiment_readUserInputs switches buttons e, d, q')))
                       = experi_subsector_cnt_per_iter
                  then ST_CMD_ERASE_DONE else ST_CMD_ERASE_START))
       \<and> (operatingMode e = ST_CMD_PAGE_START \<longrightarrow>
            sf3_i_val e < experi_page_cnt_per_iter
          \<and> (j \<le> 32 \<longrightarrow>
               sf3_i_val (fst ((cmd_page_start_body drv ^^ j) (Experiment_readUserInputs switches buttons e, d, q')))
                 \<le> experi_page_cnt_per_iter)
          \<and> operatingMode (fst (Experiment_operateFSM drv (Experiment_readUserInputs switches buttons e, d, q')))
               = (if sf3_i_val (fst (Experiment_operateFSM drv (Experiment_readUserInputs switches buttons e, d, q')))
                       = experi_page_cnt_per_iter
                  then ST_CMD_PAGE_DONE else ST_CMD_PAGE_START))
       \<and> (operatingMode e = ST_CMD_READ_START \<longrightarrow>
            sf3_i_val e < experi_page_cnt_per_iter
          \<and> (j \<le> 32 \<longrightarrow>
               sf3_i_val (fst ((cmd_read_start_body drv ^^ j) (Experiment_readUserInputs switches buttons e, d, q')))
                 \<le> experi_page_cnt_per_iter)
          \<and> operatingMode (fst (Experiment_operateFSM drv (Experiment_readUserInputs switches buttons e, d, q')))
               = (if sf3_i_val (fst (Experiment_operateFSM drv (Experiment_readUserInputs switches buttons e, d, q')))
                       = experi_page_cnt_per_iter
                  then ST_CMD_READ_DONE else ST_CMD_READ_START))
       \<and> (operatingMode e = ST_CMD_ERASE_DONE \<longrightarrow> sf3_i_val e \<le> experi_subsector_cnt_per_iter)
       \<and> (operatingMode e = ST_CMD_PAGE_DONE \<or> operatingMode e = ST_CMD_READ_DONE \<longrightarrow>
            sf3_i_val e \<le> experi_page_cnt_per_iter)
       \<and> (operatingMode e = ST_WAIT_BUTTON_DEP \<or> operatingMode e = ST_WAIT_BUTTON_REL
            \<or> operatingMode e = ST_SET_PATTERN \<or> operatingMode e = ST_SET_START_ADDR
            \<or> operatingMode e = ST_SET_START_WAIT \<or> operatingMode e = ST_DISPLAY_FINAL
            \<or> operatingMode e = OPERATING_MODE_NONE \<longrightarrow> sf3_i_val e = 0)"
proof -
  let ?w = "(Experiment_readUserInputs switches buttons e, d, q')"
  have inv: "sub_op_bounded e" using sub_op_bounded_reachable [OF assms] by simp
  have erase: ?thesis if m: "operatingMode e = ST_CMD_ERASE_START"
  proof -
    have lt: "unat (sf3_i_val e) < 256" using inv m by (simp add: sub_op_bounded_def)
    then have u: "unat (sf3_i_val e + 1) = unat (sf3_i_val e) + 1"
      by (simp add: unat_add_lem [THEN iffD1])
    show ?thesis
      using m lt u
      by (auto simp add: FSM_cases consts_num word_less_nat_alt word_le_nat_alt word_unat_eq_iff)
  qed
  have page: ?thesis if m: "operatingMode e = ST_CMD_PAGE_START"
  proof -
    have b: "unat (sf3_i_val e) < 4096" "32 dvd unat (sf3_i_val e)"
      using inv m by (simp_all add: sub_op_bounded_def)
    then have le: "unat (sf3_i_val e) + 32 \<le> 4096" by presburger
    have uj: "unat (sf3_i_val e + of_nat j) = unat (sf3_i_val e) + j" if "j \<le> 32"
      using unat_plus_of_nat [of "sf3_i_val e" j] le that by simp
    have u: "unat (sf3_i_val e + 32) = unat (sf3_i_val e) + 32"
      using unat_plus_of_nat [of "sf3_i_val e" 32] le by simp
    show ?thesis
      using m b le u uj
      by (auto simp add: FSM_cases consts_num page_batch_mode word_less_nat_alt word_le_nat_alt
            word_unat_eq_iff)
  qed
  have read: ?thesis if m: "operatingMode e = ST_CMD_READ_START"
  proof -
    have b: "unat (sf3_i_val e) < 4096" "32 dvd unat (sf3_i_val e)"
      using inv m by (simp_all add: sub_op_bounded_def)
    then have le: "unat (sf3_i_val e) + 32 \<le> 4096" by presburger
    have uj: "unat (sf3_i_val e + of_nat j) = unat (sf3_i_val e) + j" if "j \<le> 32"
      using unat_plus_of_nat [of "sf3_i_val e" j] le that by simp
    have u: "unat (sf3_i_val e + 32) = unat (sf3_i_val e) + 32"
      using unat_plus_of_nat [of "sf3_i_val e" 32] le by simp
    show ?thesis
      using m b le u uj
      by (auto simp add: FSM_cases consts_num read_batch_mode word_less_nat_alt word_le_nat_alt
            word_unat_eq_iff)
  qed
  show ?thesis
  proof (cases "operatingMode e")
    case ST_CMD_ERASE_START then show ?thesis by (rule erase)
  next
    case ST_CMD_PAGE_START then show ?thesis by (rule page)
  next
    case ST_CMD_READ_START then show ?thesis by (rule read)
  qed (use inv in \<open>simp_all add: sub_op_bounded_def consts_num word_le_nat_alt\<close>)
qed

theorem C8_sub_op_index_within_count_witness:
  "operatingMode (fst failing_page_batch_done) = ST_CMD_PAGE_START
   \<and> sf3_i_val (fst failing_page_batch_done) = 32
   \<and> sf3_i_val (fst failing_page_batch_done) < experi_page_cnt_per_iter
   \<and> sf3_i_val (fst ((cmd_page_start_body failing_sf3 ^^ 32)
        (Experiment_readUserInputs 0 0 (fst failing_page_batch_done), (), []))) = 64
   \<and> sf3_i_val (fst ((cmd_page_start_body failing_sf3 ^^ 32)
        (Experiment_readUserInputs 0 0 (fst failing_page_batch_done), (), [])))
        \<le> experi_page_cnt_per_iter
   \<and> operatingMode (fst (Experiment_operateFSM failing_sf3
        (Experiment_readUserInputs 0 0 (fst failing_page_batch_done), (), []))) = ST_CMD_PAGE_START"
proof -
  have r: "reachable failing_sf3
             (fst failing_page_batch_done, fst (snd failing_page_batch_done),
              snd (snd failing_page_batch_done))"
    unfolding failing_page_batch_done_def failing_erase_entry_def run_append [symmetric]
    by (simp only: prod.collapse) (rule reachable_run [OF reachable_init])
  have f: "operatingMode (fst failing_page_batch_done) = ST_CMD_PAGE_START"
          "sf3_i_val (fst failing_page_batch_done) = 32"
    by (rule failing_page_batch_done_fields)+
  have i: "sf3_i_val (fst ((cmd_page_start_body failing_sf3 ^^ 32)
        (Experiment_readUserInputs 0 0 (fst failing_page_batch_done), (), []))) = 64"
    by (simp add: f)
  have n: "sf3_i_val (fst (Experiment_operateFSM failing_sf3
        (Experiment_readUserInputs 0 0 (fst failing_page_batch_done), (), []))) \<noteq> experi_page_cnt_per_iter"
    by (simp add: FSM_cases f consts_num)
  show ?thesis
    using C8_sub_op_index_within_count [OF r, of 0 0 "[]" 32] f i n
    by simp
qed

section \<open>The rate of the display updates\<close>

lemma freerun_cycle:
  "cnt_t_freerun (fst (Experiment_prvSf3Task_cycle drv inp w))
     = (cnt_t_freerun (fst w) + 1) mod cnt_t_max"
  by (simp add: cycle_unfold)

lemma freerun_run:
  "unat (cnt_t_freerun (fst w)) < 300 \<Longrightarrow>
   unat (cnt_t_freerun (fst (run drv inps w))) = (unat (cnt_t_freerun (fst w)) + length inps) mod 300"
proof (induction inps rule: rev_induct)
  case Nil
  then show ?case by simp
next
  case (snoc inp inps)
  let ?a = "cnt_t_freerun (fst (run drv inps w))"
  have lt: "unat ?a < 300" using snoc by simp
  then have u: "unat (?a + 1) = unat ?a + 1" by (simp add: unat_add_lem [THEN iffD1])
  have "unat ((?a + 1) mod cnt_t_max) = (unat ?a + 1) mod 300"
    by (simp add: unat_mod_distrib u consts_num)
  also have "\<dots> = (unat (cnt_t_freerun (fst w)) + length (inps @ [inp])) mod 300"
    using snoc by (simp add: mod_Suc_eq)
  finally show ?case by (simp add: run_snoc freerun_cycle)
qed

lemma update_emits:
  "Experiment_updateClsDisplayAndTerminal e =
     (if unat (cnt_t_freerun e) mod 20 = 0
      then [xQueueClsDispl \<lparr> line1 = Experiment_generateTextLine1 e,
                             line2 = Experiment_generateTextLine2 e \<rparr>,
            xQueuePrint (snprintf PRINTF_BUF_SZ
              (Experiment_generateTextLine1 e @ '' '' @ Experiment_generateTextLine2 e))]
      else [])"
proof -
  have "(cnt_t_freerun e mod 20 = 0) = (unat (cnt_t_freerun e) mod 20 = 0)"
    by (simp add: word_unat_eq_iff unat_mod_distrib)
  then show ?thesis
    by (simp add: Experiment_updateClsDisplayAndTerminal_def consts_num Let_def)
qed

text \<open>
  C10. The update of the display and the terminal sends one message to the display queue
  and then one to the print queue when the free-running counter is a multiple of
  \<open>cnt_t_max / 15 = 20\<close>, and sends nothing otherwise.  The free-running counter counts
  the cycles of the task modulo \<open>cnt_t_max = 300\<close>, so that in a run from the initial data
  the update of cycle \<open>n\<close> (counted from zero) sends exactly when \<open>n\<close> is a multiple of 20.
\<close>

theorem C10_display_update_every_20_cycles:
  "Experiment_updateClsDisplayAndTerminal e =
     (if unat (cnt_t_freerun e) mod (unat cnt_t_max div 15) = 0
      then [xQueueClsDispl \<lparr> line1 = Experiment_generateTextLine1 e,
                             line2 = Experiment_generateTextLine2 e \<rparr>,
            xQueuePrint (snprintf PRINTF_BUF_SZ
              (Experiment_generateTextLine1 e @ '' '' @ Experiment_generateTextLine2 e))]
      else [])
   \<and> unat cnt_t_max = 300 \<and> unat cnt_t_max div 15 = 20
   \<and> unat (cnt_t_freerun (fst (run drv inps (Experiment_InitData (experiData drv), dev, []))))
        = length inps mod 300
   \<and> (Experiment_updateClsDisplayAndTerminal
          (fst (run drv inps (Experiment_InitData (experiData drv), dev, []))) \<noteq> [])
        = (length inps mod 20 = 0)
   \<and> snd (snd (Experiment_prvSf3Task_cycle drv inp (e, d, q)))
        = snd (snd (Experiment_operateFSM drv
            (Experiment_readUserInputs (fst inp) (snd inp) e, d,
             q @ Experiment_updateClsDisplayAndTerminal e)))"
proof -
  let ?w = "(Experiment_InitData (experiData drv), dev, [])"
  have c: "unat cnt_t_max = 300" "unat cnt_t_max div 15 = 20" by (simp_all add: consts_num)
  have f: "unat (cnt_t_freerun (fst (run drv inps ?w))) = length inps mod 300"
    using freerun_run [of ?w drv inps] by (simp add: init_fields)
  have "(length inps mod 300) mod 20 = length inps mod 20"
    by (rule mod_mod_cancel) simp
  then have g: "(Experiment_updateClsDisplayAndTerminal (fst (run drv inps ?w)) \<noteq> [])
        = (length inps mod 20 = 0)"
    by (simp add: update_emits f)
  have h: "snd (snd (Experiment_prvSf3Task_cycle drv inp (e, d, q)))
        = snd (snd (Experiment_operateFSM drv
            (Experiment_readUserInputs (fst inp) (snd inp) e, d,
             q @ Experiment_updateClsDisplayAndTerminal e)))"
    by (simp add: cycle_unfold)
  show ?thesis
    using update_emits [of e] f g h c by simp
qed

theorem C10_display_update_every_20_cycles_witness:
  "Experiment_updateClsDisplayAndTerminal (Experiment_InitData (experiData failing_sf3))
     = [xQueueClsDispl \<lparr> line1 = ''SF3 P* h00000000'', line2 = ''GO  ERR 00000000'' \<rparr>,
        xQueuePrint ''SF3 P* h00000000 GO  ERR 00000000'']
   \<and> unat (cnt_t_freerun (fst (run failing_sf3 (replicate 320 (0, 0))
              (Experiment_InitData (experiData failing_sf3), (), [])))) = 20
   \<and> Experiment_updateClsDisplayAndTerminal (fst (run failing_sf3 (replicate 320 (0, 0))
              (Experiment_InitData (experiData failing_sf3), (), []))) \<noteq> []
   \<and> Experiment_updateClsDisplayAndTerminal (fst (run failing_sf3 (replicate 321 (0, 0))
              (Experiment_InitData (experiData failing_sf3), (), []))) = []"
proof -
  have t: "Experiment_generateTextLine1 (Experiment_InitData (experiData failing_sf3)) = ''SF3 P* h00000000''"
          "Experiment_generateTextLine2 (Experiment_InitData (experiData failing_sf3)) = ''GO  ERR 00000000''"
    by code_simp+
  have s: "snprintf PRINTF_BUF_SZ ''SF3 P* h00000000 GO  ERR 00000000''
             = ''SF3 P* h00000000 GO  ERR 00000000''"
    by code_simp
  show ?thesis
    using C10_display_update_every_20_cycles
            [of "Experiment_InitData (experiData failing_sf3)" failing_sf3 "[]" "()"]
          C10_display_update_every_20_cycles
            [of "Experiment_InitData (experiData failing_sf3)" failing_sf3 "replicate 320 (0, 0)" "()"]
          C10_display_update_every_20_cycles
            [of "Experiment_InitData (experiData failing_sf3)" failing_sf3 "replicate 321 (0, 0)" "()"]
    by (simp add: init_fields t s)
qed

section \<open>Failed driver calls in the erase phase\<close>

text \<open>
  C9. In \<open>ST_CMD_ERASE_START\<close>, for every driver: the step sends one message to the print
  queue for the write enable when that call fails and one for the subsector erase when that
  call fails, and no other; it adds one to \<open>sf3_i_val\<close> whatever the two calls return; and
  the mode after the step depends on the new index only.  So a run that starts in the erase
  phase with index \<open>i\<close> below 256 is in \<open>ST_CMD_ERASE_DONE\<close> after exactly \<open>256 - i\<close> cycles,
  and in \<open>ST_CMD_ERASE_START\<close> before, with any two drivers and devices alike.
\<close>

theorem C9_failed_erase_is_logged_and_counted:
  assumes "operatingMode e = ST_CMD_ERASE_START"
  shows "snd (snd (Experiment_operateFSM drv (e, d, q)))
           = q @ (if fst (SF3_FlashWriteEnable drv d) \<noteq> XST_SUCCESS
                  then [xQueuePrint ''WEN Fail''] else [])
               @ (if fst (SF3_SectorErase drv (snd (SF3_FlashWriteEnable drv d))
                            (sf3_addr_start_val e + sf3_i_val e * sf3_subsector_addr_incr))
                       \<noteq> XST_SUCCESS
                  then [xQueuePrint (''Ers Fail ''
                          @ fmt_08lx (sf3_addr_start_val e + sf3_i_val e * sf3_subsector_addr_incr))]
                  else [])
       \<and> sf3_i_val (fst (Experiment_operateFSM drv (e, d, q))) = sf3_i_val e + 1
       \<and> operatingMode (fst (Experiment_operateFSM drv (e, d, q)))
           = (if sf3_i_val e + 1 < experi_subsector_cnt_per_iter
              then ST_CMD_ERASE_START else ST_CMD_ERASE_DONE)
       \<and> (unat (sf3_i_val e) < 256 \<and> unat (sf3_i_val e) + length inps \<le> 256 \<longrightarrow>
            sf3_i_val (fst (run drv inps (e, d, q))) = sf3_i_val e + of_nat (length inps)
          \<and> operatingMode (fst (run drv inps (e, d, q)))
              = (if unat (sf3_i_val e) + length inps < 256
                 then ST_CMD_ERASE_START else ST_CMD_ERASE_DONE)
          \<and> operatingMode (fst (run drv inps (e, d, q)))
              = operatingMode (fst (run drv' inps (e, d', q')))
          \<and> sf3_i_val (fst (run drv inps (e, d, q)))
              = sf3_i_val (fst (run drv' inps (e, d', q'))))"
proof -
  have 1: "Experiment_operateFSM drv (e, d, q) = cmd_erase_start drv (e, d, q)"
    using assms by (simp add: FSM_cases)
  have 2: "unat (sf3_i_val e) < 256 \<and> unat (sf3_i_val e) + length inps \<le> 256 \<longrightarrow>
            sf3_i_val (fst (run drv inps (e, d, q))) = sf3_i_val e + of_nat (length inps)
          \<and> operatingMode (fst (run drv inps (e, d, q)))
              = (if unat (sf3_i_val e) + length inps < 256
                 then ST_CMD_ERASE_START else ST_CMD_ERASE_DONE)
          \<and> operatingMode (fst (run drv inps (e, d, q)))
              = operatingMode (fst (run drv' inps (e, d', q')))
          \<and> sf3_i_val (fst (run drv inps (e, d, q)))
              = sf3_i_val (fst (run drv' inps (e, d', q')))"
    using erase_run_any_driver [of "(e, d, q)" inps drv]
          erase_run_any_driver [of "(e, d', q')" inps drv'] assms
    by simp
  have 3: "sf3_i_val (fst (cmd_erase_start drv (e, d, q))) = sf3_i_val e + 1"
    by (simp add: cmd_erase_start_next)
  have 4: "operatingMode (fst (cmd_erase_start drv (e, d, q)))
           = (if sf3_i_val e + 1 < experi_subsector_cnt_per_iter
              then ST_CMD_ERASE_START else ST_CMD_ERASE_DONE)"
    by (simp add: cmd_erase_start_next)
  show ?thesis
    unfolding 1 by (rule conjI [OF cmd_erase_start_sent conjI [OF 3 conjI [OF 4 2]]])
qed

theorem C9_failed_erase_is_logged_and_counted_witness:
  "operatingMode (fst failing_erase_entry) = ST_CMD_ERASE_START
   \<and> snd (snd (Experiment_operateFSM failing_sf3 (fst failing_erase_entry, (), [])))
       = [xQueuePrint ''WEN Fail'', xQueuePrint ''Ers Fail 00000000'']
   \<and> sf3_i_val (fst (Experiment_operateFSM failing_sf3 (fst failing_erase_entry, (), []))) = 1
   \<and> operatingMode (fst (run failing_sf3 (replicate 256 (0, 0)) (fst failing_erase_entry, (), [])))
       = ST_CMD_ERASE_DONE
   \<and> operatingMode (fst (run (ideal_sf3 256 4 4) (replicate 256 (0, 0))
                            (fst failing_erase_entry, (\<lambda>a. 0), [])))
       = ST_CMD_ERASE_DONE"
proof -
  have h: "fmt_08lx 0 = ''00000000''" by code_simp
  have f: "fst (SF3_FlashWriteEnable failing_sf3 ()) \<noteq> XST_SUCCESS"
          "fst (SF3_SectorErase failing_sf3 (snd (SF3_FlashWriteEnable failing_sf3 ())) 0) \<noteq> XST_SUCCESS"
    by (simp_all add: failing_sf3_def)
  show ?thesis
    using C9_failed_erase_is_logged_and_counted
            [of "fst failing_erase_entry" failing_sf3 "()" "[]" "replicate 256 (0, 0)"
                "ideal_sf3 256 4 4" "\<lambda>a. 0" "[]"]
          f
    by (auto simp add: failing_erase_entry_fields h)
qed

section \<open>The pattern is page-local\<close>

text \<open>
  C4. The pattern is page-local in the program and in the read phase.  In every reachable
  state in \<open>ST_CMD_PAGE_START\<close>, before each of the 32 page commands of the batch the
  pattern cursor \<open>sf3_pattern_track_val\<close> stands at \<open>sf3_pattern_start_val\<close>, and the command
  fills byte \<open>i\<close> of the page (at index \<open>i + SF3_WRITE_EXTRA_BYTES\<close> of the write buffer, the
  buffer handed to \<open>SF3_FlashWrite\<close>) with start value plus \<open>i\<close> times the increment, modulo
  256.  In every reachable state in \<open>ST_CMD_READ_START\<close>, each of the 32 read commands adds to
  the error count the number of bytes \<open>i\<close> of the page read that differ from start value plus
  \<open>i\<close> times the increment, and leaves the cursor at the start value.  In the erase,
  program and read phases the start value and the increment are \<open>0x00\<close> and \<open>0x01\<close> for
  pattern A, and \<open>0x18\<close> and \<open>0x17\<close> for pattern D.
\<close>

theorem C4_pattern_is_page_local:
  assumes "reachable drv (e, d, q)"
  shows "(operatingMode e = ST_CMD_PAGE_START \<and> j < 32 \<and> i < SF3_PAGE_SIZE drv \<longrightarrow>
            sf3_pattern_track_val (fst ((cmd_page_start_body drv ^^ j)
                (Experiment_readUserInputs switches buttons e, d, q'))) = sf3_pattern_start_val e
          \<and> WriteBuffer (fst ((cmd_page_start_body drv ^^ Suc j)
                (Experiment_readUserInputs switches buttons e, d, q'))) ! (i + SF3_WRITE_EXTRA_BYTES drv)
               = sf3_pattern_start_val e + of_nat i * sf3_pattern_incr_val e
          \<and> unat (WriteBuffer (fst ((cmd_page_start_body drv ^^ Suc j)
                (Experiment_readUserInputs switches buttons e, d, q'))) ! (i + SF3_WRITE_EXTRA_BYTES drv))
               = (unat (sf3_pattern_start_val e) + i * unat (sf3_pattern_incr_val e)) mod 256
          \<and> fst (snd ((cmd_page_start_body drv ^^ Suc j)
                (Experiment_readUserInputs switches buttons e, d, q')))
               = snd (SF3_FlashWrite drv
                   (snd (SF3_FlashWriteEnable drv (fst (snd ((cmd_page_start_body drv ^^ j)
                      (Experiment_readUserInputs switches buttons e, d, q'))))))
                   (sf3_addr_start_val e + (sf3_i_val e + of_nat j) * sf3_page_addr_incr)
                   (SF3_PAGE_SIZE drv)
                   (WriteBuffer (fst ((cmd_page_start_body drv ^^ Suc j)
                      (Experiment_readUserInputs switches buttons e, d, q')))))
         )
       \<and> (operatingMode e = ST_CMD_READ_START \<and> j < 32 \<longrightarrow>
            sf3_err_count_val (fst ((cmd_read_start_body drv ^^ Suc j)
                (Experiment_readUserInputs switches buttons e, d, q')))
              = sf3_err_count_val (fst ((cmd_read_start_body drv ^^ j)
                  (Experiment_readUserInputs switches buttons e, d, q')))
                + of_nat (length (filter
                    (\<lambda>i. ReadBuffer (fst ((cmd_read_start_body drv ^^ Suc j)
                              (Experiment_readUserInputs switches buttons e, d, q')))
                            ! (i + SF3_READ_MIN_EXTRA_BYTES drv)
                          \<noteq> sf3_pattern_start_val e + of_nat i * sf3_pattern_incr_val e)
                    [0..<SF3_PAGE_SIZE drv]))
          \<and> sf3_pattern_track_val (fst ((cmd_read_start_body drv ^^ Suc j)
                (Experiment_readUserInputs switches buttons e, d, q'))) = sf3_pattern_start_val e)
       \<and> ((operatingMode e = ST_CMD_ERASE_START \<or> operatingMode e = ST_CMD_PAGE_START
            \<or> operatingMode e = ST_CMD_READ_START)
           \<and> sf3_test_pattern_selected e = TEST_PATTERN_A \<longrightarrow>
            sf3_pattern_start_val e = 0x00 \<and> sf3_pattern_incr_val e = 0x01)
       \<and> ((operatingMode e = ST_CMD_ERASE_START \<or> operatingMode e = ST_CMD_PAGE_START
            \<or> operatingMode e = ST_CMD_READ_START)
           \<and> sf3_test_pattern_selected e = TEST_PATTERN_D \<longrightarrow>
            sf3_pattern_start_val e = 0x18 \<and> sf3_pattern_incr_val e = 0x17)"
proof -
  let ?w = "(Experiment_readUserInputs switches buttons e, d, q')"
  let ?P = "\<lambda>n. (cmd_page_start_body drv ^^ n) ?w"
  let ?R = "\<lambda>n. (cmd_read_start_body drv ^^ n) ?w"
  have sub: "sub_op_bounded e" using sub_op_bounded_reachable [OF assms] by simp
  have lat: "pattern_latched e" using pattern_latched_reachable [OF assms] by simp
  have len: "length (WriteBuffer e) = SF3_PAGE_SIZE drv + SF3_WRITE_EXTRA_BYTES drv"
    using buffer_lengths_reachable [OF assms] by simp
  have page: "sf3_pattern_track_val (fst (?P j)) = sf3_pattern_start_val e
          \<and> WriteBuffer (fst (?P (Suc j))) ! (i + SF3_WRITE_EXTRA_BYTES drv)
               = sf3_pattern_start_val e + of_nat i * sf3_pattern_incr_val e
          \<and> unat (WriteBuffer (fst (?P (Suc j))) ! (i + SF3_WRITE_EXTRA_BYTES drv))
               = (unat (sf3_pattern_start_val e) + i * unat (sf3_pattern_incr_val e)) mod 256
          \<and> fst (snd (?P (Suc j)))
               = snd (SF3_FlashWrite drv (snd (SF3_FlashWriteEnable drv (fst (snd (?P j)))))
                   (sf3_addr_start_val e + (sf3_i_val e + of_nat j) * sf3_page_addr_incr)
                   (SF3_PAGE_SIZE drv) (WriteBuffer (fst (?P (Suc j)))))"
    if m: "operatingMode e = ST_CMD_PAGE_START" and i: "i < SF3_PAGE_SIZE drv"
  proof -
    have t0: "sf3_pattern_track_val e = sf3_pattern_start_val e"
      using sub m by (simp add: sub_op_bounded_def)
    have t: "sf3_pattern_track_val (fst (?P j)) = sf3_pattern_start_val e"
    proof (cases j)
      case 0
      then show ?thesis by (simp add: t0 Experiment_readUserInputs_def)
    next
      case (Suc k)
      then show ?thesis by (simp add: page_batch_track)
    qed
    have l: "i + SF3_WRITE_EXTRA_BYTES drv < length (WriteBuffer (fst (?P j)))"
      using i len by simp
    have s: "?P (Suc j) = cmd_page_start_body drv (?P j)" by simp
    have b: "WriteBuffer (fst (?P (Suc j))) ! (i + SF3_WRITE_EXTRA_BYTES drv)
               = sf3_pattern_start_val e + of_nat i * sf3_pattern_incr_val e"
      unfolding s using page_body_WriteBuffer [OF i l] t by simp
    have u: "unat (WriteBuffer (fst (?P (Suc j))) ! (i + SF3_WRITE_EXTRA_BYTES drv))
               = (unat (sf3_pattern_start_val e) + i * unat (sf3_pattern_incr_val e)) mod 256"
      unfolding b by (rule pattern_byte_mod)
    have w: "fst (snd (?P (Suc j)))
               = snd (SF3_FlashWrite drv (snd (SF3_FlashWriteEnable drv (fst (snd (?P j)))))
                   (sf3_addr_start_val e + (sf3_i_val e + of_nat j) * sf3_page_addr_incr)
                   (SF3_PAGE_SIZE drv) (WriteBuffer (fst (?P (Suc j)))))"
      using page_body_written [of drv "?P j"] unfolding s [symmetric] by simp
    show ?thesis using t b u w by blast
  qed
  have read: "sf3_err_count_val (fst (?R (Suc j)))
              = sf3_err_count_val (fst (?R j))
                + of_nat (length (filter
                    (\<lambda>i. ReadBuffer (fst (?R (Suc j))) ! (i + SF3_READ_MIN_EXTRA_BYTES drv)
                          \<noteq> sf3_pattern_start_val e + of_nat i * sf3_pattern_incr_val e)
                    [0..<SF3_PAGE_SIZE drv]))
          \<and> sf3_pattern_track_val (fst (?R (Suc j))) = sf3_pattern_start_val e"
  proof -
    have s: "?R (Suc j) = cmd_read_start_body drv (?R j)" by simp
    have "sf3_err_count_val (fst (?R (Suc j)))
              = sf3_err_count_val (fst (?R j))
                + of_nat (length (filter
                    (\<lambda>i. ReadBuffer (fst (?R (Suc j))) ! (i + SF3_READ_MIN_EXTRA_BYTES drv)
                          \<noteq> sf3_pattern_start_val e + of_nat i * sf3_pattern_incr_val e)
                    [0..<SF3_PAGE_SIZE drv]))"
      using read_body_err [of drv "?R j"] unfolding s [symmetric] by simp
    moreover have "sf3_pattern_track_val (fst (?R (Suc j))) = sf3_pattern_start_val e"
      by (simp add: read_batch_track)
    ultimately show ?thesis by blast
  qed
  have pcs: "sf3_test_pattern_selected e = TEST_PATTERN_A \<longrightarrow>
                  sf3_pattern_start_val e = 0x00 \<and> sf3_pattern_incr_val e = 0x01"
               "sf3_test_pattern_selected e = TEST_PATTERN_D \<longrightarrow>
                  sf3_pattern_start_val e = 0x18 \<and> sf3_pattern_incr_val e = 0x17"
    if "operatingMode e = ST_CMD_ERASE_START \<or> operatingMode e = ST_CMD_PAGE_START
            \<or> operatingMode e = ST_CMD_READ_START"
    using that lat
    by (auto simp add: pattern_latched_def set_pattern_def Let_def
          sf3_test_pattern_startval_a_def sf3_test_pattern_incrval_a_def
          sf3_test_pattern_startval_d_def sf3_test_pattern_incrval_d_def)
  show ?thesis using page read pcs by blast
qed

theorem C4_pattern_is_page_local_witness:
  "operatingMode (fst failing_page_batch_done) = ST_CMD_PAGE_START
   \<and> sf3_test_pattern_selected (fst failing_page_batch_done) = TEST_PATTERN_A
   \<and> sf3_pattern_start_val (fst failing_page_batch_done) = 0
   \<and> sf3_pattern_incr_val (fst failing_page_batch_done) = 1
   \<and> sf3_pattern_track_val (fst ((cmd_page_start_body failing_sf3 ^^ 1)
        (Experiment_readUserInputs 0 0 (fst failing_page_batch_done), (), []))) = 0
   \<and> WriteBuffer (fst ((cmd_page_start_body failing_sf3 ^^ 2)
        (Experiment_readUserInputs 0 0 (fst failing_page_batch_done), (), []))) ! (5 + 4) = 5
   \<and> operatingMode (fst failing_read_entry) = ST_CMD_READ_START
   \<and> sf3_pattern_track_val (fst ((cmd_read_start_body failing_sf3 ^^ 1)
        (Experiment_readUserInputs 0 0 (fst failing_read_entry), (), [])))
       = sf3_pattern_start_val (fst failing_read_entry)
   \<and> operatingMode (fst pattern_D_erase_entry) = ST_CMD_ERASE_START
   \<and> sf3_test_pattern_selected (fst pattern_D_erase_entry) = TEST_PATTERN_D
   \<and> sf3_pattern_start_val (fst pattern_D_erase_entry) = 0x18
   \<and> sf3_pattern_incr_val (fst pattern_D_erase_entry) = 0x17"
proof -
  have r1: "reachable failing_sf3
             (fst failing_page_batch_done, fst (snd failing_page_batch_done),
              snd (snd failing_page_batch_done))"
    unfolding failing_page_batch_done_def failing_erase_entry_def run_append [symmetric]
    by (simp only: prod.collapse) (rule reachable_run [OF reachable_init])
  have r2: "reachable failing_sf3
             (fst failing_read_entry, fst (snd failing_read_entry), snd (snd failing_read_entry))"
    unfolding failing_read_entry_def failing_erase_entry_def run_append [symmetric]
    by (simp only: prod.collapse) (rule reachable_run [OF reachable_init])
  have r3: "reachable (ideal_sf3 256 4 4)
             (fst pattern_D_erase_entry, fst (snd pattern_D_erase_entry),
              snd (snd pattern_D_erase_entry))"
    unfolding pattern_D_erase_entry_def
    by (simp only: prod.collapse) (rule reachable_run [OF reachable_init])
  have p2: "(cmd_page_start_body failing_sf3 ^^ 2) w
              = cmd_page_start_body failing_sf3 (cmd_page_start_body failing_sf3 w)" for w
    by (simp add: numeral_2_eq_2)
  note f = failing_page_batch_done_fields failing_page_batch_done_pattern
           failing_read_entry_fields pattern_D_erase_entry_fields
  show ?thesis
    using C4_pattern_is_page_local [OF r1, of 1 5 0 0 "[]"]
          C4_pattern_is_page_local [OF r2, of 0 0 0 0 "[]"]
          C4_pattern_is_page_local [OF r3, of 0 0 0 0 "[]"]
    by (auto simp add: f p2)
qed

end
